theory Spec2Isabelle
  imports Complex_Main "HOL-Library.AList" "HOL-Library.Log_Nat"
begin

section \<open>Python values and the operations the scripts apply to them\<close>

text \<open>
  The scripts work on what \<^verbatim>\<open>json.load\<close> returns and on dict literals of their own.
  One datatype covers both: \<open>JNull\<close> is Python's \<^verbatim>\<open>None\<close>, a dict is an association
  list in insertion order. Numbers (Python \<^verbatim>\<open>int\<close> and \<^verbatim>\<open>float\<close>) are reals, and a
  string is a list of characters with the code points 0 to 255. The divisions of the two
  report parsers and of the comparison engine are exact; the arithmetic of the Bitcoin
  Core benchmark on its timing samples rounds every result to double precision, as
  Python's \<^verbatim>\<open>float\<close> does. Infinities and NaN have no counterpart among the reals.
\<close>

datatype json =
    JNull
  | JBool bool
  | JNum real
  | JStr string
  | JArr "json list"
  | JObj "(string \<times> json) list"

type_synonym dict = "(string \<times> json) list"

datatype py_error =
  TypeError | KeyError | AttributeError | IndexError | OSError | TimeoutExpired | SystemExit
  | UnicodeDecodeError

text \<open>Sequencing of computations that may raise: the first exception wins.\<close>

definition py_bind :: "py_error + 'a \<Rightarrow> ('a \<Rightarrow> py_error + 'b) \<Rightarrow> py_error + 'b" where
  "py_bind m f = (case m of Inl e \<Rightarrow> Inl e | Inr x \<Rightarrow> f x)"

text \<open>\<^verbatim>\<open>bool(v)\<close>, as \<^verbatim>\<open>if v\<close> and \<^verbatim>\<open>not v\<close> use it.\<close>

fun truthy :: "json \<Rightarrow> bool" where
  "truthy JNull = False"
| "truthy (JBool b) = b"
| "truthy (JNum x) = (x \<noteq> 0)"
| "truthy (JStr s) = (s \<noteq> [])"
| "truthy (JArr xs) = (xs \<noteq> [])"
| "truthy (JObj d) = (d \<noteq> [])"

text \<open>The numeric reading of a value in arithmetic: \<^verbatim>\<open>bool\<close> is a subtype of \<^verbatim>\<open>int\<close>.\<close>

fun num_of :: "json \<Rightarrow> real option" where
  "num_of (JNum x) = Some x"
| "num_of (JBool b) = Some (if b then 1 else 0)"
| "num_of _ = None"

text \<open>\<^verbatim>\<open>p in s\<close> on two strings: \<open>p\<close> occurs in \<open>s\<close> as a contiguous piece.\<close>

fun is_substr :: "string \<Rightarrow> string \<Rightarrow> bool" where
  "is_substr p [] = (p = [])"
| "is_substr p (c # cs) = (take (length p) (c # cs) = p \<or> is_substr p cs)"

text \<open>
  \<^verbatim>\<open>k in v\<close> for a string \<open>k\<close>: key test on a dict, element test on a list, substring
  test on a string, \<^verbatim>\<open>TypeError\<close> (argument is not iterable) on a number, a boolean
  and \<^verbatim>\<open>None\<close>.
\<close>

fun py_in :: "string \<Rightarrow> json \<Rightarrow> py_error + bool" where
  "py_in k (JObj d) = Inr (map_of d k \<noteq> None)"
| "py_in k (JArr xs) = Inr (List.member xs (JStr k))"
| "py_in k (JStr s) = Inr (is_substr k s)"
| "py_in k _ = Inl TypeError"

text \<open>
  \<^verbatim>\<open>v[k]\<close> for a string \<open>k\<close>: \<^verbatim>\<open>KeyError\<close> on a dict without the key, \<^verbatim>\<open>TypeError\<close>
  on everything else (a list and a string want integer indices, the rest is not
  subscriptable).
\<close>

fun py_getitem :: "json \<Rightarrow> string \<Rightarrow> py_error + json" where
  "py_getitem (JObj d) k = (case map_of d k of Some v \<Rightarrow> Inr v | None \<Rightarrow> Inl KeyError)"
| "py_getitem _ k = Inl TypeError"

text \<open>\<^verbatim>\<open>v.get(k, default)\<close>: only a dict has the method.\<close>

fun py_get :: "json \<Rightarrow> string \<Rightarrow> json \<Rightarrow> py_error + json" where
  "py_get (JObj d) k dflt = Inr (case map_of d k of Some v \<Rightarrow> v | None \<Rightarrow> dflt)"
| "py_get _ k dflt = Inl AttributeError"

text \<open>\<^verbatim>\<open>a / b\<close> with a non-zero constant or guarded divisor, and \<^verbatim>\<open>v > 0\<close>.\<close>

definition py_truediv :: "json \<Rightarrow> json \<Rightarrow> py_error + json" where
  "py_truediv a b =
     (case (num_of a, num_of b) of
        (Some x, Some y) \<Rightarrow> Inr (JNum (x / y))
      | _ \<Rightarrow> Inl TypeError)"

definition py_gt0 :: "json \<Rightarrow> py_error + bool" where
  "py_gt0 v = (case num_of v of Some x \<Rightarrow> Inr (0 < x) | None \<Rightarrow> Inl TypeError)"

section \<open>Statistics report parser of the comparison script\<close>

text \<open>What \<^verbatim>\<open>open\<close> and \<^verbatim>\<open>json.load\<close> make of a file.\<close>

datatype load_result = Unreadable | NotJson | Loaded json

datatype log_msg = WARNING py_error | WARNING_load | ERROR py_error | ERROR_load

text \<open>
  The body of the loop of \<^verbatim>\<open>parse_criterion_results\<close> in
  \<^verbatim>\<open>compare_benchmarks.py\<close> for one entry: \<open>Inr None\<close> when the entry is skipped,
  \<open>Inr (Some stats)\<close> when it yields a statistic, \<open>Inl e\<close> when it raises.
  The dict literal and the later assignments to fresh keys are written as one list in
  the order of insertion.
\<close>

definition ci_bound :: "json \<Rightarrow> string \<Rightarrow> py_error + json" where
  "ci_bound mean k =
     py_bind (py_get mean ''confidence_interval'' (JObj [])) (\<lambda>ci. py_get ci k JNull)"

definition opt_ns_ms :: "json \<Rightarrow> string \<Rightarrow> string \<Rightarrow> string \<Rightarrow> py_error + dict" where
  "opt_ns_ms benchmark_data k k_ns k_ms =
     py_bind (py_in k benchmark_data) (\<lambda>has.
       if has then
         py_bind (py_getitem benchmark_data k) (\<lambda>v.
         py_bind (py_truediv v (JNum 1000000)) (\<lambda>v_ms.
           Inr [(k_ns, v), (k_ms, v_ms)]))
       else Inr [])"

definition opt_median :: "json \<Rightarrow> py_error + dict" where
  "opt_median benchmark_data =
     py_bind (py_in ''median'' benchmark_data) (\<lambda>has.
       if has then
         py_bind (py_getitem benchmark_data ''median'') (\<lambda>median.
         py_bind (py_in ''point_estimate'' median) (\<lambda>has_pe.
           if has_pe then
             py_bind (py_getitem median ''point_estimate'') (\<lambda>v.
             py_bind (py_truediv v (JNum 1000000)) (\<lambda>v_ms.
               Inr [(''median_ns'', v), (''median_ms'', v_ms)]))
           else Inr []))
       else Inr [])"

definition opt_throughput :: "json \<Rightarrow> py_error + dict" where
  "opt_throughput mean_ns =
     py_bind (py_gt0 mean_ns) (\<lambda>pos.
       if pos then
         py_bind (py_truediv (JNum 1000000000) mean_ns) (\<lambda>t.
           Inr [(''throughput_ops_per_sec'', t)])
       else Inr [])"

definition opt_samples :: "json \<Rightarrow> py_error + dict" where
  "opt_samples benchmark_data =
     py_bind (py_in ''sample_count'' benchmark_data) (\<lambda>has.
       if has then
         py_bind (py_getitem benchmark_data ''sample_count'') (\<lambda>v. Inr [(''samples'', v)])
       else Inr [])"

definition parse_entry :: "json \<Rightarrow> py_error + dict option" where
  "parse_entry benchmark_data =
     py_bind (py_in ''mean'' benchmark_data) (\<lambda>has_mean.
       if \<not> has_mean then Inr None else
     py_bind (py_getitem benchmark_data ''mean'') (\<lambda>mean.
     py_bind (py_in ''point_estimate'' mean) (\<lambda>has_pe.
       if \<not> has_pe then Inr None else
     py_bind (py_getitem mean ''point_estimate'') (\<lambda>mean_ns.
     py_bind (py_truediv mean_ns (JNum 1000000)) (\<lambda>mean_ms.
     py_bind (ci_bound mean ''lower_bound'') (\<lambda>lower.
     py_bind (ci_bound mean ''upper_bound'') (\<lambda>upper.
     py_bind (opt_ns_ms benchmark_data ''min'' ''min_ns'' ''min_ms'') (\<lambda>mins.
     py_bind (opt_ns_ms benchmark_data ''max'' ''max_ns'' ''max_ms'') (\<lambda>maxs.
     py_bind (opt_median benchmark_data) (\<lambda>medians.
     py_bind (opt_throughput mean_ns) (\<lambda>throughput.
     py_bind (opt_samples benchmark_data) (\<lambda>samples.
       Inr (Some ([(''mean_ns'', mean_ns), (''mean_ms'', mean_ms),
                   (''lower_bound_ns'', lower), (''upper_bound_ns'', upper)]
                  @ mins @ maxs @ medians @ throughput @ samples))))))))))))))"

text \<open>The loop over \<^verbatim>\<open>data.items()\<close>; \<^verbatim>\<open>results[name] = stats\<close> is \<open>AList.update\<close>.\<close>

fun parse_items :: "dict \<Rightarrow> dict \<Rightarrow> py_error + dict" where
  "parse_items [] results = Inr results"
| "parse_items ((benchmark_name, benchmark_data) # rest) results =
     py_bind (parse_entry benchmark_data) (\<lambda>r.
       parse_items rest
         (case r of None \<Rightarrow> results
          | Some stats \<Rightarrow> AList.update benchmark_name (JObj stats) results))"

text \<open>
  \<^verbatim>\<open>parse_criterion_results\<close>: the result set and what was printed. Every exception
  inside the \<^verbatim>\<open>try\<close> is caught, a warning is printed and the result is empty.
\<close>

definition parse_criterion_results :: "load_result \<Rightarrow> dict \<times> log_msg list" where
  "parse_criterion_results file =
     (case file of
        Unreadable \<Rightarrow> ([], [WARNING_load])
      | NotJson \<Rightarrow> ([], [WARNING_load])
      | Loaded (JObj items) \<Rightarrow>
          (case parse_items items [] of
             Inr results \<Rightarrow> (results, [])
           | Inl e \<Rightarrow> ([], [WARNING e]))
      | Loaded _ \<Rightarrow> ([], []))"

text \<open>
  A value that \<^verbatim>\<open>in\<close> can search: a dict, a list or a string. Numbers, booleans and
  \<^verbatim>\<open>None\<close> are not containers.
\<close>

definition is_container :: "json \<Rightarrow> bool" where
  "is_container v =
     (case v of JStr _ \<Rightarrow> True | JArr _ \<Rightarrow> True | JObj _ \<Rightarrow> True | _ \<Rightarrow> False)"

text \<open>
  The mean point estimate of a report entry, in nanoseconds, when the entry is an object
  whose \<^verbatim>\<open>mean\<close> is an object with a numeric \<^verbatim>\<open>point_estimate\<close>.
\<close>

definition point_estimate :: "json \<Rightarrow> real option" where
  "point_estimate entry =
     (case entry of
        JObj bd \<Rightarrow>
          (case map_of bd ''mean'' of
             Some (JObj m) \<Rightarrow>
               (case map_of m ''point_estimate'' of Some v \<Rightarrow> num_of v | None \<Rightarrow> None)
           | _ \<Rightarrow> None)
      | _ \<Rightarrow> None)"

text \<open>
  An entry in which the two membership tests of the loop body can be made and one of them
  fails: there is no \<^verbatim>\<open>mean\<close> in the entry, or there is no \<^verbatim>\<open>point_estimate\<close> in its
  \<^verbatim>\<open>mean\<close>. The test is by key in an object, by element in a list and by substring in a
  string; a list or a string that passes the first test cannot be indexed by
  \<^verbatim>\<open>"mean"\<close>.
\<close>

definition lacks_point_estimate :: "json \<Rightarrow> bool" where
  "lacks_point_estimate entry =
     (case entry of
        JObj bd \<Rightarrow>
          (case map_of bd ''mean'' of
             None \<Rightarrow> True
           | Some (JObj m) \<Rightarrow> map_of m ''point_estimate'' = None
           | Some (JArr xs) \<Rightarrow> \<not> List.member xs (JStr ''point_estimate'')
           | Some (JStr s) \<Rightarrow> \<not> is_substr ''point_estimate'' s
           | Some _ \<Rightarrow> False)
      | JArr xs \<Rightarrow> \<not> List.member xs (JStr ''mean'')
      | JStr s \<Rightarrow> \<not> is_substr ''mean'' s
      | _ \<Rightarrow> False)"

text \<open>
  An entry object whose \<^verbatim>\<open>mean\<close> is \<^verbatim>\<open>null\<close>, a number or a boolean: it has neither a
  \<^verbatim>\<open>mean\<close> object nor a \<^verbatim>\<open>mean.point_estimate\<close>, and the second membership test cannot
  be made on it.
\<close>

definition mean_not_container :: "json \<Rightarrow> bool" where
  "mean_not_container entry =
     (case entry of
        JObj bd \<Rightarrow>
          (case map_of bd ''mean'' of None \<Rightarrow> False | Some m \<Rightarrow> \<not> is_container m)
      | _ \<Rightarrow> False)"

definition is_object :: "json \<Rightarrow> bool" where
  "is_object v = (case v of JObj _ \<Rightarrow> True | _ \<Rightarrow> False)"

section \<open>Statistics report parser and exporter of the export script\<close>

text \<open>
  The loop body of \<^verbatim>\<open>parse_criterion_results\<close> in \<^verbatim>\<open>export_benchmarks.py\<close>. The dict
  literal starts with \<^verbatim>\<open>None\<close> in the four optional fields and the assignments
  overwrite them in place, so the list is written with the final value at each key.
\<close>

definition opt_ms :: "json \<Rightarrow> string \<Rightarrow> py_error + json" where
  "opt_ms benchmark_data k =
     py_bind (py_in k benchmark_data) (\<lambda>has.
       if has then
         py_bind (py_getitem benchmark_data k) (\<lambda>v. py_truediv v (JNum 1000000))
       else Inr JNull)"

definition opt_sample_count :: "json \<Rightarrow> py_error + json" where
  "opt_sample_count benchmark_data =
     py_bind (py_in ''sample_count'' benchmark_data) (\<lambda>has.
       if has then py_getitem benchmark_data ''sample_count'' else Inr JNull)"

definition opt_throughput_value :: "json \<Rightarrow> py_error + json" where
  "opt_throughput_value mean_ns =
     py_bind (py_gt0 mean_ns) (\<lambda>pos.
       if pos then py_truediv (JNum 1000000000) mean_ns else Inr JNull)"

definition export_parse_entry :: "json \<Rightarrow> py_error + dict option" where
  "export_parse_entry benchmark_data =
     py_bind (py_in ''mean'' benchmark_data) (\<lambda>has_mean.
       if \<not> has_mean then Inr None else
     py_bind (py_getitem benchmark_data ''mean'') (\<lambda>mean.
     py_bind (py_in ''point_estimate'' mean) (\<lambda>has_pe.
       if \<not> has_pe then Inr None else
     py_bind (py_getitem mean ''point_estimate'') (\<lambda>mean_ns.
     py_bind (py_truediv mean_ns (JNum 1000000)) (\<lambda>mean_ms.
     py_bind (opt_ms benchmark_data ''min'') (\<lambda>min_ms.
     py_bind (opt_ms benchmark_data ''max'') (\<lambda>max_ms.
     py_bind (opt_sample_count benchmark_data) (\<lambda>samples.
     py_bind (opt_throughput_value mean_ns) (\<lambda>throughput.
       Inr (Some [(''mean_ms'', mean_ms), (''mean_ns'', mean_ns),
                  (''min_ms'', min_ms), (''max_ms'', max_ms),
                  (''samples'', samples),
                  (''throughput_ops_per_sec'', throughput)]))))))))))"

fun export_parse_items :: "dict \<Rightarrow> dict \<Rightarrow> py_error + dict" where
  "export_parse_items [] results = Inr results"
| "export_parse_items ((benchmark_name, benchmark_data) # rest) results =
     py_bind (export_parse_entry benchmark_data) (\<lambda>r.
       export_parse_items rest
         (case r of None \<Rightarrow> results
          | Some stats \<Rightarrow> AList.update benchmark_name (JObj stats) results))"

definition export_parse_criterion_results :: "load_result \<Rightarrow> dict \<times> log_msg list" where
  "export_parse_criterion_results file =
     (case file of
        Unreadable \<Rightarrow> ([], [ERROR_load])
      | NotJson \<Rightarrow> ([], [ERROR_load])
      | Loaded (JObj items) \<Rightarrow>
          (case export_parse_items items [] of
             Inr results \<Rightarrow> (results, [])
           | Inl e \<Rightarrow> ([], [ERROR e]))
      | Loaded _ \<Rightarrow> ([], []))"

definition benchmark_mapping :: "(string \<times> string) list" where
  "benchmark_mapping =
     [(''check_transaction'', ''transaction_validation''),
      (''check_transaction_complex'', ''transaction_validation_complex''),
      (''sha256_1kb'', ''hash_operations_sha256''),
      (''double_sha256_1kb'', ''hash_operations_double_sha256''),
      (''connect_block'', ''block_validation''),
      (''connect_block_multi_tx'', ''block_validation_multi_tx'')]"

text \<open>\<^verbatim>\<open>if result.get(k) is not None: core_format[k] = result[k]\<close>\<close>

definition copy_if_present :: "json \<Rightarrow> string \<Rightarrow> py_error + dict" where
  "copy_if_present result k =
     py_bind (py_get result k JNull) (\<lambda>v.
       if v \<noteq> JNull then py_bind (py_getitem result k) (\<lambda>v'. Inr [(k, v')]) else Inr [])"

text \<open>One round of the export loop: the canonical name and the record stored under it.\<close>

definition export_record :: "string \<Rightarrow> json \<Rightarrow> py_error + string \<times> dict" where
  "export_record btdcoded_name result =
     (let core_name = (case map_of benchmark_mapping btdcoded_name of
                         Some n \<Rightarrow> n | None \<Rightarrow> btdcoded_name) in
      py_bind (py_getitem result ''mean_ms'') (\<lambda>mean_ms.
      py_bind (copy_if_present result ''min_ms'') (\<lambda>mins.
      py_bind (copy_if_present result ''max_ms'') (\<lambda>maxs.
      py_bind (copy_if_present result ''samples'') (\<lambda>samples.
      py_bind (copy_if_present result ''throughput_ops_per_sec'') (\<lambda>throughput.
        Inr (core_name,
             [(''mean_ms'', mean_ms)] @ mins @ maxs @ samples @ throughput
             @ [(''original_name'', JStr btdcoded_name)])))))))"

fun export_loop :: "dict \<Rightarrow> dict \<Rightarrow> py_error + dict" where
  "export_loop [] benchmarks = Inr benchmarks"
| "export_loop ((btdcoded_name, result) # rest) benchmarks =
     py_bind (export_record btdcoded_name result) (\<lambda>(core_name, core_format).
       export_loop rest (AList.update core_name (JObj core_format) benchmarks))"

text \<open>
  \<^verbatim>\<open>export_benchmarks\<close>: the object written to the output file, or \<^verbatim>\<open>SystemExit\<close>
  when the parser found nothing. The result of \<^verbatim>\<open>get_system_info()\<close> and the name
  of the input file are parameters.
\<close>

definition export_benchmarks :: "load_result \<Rightarrow> dict \<Rightarrow> string \<Rightarrow> bool \<Rightarrow> py_error + dict" where
  "export_benchmarks file system_info file_name include_metadata =
     (let results = fst (export_parse_criterion_results file) in
      if results = [] then Inl SystemExit
      else
        py_bind (export_loop results []) (\<lambda>benchmarks.
          Inr ([(''system'', JStr ''BTCDecoded''), (''benchmarks'', JObj benchmarks)]
               @ (if include_metadata
                  then [(''metadata'',
                         JObj (AList.update ''source_file'' (JStr file_name) system_info))]
                  else []))))"

section \<open>Comparison engine\<close>

text \<open>
  \<^verbatim>\<open>load_benchmark_results\<close>: whatever JSON value the file holds, and the empty dict on
  any failure.
\<close>

definition load_benchmark_results :: "load_result \<Rightarrow> json \<times> log_msg list" where
  "load_benchmark_results file =
     (case file of Loaded v \<Rightarrow> (v, []) | _ \<Rightarrow> (JObj [], [ERROR_load]))"

text \<open>
  \<^verbatim>\<open>k1 in outer and k2 in outer[k1]\<close>, and then \<^verbatim>\<open>outer[k1][k2]\<close>: \<open>None\<close> when the
  test is false.
\<close>

definition nested_lookup :: "json \<Rightarrow> string \<Rightarrow> string \<Rightarrow> py_error + json option" where
  "nested_lookup outer k1 k2 =
     py_bind (py_in k1 outer) (\<lambda>has1.
       if \<not> has1 then Inr None else
     py_bind (py_getitem outer k1) (\<lambda>inner.
     py_bind (py_in k2 inner) (\<lambda>has2.
       if \<not> has2 then Inr None else
     py_bind (py_getitem inner k2) (\<lambda>v. Inr (Some v)))))"

text \<open>
  \<^verbatim>\<open>x.get("mean_ms", x.get("mean_ns", 0) / 1_000_000)\<close>: Python evaluates the default
  before the outer call, so a non-numeric \<^verbatim>\<open>mean_ns\<close> raises even when \<^verbatim>\<open>mean_ms\<close>
  is there.
\<close>

definition btdcoded_mean_ms :: "json \<Rightarrow> py_error + json" where
  "btdcoded_mean_ms x =
     py_bind (py_get x ''mean_ns'' (JNum 0)) (\<lambda>ns.
     py_bind (py_truediv ns (JNum 1000000)) (\<lambda>dflt.
       py_get x ''mean_ms'' dflt))"

text \<open>
  \<^verbatim>\<open>a < b\<close> where the left operand has already passed \<^verbatim>\<open>a > 0\<close>, hence is a number:
  a number against anything but a number raises \<^verbatim>\<open>TypeError\<close>.
\<close>

definition py_lt :: "json \<Rightarrow> json \<Rightarrow> py_error + bool" where
  "py_lt a b =
     (case (num_of a, num_of b) of
        (Some x, Some y) \<Rightarrow> Inr (x < y)
      | _ \<Rightarrow> Inl TypeError)"

text \<open>
  The record of a comparison whose Core side has \<^verbatim>\<open>mean_ms\<close>. The three families
  of \<^verbatim>\<open>compare_common_metrics\<close> build it with the same expressions; the hash family
  adds a note.
\<close>

definition both_record :: "json \<Rightarrow> json \<Rightarrow> dict \<Rightarrow> py_error + dict" where
  "both_record btdcoded_stat core_stat note =
     py_bind (btdcoded_mean_ms btdcoded_stat) (\<lambda>btdcoded_ms.
     py_bind (py_getitem core_stat ''mean_ms'') (\<lambda>core_ms.
     py_bind (py_gt0 btdcoded_ms) (\<lambda>pos.
     py_bind (if pos then py_truediv core_ms btdcoded_ms else Inr (JNum 0)) (\<lambda>ratio.
     py_bind (py_lt btdcoded_ms core_ms) (\<lambda>lt.
     py_bind (py_get btdcoded_stat ''throughput_ops_per_sec'' (JNum 0)) (\<lambda>throughput.
       Inr ([(''btdcoded_ms'', btdcoded_ms),
             (''core_ms'', core_ms),
             (''ratio'', ratio),
             (''faster'', JStr (if lt then ''BTCDecoded'' else ''Bitcoin Core'')),
             (''btdcoded_throughput'', throughput)] @ note)))))))"

text \<open>The record of the \<^verbatim>\<open>else\<close> branch of the block family: BTCDecoded's data and a note.\<close>

definition btdcoded_only_record :: "json \<Rightarrow> py_error + dict" where
  "btdcoded_only_record btdcoded_stat =
     py_bind (btdcoded_mean_ms btdcoded_stat) (\<lambda>btdcoded_ms.
     py_bind (py_get btdcoded_stat ''throughput_ops_per_sec'' (JNum 0)) (\<lambda>throughput.
       Inr [(''btdcoded_ms'', btdcoded_ms),
            (''btdcoded_throughput'', throughput),
            (''note'', JStr ''Core benchmark not available for comparison'')]))"

text \<open>
  Transaction validation and hash operations: a record only when BTCDecoded has the
  benchmark, Core has its counterpart and the counterpart has \<^verbatim>\<open>mean_ms\<close>. There is
  no \<^verbatim>\<open>else\<close> branch.
\<close>

definition paired_family :: "json \<Rightarrow> json \<Rightarrow> string \<Rightarrow> string \<Rightarrow> dict \<Rightarrow> py_error + dict" where
  "paired_family btdcoded core btdcoded_key core_key note =
     py_bind (nested_lookup btdcoded ''consensus_proof'' btdcoded_key) (\<lambda>a.
       case a of None \<Rightarrow> Inr []
       | Some btdcoded_stat \<Rightarrow>
     py_bind (nested_lookup core ''benchmarks'' core_key) (\<lambda>c.
       case c of None \<Rightarrow> Inr []
       | Some core_stat \<Rightarrow>
     py_bind (py_in ''mean_ms'' core_stat) (\<lambda>has_mean.
       if has_mean then
         py_bind (both_record btdcoded_stat core_stat note) (\<lambda>r. Inr [(core_key, JObj r)])
       else Inr [])))"

text \<open>One round of the loop over \<^verbatim>\<open>block_benchmarks\<close>.\<close>

definition block_variant :: "json \<Rightarrow> json \<Rightarrow> string \<Rightarrow> string \<Rightarrow> py_error + dict" where
  "block_variant btdcoded core btdcoded_key comparison_key =
     py_bind (nested_lookup btdcoded ''consensus_proof'' btdcoded_key) (\<lambda>a.
       case a of None \<Rightarrow> Inr []
       | Some btdcoded_block \<Rightarrow>
     py_bind (nested_lookup core ''benchmarks'' ''block_validation'') (\<lambda>c.
       case c of
         Some core_block \<Rightarrow>
           py_bind (py_in ''mean_ms'' core_block) (\<lambda>has_mean.
             if has_mean then
               py_bind (both_record btdcoded_block core_block []) (\<lambda>r.
                 Inr [(''block_validation_'' @ comparison_key, JObj r)])
             else Inr [])
       | None \<Rightarrow>
           py_bind (btdcoded_only_record btdcoded_block) (\<lambda>r.
             Inr [(''block_validation_'' @ comparison_key, JObj r)])))"

definition hash_note :: string where
  "hash_note = ''Core measures cached getblockhash (database lookup), BTCDecoded measures actual SHA256 computation''"

text \<open>
  \<^verbatim>\<open>compare_common_metrics\<close>. The four keys it can assign are different, so the dict is
  the concatenation of what each family adds.
\<close>

definition compare_common_metrics :: "json \<Rightarrow> json \<Rightarrow> py_error + dict" where
  "compare_common_metrics btdcoded core =
     py_bind (paired_family btdcoded core ''check_transaction'' ''transaction_validation'' [])
       (\<lambda>tx.
     py_bind (paired_family btdcoded core ''sha256_1kb'' ''hash_operations''
                [(''note'', JStr hash_note)]) (\<lambda>hash.
     py_bind (block_variant btdcoded core ''connect_block'' ''connect_block'') (\<lambda>block1.
     py_bind (block_variant btdcoded core ''connect_block_multi_tx'' ''connect_block_multi_tx'')
       (\<lambda>block2.
       Inr (tx @ hash @ block1 @ block2)))))"

text \<open>
  \<^verbatim>\<open>compare_benchmarks\<close>: each argument is the file of that name in its directory, if
  there is one.
\<close>

definition compare_benchmarks ::
  "load_result option \<Rightarrow> load_result option \<Rightarrow> load_result option \<Rightarrow> py_error + dict" where
  "compare_benchmarks consensus_proof_file reference_node_file bitcoin_core_file =
     (let btdcoded =
            (case consensus_proof_file of None \<Rightarrow> []
             | Some f \<Rightarrow> [(''consensus_proof'', JObj (fst (parse_criterion_results f)))])
            @ (case reference_node_file of None \<Rightarrow> []
               | Some f \<Rightarrow> [(''reference_node'', JObj (fst (parse_criterion_results f)))]);
          core = (case bitcoin_core_file of None \<Rightarrow> JObj []
                  | Some f \<Rightarrow> fst (load_benchmark_results f))
      in py_bind (compare_common_metrics (JObj btdcoded) core) (\<lambda>comparison.
           Inr [(''btdcoded'', JObj btdcoded), (''bitcoin_core'', core),
                (''comparison'', JObj comparison)]))"

section \<open>Benchmarking Bitcoin Core\<close>

text \<open>
  The script talks to the outside only through \<^verbatim>\<open>subprocess.run\<close>, the file system
  and the clocks. The world records what the outside will answer and what the script
  has done to it: \<open>cli_results w n\<close> is the outcome of the \<open>n\<close>-th run of
  \<^verbatim>\<open>bitcoin-cli\<close> for a remote call and the seconds it takes, \<open>json_loads\<close> stands for
  \<^verbatim>\<open>json.loads\<close> (\<open>None\<close> when it raises \<^verbatim>\<open>JSONDecodeError\<close>), and \<open>events\<close> is the
  log of a test double.

  A run of \<^verbatim>\<open>subprocess.run\<close> ends in one of four ways: the program exits with a status
  and its output as text, the timeout expires, the program cannot be executed
  (\<^verbatim>\<open>OSError\<close>: no such file, no permission), or its output is not text in the encoding of
  the locale (\<^verbatim>\<open>UnicodeDecodeError\<close>, only where the call asks for text).
\<close>

datatype proc_result = Exited int string | TimedOut | SpawnFailed | Undecodable

datatype event = Mkdir | Rmtree | Launch | Sleep | Rpc string | Stop

record world =
  bitcoind_executable :: bool
  cli_executable :: bool
  launch_result :: proc_result
  cli_results :: "nat \<Rightarrow> proc_result \<times> real"
  stop_result :: proc_result
  json_loads :: "string \<Rightarrow> json option"
  calls :: nat
  perf_counter :: real
  wall_time :: real
  regtest_dir_exists :: bool
  events :: "event list"

type_synonym 'a action = "world \<Rightarrow> (py_error + 'a) \<times> world"

definition w_return :: "'a \<Rightarrow> 'a action" where
  "w_return x w = (Inr x, w)"

definition w_lift :: "py_error + 'a \<Rightarrow> 'a action" where
  "w_lift r w = (r, w)"

definition w_bind :: "'a action \<Rightarrow> ('a \<Rightarrow> 'b action) \<Rightarrow> 'b action" where
  "w_bind m f w = (case m w of (Inl e, w') \<Rightarrow> (Inl e, w') | (Inr x, w') \<Rightarrow> f x w')"

text \<open>
  \<^verbatim>\<open>try: body finally: handler\<close>: the handler runs after the body whether the body
  returned or raised; the body's outcome stands unless the handler raises.
\<close>

definition try_finally :: "'a action \<Rightarrow> unit action \<Rightarrow> 'a action" where
  "try_finally body handler w =
     (case body w of (r, w1) \<Rightarrow>
        (case handler w1 of (Inl e, w2) \<Rightarrow> (Inl e, w2) | (Inr u, w2) \<Rightarrow> (r, w2)))"

text \<open>
  \<^verbatim>\<open>str.strip()\<close> removes the leading and the trailing characters that Python counts as
  white space. Among the code points 0 to 255 these are 9 to 13, 28 to 32, 133 (next
  line) and 160 (no-break space).
\<close>

definition is_space :: "char \<Rightarrow> bool" where
  "is_space c =
     (let n = (of_char c :: nat)
      in (9 \<le> n \<and> n \<le> 13) \<or> (28 \<le> n \<and> n \<le> 32) \<or> n = 133 \<or> n = 160)"

definition strip :: "string \<Rightarrow> string" where
  "strip s = rev (dropWhile is_space (rev (dropWhile is_space s)))"

text \<open>
  What \<^verbatim>\<open>rpc_call\<close> makes of one run of the client (the \<^verbatim>\<open>try\<close> block): the only
  exception it catches is \<^verbatim>\<open>TimeoutExpired\<close>.
\<close>

definition rpc_value :: "(string \<Rightarrow> json option) \<Rightarrow> proc_result \<Rightarrow> py_error + json" where
  "rpc_value loads res =
     (case res of
        Exited returncode stdout \<Rightarrow>
          if returncode = 0 then
            (case loads stdout of Some v \<Rightarrow> Inr v | None \<Rightarrow> Inr (JStr (strip stdout)))
          else Inr JNull
      | TimedOut \<Rightarrow> Inr JNull
      | SpawnFailed \<Rightarrow> Inl OSError
      | Undecodable \<Rightarrow> Inl UnicodeDecodeError)"

text \<open>
  \<^verbatim>\<open>rpc_call\<close>: the next run of the client. Its arguments are turned into strings and do
  not change what the model does, so only the method name is kept, for the log.
\<close>

definition rpc_call :: "string \<Rightarrow> json action" where
  "rpc_call method w =
     (let (res, seconds) = cli_results w (calls w) in
      (rpc_value (json_loads w) res,
       w\<lparr>calls := calls w + 1,
         perf_counter := perf_counter w + seconds,
         events := events w @ [Rpc method]\<rparr>))"

definition sleep :: "world \<Rightarrow> world" where
  "sleep w = w\<lparr>perf_counter := perf_counter w + 1, events := events w @ [Sleep]\<rparr>"

text \<open>The polling loop of \<^verbatim>\<open>start_bitcoind\<close>, \<open>n\<close> rounds left.\<close>

fun wait_for_start :: "nat \<Rightarrow> bool action" where
  "wait_for_start 0 w = (Inr False, w)"
| "wait_for_start (Suc n) w =
     (case rpc_call ''getblockcount'' (sleep w) of
        (Inl e, w1) \<Rightarrow> (Inl e, w1)
      | (Inr r, w1) \<Rightarrow> if r \<noteq> JNull then (Inr True, w1) else wait_for_start n w1)"

text \<open>
  \<^verbatim>\<open>start_bitcoind\<close>: \<open>False\<close> when the binary is missing, when the launch exits with a
  non-zero status (\<^verbatim>\<open>CalledProcessError\<close>, the one exception caught here) and when none of
  the 20 polls is answered. By then the regtest directory has been made and, for a
  launch that exited with status 0, the daemon is running. The event \<open>Launch\<close> records the
  run of \<^verbatim>\<open>bitcoind\<close>.
\<close>

definition start_bitcoind :: "bool action" where
  "start_bitcoind w =
     (if \<not> bitcoind_executable w then (Inr False, w)
      else
        let w1 = w\<lparr>regtest_dir_exists := True,
                   events := events w @ (if regtest_dir_exists w then [Rmtree] else [])
                             @ [Mkdir, Launch]\<rparr>
        in case launch_result w of
             Exited returncode out \<Rightarrow>
               if returncode = 0 then wait_for_start 20 w1 else (Inr False, w1)
           | TimedOut \<Rightarrow> (Inl TimeoutExpired, w1)
           | SpawnFailed \<Rightarrow> (Inl OSError, w1)
           | Undecodable \<Rightarrow> (Inl UnicodeDecodeError, w1))"

text \<open>
  \<^verbatim>\<open>stop_bitcoind\<close>: nothing when the client binary is missing; otherwise the stop call,
  whose non-zero status and timeout are swallowed. The output is captured as bytes and
  never decoded. The event \<open>Stop\<close> records the call.
\<close>

definition stop_bitcoind :: "unit action" where
  "stop_bitcoind w =
     (if \<not> cli_executable w then (Inr (), w)
      else
        let w1 = w\<lparr>events := events w @ [Stop]\<rparr>
        in case stop_result w of
             SpawnFailed \<Rightarrow> (Inl OSError, w1)
           | _ \<Rightarrow> (Inr (), w1))"

text \<open>The \<^verbatim>\<open>finally\<close> block of \<^verbatim>\<open>run_all_benchmarks\<close>.\<close>

definition remove_regtest_dir :: "unit action" where
  "remove_regtest_dir w =
     (Inr (),
      if regtest_dir_exists w
      then w\<lparr>regtest_dir_exists := False, events := events w @ [Rmtree]\<rparr>
      else w)"

definition cleanup :: "unit action" where
  "cleanup = w_bind stop_bitcoind (\<lambda>u. remove_regtest_dir)"

text \<open>\<^verbatim>\<open>len(v)\<close> and \<^verbatim>\<open>v[0]\<close>.\<close>

fun py_len :: "json \<Rightarrow> py_error + nat" where
  "py_len (JStr s) = Inr (length s)"
| "py_len (JArr xs) = Inr (length xs)"
| "py_len (JObj d) = Inr (length d)"
| "py_len _ = Inl TypeError"

fun py_first :: "json \<Rightarrow> py_error + json" where
  "py_first (JArr (x # xs)) = Inr x"
| "py_first (JArr []) = Inl IndexError"
| "py_first (JStr (c # cs)) = Inr (JStr [c])"
| "py_first (JStr []) = Inl IndexError"
| "py_first (JObj d) = Inl KeyError"
| "py_first _ = Inl TypeError"

text \<open>A dict key must be hashable: a list and a dict are not.\<close>

fun py_hashable :: "json \<Rightarrow> py_error + unit" where
  "py_hashable (JArr xs) = Inl TypeError"
| "py_hashable (JObj d) = Inl TypeError"
| "py_hashable _ = Inr ()"

subsection \<open>Double precision arithmetic\<close>

text \<open>
  A \<^verbatim>\<open>float\<close> is an IEEE 754 double: an integer of at most 53 bits times a power of
  two, the power being at least \<open>2 powi (- 1074)\<close>. Every arithmetic operation yields the
  double nearest to the exact result, the one with the even integer when two are equally
  near.

  \<open>round_even\<close> is rounding to the nearest integer, ties to the even one;
  \<open>binary_exponent x\<close> is the \<open>e\<close> with \<open>2 powi e \<le> \<bar>x\<bar> < 2 powi (e + 1)\<close>, read off the bit
  length of the integer part of \<open>\<bar>x\<bar>\<close> or of its reciprocal; \<open>round_double\<close> rounds \<open>x\<close> at
  its 53rd bit, or at \<open>2 powi (- 1074)\<close> when \<open>x\<close> is below the normal range. A result beyond
  the largest double is an infinity in Python; here the exponent has no upper bound, and
  the statements about rounded results keep their operands away from that range.
\<close>

definition round_even :: "real \<Rightarrow> int" where
  "round_even x =
     (let f = \<lfloor>x\<rfloor>; r = x - of_int f in
      if r < 1 / 2 then f else if 1 / 2 < r then f + 1 else if even f then f else f + 1)"

definition binary_exponent :: "real \<Rightarrow> int" where
  "binary_exponent x =
     (if 1 \<le> \<bar>x\<bar> then bitlen \<lfloor>\<bar>x\<bar>\<rfloor> - 1 else - bitlen (\<lceil>1 / \<bar>x\<bar>\<rceil> - 1))"

definition round_double :: "real \<Rightarrow> real" where
  "round_double x =
     (if x = 0 then 0
      else let e = max (binary_exponent x - 52) (- 1074)
           in of_int (round_even (x / 2 powi e)) * 2 powi e)"

text \<open>\<^verbatim>\<open>a + b\<close>, \<^verbatim>\<open>a - b\<close>, \<^verbatim>\<open>a * b\<close> and \<^verbatim>\<open>a / b\<close> on floats.\<close>

definition fadd :: "real \<Rightarrow> real \<Rightarrow> real" where
  "fadd a b = round_double (a + b)"

definition fsub :: "real \<Rightarrow> real \<Rightarrow> real" where
  "fsub a b = round_double (a - b)"

definition fmul :: "real \<Rightarrow> real \<Rightarrow> real" where
  "fmul a b = round_double (a * b)"

definition fdiv :: "real \<Rightarrow> real \<Rightarrow> real" where
  "fdiv a b = round_double (a / b)"

text \<open>The largest relative error of one rounding in the normal range.\<close>

definition unit_roundoff :: real where
  "unit_roundoff = 1 / 2 ^ 53"

subsection \<open>The workloads\<close>

text \<open>
  \<^verbatim>\<open>sum\<close>, \<^verbatim>\<open>min\<close> and \<^verbatim>\<open>max\<close> of a list of floats, as Python folds them from the left.
  \<^verbatim>\<open>sum\<close> starts from 0 and rounds after every addition. (From version 3.12 on CPython
  also carries a compensation term through the additions; the interpreter modelled here
  is the one without it.)
\<close>

definition py_sum :: "real list \<Rightarrow> real" where
  "py_sum xs = foldl fadd 0 xs"

fun py_min :: "real list \<Rightarrow> real" where
  "py_min [] = 0"
| "py_min (x # xs) = foldl (\<lambda>m y. if y < m then y else m) x xs"

fun py_max :: "real list \<Rightarrow> real" where
  "py_max [] = 0"
| "py_max (x # xs) = foldl (\<lambda>m y. if m < y then y else m) x xs"

text \<open>
  The end of each workload: the error object when no sample was collected (so
  \<^verbatim>\<open>min\<close>, \<^verbatim>\<open>max\<close> and the division never see an empty list), the statistics
  otherwise. The mean is the float division of the float sum by the length. The hash
  workload adds a note.
\<close>

definition reduce_times :: "real list \<Rightarrow> dict \<Rightarrow> dict" where
  "reduce_times tms note =
     (if tms = [] then [(''error'', JStr ''No valid measurements'')]
      else [(''mean_ms'', JNum (fdiv (py_sum tms) (real (length tms)))),
            (''min_ms'', JNum (py_min tms)),
            (''max_ms'', JNum (py_max tms)),
            (''samples'', JNum (real (length tms)))] @ note)"

text \<open>\<^verbatim>\<open>not utxos or len(utxos) == 0\<close>\<close>

definition no_utxos :: "json \<Rightarrow> py_error + bool" where
  "no_utxos utxos =
     (if \<not> truthy utxos then Inr True
      else py_bind (py_len utxos) (\<lambda>n. Inr (n = 0)))"

text \<open>\<^verbatim>\<open>not signed_tx or "hex" not in signed_tx\<close>\<close>

definition not_signed :: "json \<Rightarrow> py_error + bool" where
  "not_signed signed_tx =
     (if \<not> truthy signed_tx then Inr True
      else py_bind (py_in ''hex'' signed_tx) (\<lambda>has. Inr (\<not> has)))"

text \<open>\<^verbatim>\<open>result and len(result) > 0\<close>\<close>

definition accepted :: "json \<Rightarrow> py_error + bool" where
  "accepted result =
     (if \<not> truthy result then Inr False
      else py_bind (py_len result) (\<lambda>n. Inr (0 < n)))"

text \<open>
  The timed loop of the transaction workload, \<open>n\<close> rounds left; \<open>tms\<close> is the
  source's list \<^verbatim>\<open>times\<close>. A sample is \<^verbatim>\<open>(end - start) * 1000\<close> in float arithmetic.
\<close>

fun tx_loop :: "nat \<Rightarrow> json \<Rightarrow> real list \<Rightarrow> real list action" where
  "tx_loop 0 signed_tx tms w = (Inr tms, w)"
| "tx_loop (Suc n) signed_tx tms w =
     (let start = perf_counter w in
      case py_getitem signed_tx ''hex'' of
        Inl e \<Rightarrow> (Inl e, w)
      | Inr hex \<Rightarrow>
          (case rpc_call ''testmempoolaccept'' w of
             (Inl e, w1) \<Rightarrow> (Inl e, w1)
           | (Inr result, w1) \<Rightarrow>
               let finish = perf_counter w1 in
               (case accepted result of
                  Inl e \<Rightarrow> (Inl e, w1)
                | Inr ok \<Rightarrow>
                    tx_loop n signed_tx
                      (if ok then tms @ [fmul (fsub finish start) 1000] else tms) w1)))"

definition benchmark_transaction_validation :: "dict action" where
  "benchmark_transaction_validation =
     w_bind (rpc_call ''getnewaddress'') (\<lambda>address0.
     w_bind (rpc_call ''generatetoaddress'') (\<lambda>result.
       if \<not> truthy result then w_return [(''error'', JStr ''Failed to generate blocks'')] else
     w_bind (rpc_call ''listunspent'') (\<lambda>utxos.
     w_bind (w_lift (no_utxos utxos)) (\<lambda>none.
       if none then w_return [(''error'', JStr ''No UTXOs available'')] else
     w_bind (rpc_call ''getnewaddress'') (\<lambda>address.
     w_bind (w_lift (py_first utxos)) (\<lambda>utxo.
     w_bind (w_lift (py_getitem utxo ''txid'')) (\<lambda>txid.
     w_bind (w_lift (py_getitem utxo ''vout'')) (\<lambda>vout.
     w_bind (w_lift (py_hashable address)) (\<lambda>u.
     w_bind (rpc_call ''createrawtransaction'') (\<lambda>raw_tx.
       if \<not> truthy raw_tx then w_return [(''error'', JStr ''Failed to create raw transaction'')]
       else
     w_bind (rpc_call ''signrawtransactionwithwallet'') (\<lambda>signed_tx.
     w_bind (w_lift (not_signed signed_tx)) (\<lambda>unsigned.
       if unsigned then w_return [(''error'', JStr ''Failed to sign transaction'')] else
     w_bind (tx_loop 50 signed_tx []) (\<lambda>tms.
       w_return (reduce_times tms []))))))))))))))"

text \<open>The timed loop of the block workload.\<close>

fun block_loop :: "nat \<Rightarrow> real list \<Rightarrow> real list action" where
  "block_loop 0 tms w = (Inr tms, w)"
| "block_loop (Suc n) tms w =
     (let start = perf_counter w in
      case rpc_call ''generatetoaddress'' w of
        (Inl e, w1) \<Rightarrow> (Inl e, w1)
      | (Inr result, w1) \<Rightarrow>
          let finish = perf_counter w1 in
          block_loop n (if truthy result then tms @ [fmul (fsub finish start) 1000] else tms) w1)"

definition benchmark_block_validation :: "dict action" where
  "benchmark_block_validation =
     w_bind (rpc_call ''getnewaddress'') (\<lambda>address.
     w_bind (block_loop 10 []) (\<lambda>tms.
       w_return (reduce_times tms [])))"

text \<open>\<^verbatim>\<open>current_height is None or current_height < 100\<close>\<close>

definition height_low :: "json \<Rightarrow> py_error + bool" where
  "height_low current_height =
     (if current_height = JNull then Inr True
      else case num_of current_height of
             Some h \<Rightarrow> Inr (h < 100)
           | None \<Rightarrow> Inl TypeError)"

fun hash_loop :: "nat \<Rightarrow> real list \<Rightarrow> real list action" where
  "hash_loop 0 tms w = (Inr tms, w)"
| "hash_loop (Suc n) tms w =
     (let start = perf_counter w in
      case rpc_call ''getblockhash'' w of
        (Inl e, w1) \<Rightarrow> (Inl e, w1)
      | (Inr hash_result, w1) \<Rightarrow>
          let finish = perf_counter w1 in
          hash_loop n
            (if truthy hash_result then tms @ [fmul (fsub finish start) 1000] else tms) w1)"

definition benchmark_hash_operations :: "dict action" where
  "benchmark_hash_operations =
     w_bind (rpc_call ''getblockcount'') (\<lambda>current_height.
     w_bind (w_lift (height_low current_height)) (\<lambda>low.
     w_bind (if low
             then w_bind (rpc_call ''getnewaddress'') (\<lambda>address.
                  w_bind (rpc_call ''generatetoaddress'') (\<lambda>r. w_return ()))
             else w_return ()) (\<lambda>u.
     w_bind (hash_loop 100 []) (\<lambda>tms.
       w_return (reduce_times tms
         [(''note'', JStr ''Using getblockhash as proxy for SHA256 operations'')])))))"

text \<open>The readiness loop at the start of the \<^verbatim>\<open>try\<close> block: \<open>False\<close> is its \<^verbatim>\<open>else\<close>.\<close>

fun wait_ready :: "nat \<Rightarrow> bool action" where
  "wait_ready 0 w = (Inr False, w)"
| "wait_ready (Suc n) w =
     (case rpc_call ''getblockcount'' w of
        (Inl e, w1) \<Rightarrow> (Inl e, w1)
      | (Inr r, w1) \<Rightarrow> if r \<noteq> JNull then (Inr True, w1) else wait_ready n (sleep w1))"

text \<open>The three workloads in the order of the source, each result stored under its key.\<close>

definition run_workloads :: "real \<Rightarrow> dict action" where
  "run_workloads timestamp =
     w_bind benchmark_transaction_validation (\<lambda>tv.
     w_bind benchmark_block_validation (\<lambda>bv.
     w_bind benchmark_hash_operations (\<lambda>ho.
       w_return [(''timestamp'', JNum timestamp),
                 (''system'', JStr ''Bitcoin Core''),
                 (''benchmarks'',
                  JObj [(''transaction_validation'', JObj tv),
                        (''block_validation'', JObj bv),
                        (''hash_operations'', JObj ho)])])))"

text \<open>
  \<^verbatim>\<open>run_all_benchmarks\<close>: the early return when the start failed comes before the \<^verbatim>\<open>try\<close>.
\<close>

definition run_all_benchmarks :: "dict action" where
  "run_all_benchmarks w =
     (let timestamp = wall_time w in
      w_bind start_bitcoind (\<lambda>started.
        if \<not> started then w_return [(''error'', JStr ''Failed to start bitcoind'')]
        else
          try_finally
            (w_bind (wait_ready 10) (\<lambda>ready.
               if \<not> ready
               then w_return [(''error'', JStr ''bitcoind not responding after start'')]
               else run_workloads timestamp))
            cleanup) w)"

text \<open>
  The families of the comparison: BTCDecoded's benchmark name, Bitcoin Core's benchmark
  name and the key of the comparison record.
\<close>

definition family_keys :: "(string \<times> string \<times> string) list" where
  "family_keys =
     [(''check_transaction'', ''transaction_validation'', ''transaction_validation''),
      (''sha256_1kb'', ''hash_operations'', ''hash_operations''),
      (''connect_block'', ''block_validation'', ''block_validation_connect_block''),
      (''connect_block_multi_tx'', ''block_validation'',
       ''block_validation_connect_block_multi_tx'')]"

text \<open>
  A world is steady when, from its next remote call on, every call yields the value \<open>v\<close>
  and takes \<open>d\<close> seconds.
\<close>

definition steady :: "world \<Rightarrow> json \<Rightarrow> real \<Rightarrow> bool" where
  "steady w v d \<longleftrightarrow>
     (\<forall>n \<ge> calls w. rpc_value (json_loads w) (fst (cli_results w n)) = Inr v \<and>
                     snd (cli_results w n) = d)"

section \<open>Example inputs\<close>

text \<open>
  A statistics report with a transaction benchmark of 2 ms, a hash benchmark and a block
  benchmark whose mean is zero; what the comparison script parses from it; a Bitcoin Core
  result file with a transaction workload of 4 ms and a block workload of 10 ms and no
  hash workload.
\<close>

definition example_report :: dict where
  "example_report =
     [(''check_transaction'', JObj [(''mean'', JObj [(''point_estimate'', JNum 2000000)])]),
      (''sha256_1kb'', JObj [(''mean'', JObj [(''point_estimate'', JNum 1500)])]),
      (''connect_block'', JObj [(''mean'', JObj [(''point_estimate'', JNum 0)])])]"

definition example_btdcoded :: dict where
  "example_btdcoded =
     [(''consensus_proof'',
       JObj [(''check_transaction'',
              JObj [(''mean_ns'', JNum 2000000), (''mean_ms'', JNum 2),
                    (''lower_bound_ns'', JNull), (''upper_bound_ns'', JNull),
                    (''throughput_ops_per_sec'', JNum 500)]),
             (''sha256_1kb'',
              JObj [(''mean_ns'', JNum 1500), (''mean_ms'', JNum (3 / 2000)),
                    (''lower_bound_ns'', JNull), (''upper_bound_ns'', JNull),
                    (''throughput_ops_per_sec'', JNum (2000000 / 3))]),
             (''connect_block'',
              JObj [(''mean_ns'', JNum 0), (''mean_ms'', JNum 0),
                    (''lower_bound_ns'', JNull), (''upper_bound_ns'', JNull)])])]"

definition example_core :: dict where
  "example_core =
     [(''timestamp'', JNum 0), (''system'', JStr ''Bitcoin Core''),
      (''benchmarks'',
       JObj [(''transaction_validation'',
              JObj [(''mean_ms'', JNum 4), (''min_ms'', JNum 3), (''max_ms'', JNum 5),
                    (''samples'', JNum 50)]),
             (''block_validation'',
              JObj [(''mean_ms'', JNum 10), (''min_ms'', JNum 9), (''max_ms'', JNum 11),
                    (''samples'', JNum 10)])])]"

definition example_comparison :: dict where
  "example_comparison =
     [(''transaction_validation'',
       JObj [(''btdcoded_ms'', JNum 2), (''core_ms'', JNum 4), (''ratio'', JNum 2),
             (''faster'', JStr ''BTCDecoded''), (''btdcoded_throughput'', JNum 500)]),
      (''block_validation_connect_block'',
       JObj [(''btdcoded_ms'', JNum 0), (''core_ms'', JNum 10), (''ratio'', JNum 0),
             (''faster'', JStr ''BTCDecoded''), (''btdcoded_throughput'', JNum 0)])]"

text \<open>
  A world in which every remote call completes with status 0 and prints an address
  followed by a newline, which is not JSON.
\<close>

definition plain_text_world :: world where
  "plain_text_world =
     \<lparr>bitcoind_executable = True, cli_executable = True,
      launch_result = Exited 0 [],
      cli_results = (\<lambda>n. (Exited 0 ''bcrt1qexample\<newline>'', 1 / 100)),
      stop_result = Exited 0 [],
      json_loads = (\<lambda>s. None),
      calls = 0, perf_counter = 0, wall_time = 0,
      regtest_dir_exists = False, events = []\<rparr>"

text \<open>
  A world in which \<^verbatim>\<open>bitcoind\<close> launches and never answers: every run of the client
  exits with status 1.
\<close>

definition unresponsive_world :: world where
  "unresponsive_world =
     \<lparr>bitcoind_executable = True, cli_executable = True,
      launch_result = Exited 0 [],
      cli_results = (\<lambda>n. (Exited 1 [], 1 / 100)),
      stop_result = Exited 0 [],
      json_loads = (\<lambda>s. None),
      calls = 0, perf_counter = 0, wall_time = 0,
      regtest_dir_exists = False, events = []\<rparr>"

text \<open>
  A world in which every remote call takes a millisecond and answers the number 7, and
  one in which the first two calls fail before that.
\<close>

definition answering_world :: world where
  "answering_world =
     \<lparr>bitcoind_executable = True, cli_executable = True,
      launch_result = Exited 0 [],
      cli_results = (\<lambda>n. (Exited 0 ''7'', 1 / 1000)),
      stop_result = Exited 0 [],
      json_loads = (\<lambda>s. if s = ''7'' then Some (JNum 7) else None),
      calls = 0, perf_counter = 0, wall_time = 0,
      regtest_dir_exists = False, events = []\<rparr>"

definition late_world :: world where
  "late_world =
     \<lparr>bitcoind_executable = True, cli_executable = True,
      launch_result = Exited 0 [],
      cli_results =
        (\<lambda>n. if n < 2 then (Exited 1 [], 1 / 1000) else (Exited 0 ''7'', 1 / 1000)),
      stop_result = Exited 0 [],
      json_loads = (\<lambda>s. if s = ''7'' then Some (JNum 7) else None),
      calls = 0, perf_counter = 0, wall_time = 0,
      regtest_dir_exists = False, events = []\<rparr>"

text \<open>
  A world in which \<^verbatim>\<open>bitcoind\<close> answers the first poll with height 0 and no call after
  that.
\<close>

definition stalling_world :: world where
  "stalling_world =
     \<lparr>bitcoind_executable = True, cli_executable = True,
      launch_result = Exited 0 [],
      cli_results = (\<lambda>n. if n = 0 then (Exited 0 ''0'', 1 / 100) else (Exited 1 [], 1 / 100)),
      stop_result = Exited 0 [],
      json_loads = (\<lambda>s. if s = ''0'' then Some (JNum 0) else None),
      calls = 0, perf_counter = 0, wall_time = 0,
      regtest_dir_exists = False, events = []\<rparr>"

text \<open>
  A world in which the path given for \<^verbatim>\<open>bitcoin-cli\<close> names no program: \<^verbatim>\<open>bitcoind\<close> is
  launched, and no run of the client can be started.
\<close>

definition missing_client_world :: world where
  "missing_client_world =
     \<lparr>bitcoind_executable = True, cli_executable = False,
      launch_result = Exited 0 [],
      cli_results = (\<lambda>n. (SpawnFailed, 0)),
      stop_result = SpawnFailed,
      json_loads = (\<lambda>s. None),
      calls = 0, perf_counter = 0, wall_time = 0,
      regtest_dir_exists = False, events = []\<rparr>"

section \<open>Facts about sequencing and the parsers\<close>

lemma py_bind_Inl [simp]: "py_bind (Inl e) f = Inl e"
  by (simp add: py_bind_def)

lemma py_bind_Inr [simp]: "py_bind (Inr x) f = f x"
  by (simp add: py_bind_def)

lemma py_getitem_Inr: "py_getitem v k = Inr x \<longleftrightarrow> (\<exists>d. v = JObj d \<and> map_of d k = Some x)"
  by (cases v) (auto split: option.splits)

lemma py_truediv_Inr:
  "py_truediv a b = Inr r \<longleftrightarrow> (\<exists>x y. num_of a = Some x \<and> num_of b = Some y \<and> r = JNum (x / y))"
  by (auto simp: py_truediv_def split: option.splits)

lemma py_gt0_Inr: "py_gt0 v = Inr b \<longleftrightarrow> (\<exists>x. num_of v = Some x \<and> b = (0 < x))"
  by (auto simp: py_gt0_def split: option.splits)

lemma py_bindE:
  assumes "py_bind m f = Inr y"
  obtains x where "m = Inr x" and "f x = Inr y"
  using assms by (cases m) simp_all

lemma opt_ns_ms_keys:
  assumes "opt_ns_ms bd k k_ns k_ms = Inr l"
  shows "fst ` set l \<subseteq> {k_ns, k_ms}"
proof -
  from assms obtain has where
    r: "(if has then
           py_bind (py_getitem bd k) (\<lambda>v.
           py_bind (py_truediv v (JNum 1000000)) (\<lambda>v_ms. Inr [(k_ns, v), (k_ms, v_ms)]))
         else Inr []) = Inr l"
    unfolding opt_ns_ms_def by (rule py_bindE)
  show ?thesis
  proof (cases has)
    case True
    with r obtain v v_ms where "l = [(k_ns, v), (k_ms, v_ms)]"
      by (auto elim!: py_bindE)
    then show ?thesis by simp
  next
    case False
    with r show ?thesis by simp
  qed
qed

lemma opt_median_keys:
  assumes "opt_median bd = Inr l"
  shows "fst ` set l \<subseteq> {''median_ns'', ''median_ms''}"
proof -
  from assms obtain has where
    r: "(if has then
           py_bind (py_getitem bd ''median'') (\<lambda>median.
           py_bind (py_in ''point_estimate'' median) (\<lambda>has_pe.
             if has_pe then
               py_bind (py_getitem median ''point_estimate'') (\<lambda>v.
               py_bind (py_truediv v (JNum 1000000)) (\<lambda>v_ms.
                 Inr [(''median_ns'', v), (''median_ms'', v_ms)]))
             else Inr []))
         else Inr []) = Inr l"
    unfolding opt_median_def by (rule py_bindE)
  show ?thesis
  proof (cases has)
    case True
    with r obtain has_pe median where
      r2: "(if has_pe then
               py_bind (py_getitem median ''point_estimate'') (\<lambda>v.
               py_bind (py_truediv v (JNum 1000000)) (\<lambda>v_ms.
                 Inr [(''median_ns'', v), (''median_ms'', v_ms)]))
             else Inr []) = Inr l"
      by (auto elim!: py_bindE)
    show ?thesis
    proof (cases has_pe)
      case True
      with r2 obtain v v_ms where "l = [(''median_ns'', v), (''median_ms'', v_ms)]"
        by (auto elim!: py_bindE)
      then show ?thesis by simp
    next
      case False
      with r2 show ?thesis by simp
    qed
  next
    case False
    with r show ?thesis by simp
  qed
qed

lemma opt_throughput_Inr:
  assumes "opt_throughput v = Inr l"
  shows "\<exists>x. num_of v = Some x \<and>
       l = (if 0 < x then [(''throughput_ops_per_sec'', JNum (1000000000 / x))] else [])"
proof -
  from assms obtain pos where p: "py_gt0 v = Inr pos"
    and r: "(if pos then
               py_bind (py_truediv (JNum 1000000000) v) (\<lambda>t.
                 Inr [(''throughput_ops_per_sec'', t)])
             else Inr []) = Inr l"
    unfolding opt_throughput_def by (rule py_bindE)
  from p obtain x where x: "num_of v = Some x" and pos: "pos = (0 < x)"
    by (auto simp: py_gt0_Inr)
  show ?thesis
  proof (cases pos)
    case True
    with r x have "l = [(''throughput_ops_per_sec'', JNum (1000000000 / x))]"
      by (auto simp: py_truediv_def)
    with x pos True show ?thesis by simp
  next
    case False
    with r x pos show ?thesis by simp
  qed
qed

lemma map_of_append_notin: "k \<notin> fst ` set xs \<Longrightarrow> map_of (xs @ ys) k = map_of ys k"
  by (induction xs) auto

lemma parse_entry_shape:
  assumes "parse_entry entry = Inr (Some st)"
  obtains bd m v where "entry = JObj bd" and "map_of bd ''mean'' = Some (JObj m)"
    and "map_of m ''point_estimate'' = Some v"
proof (cases entry)
  case (JObj bd)
  show ?thesis
  proof (cases "map_of bd ''mean''")
    case None
    with JObj assms show ?thesis by (simp add: parse_entry_def)
  next
    case (Some mean)
    show ?thesis
    proof (cases mean)
      case (JObj m)
      with assms Some \<open>entry = JObj bd\<close> that show ?thesis
        by (cases "map_of m ''point_estimate''") (simp_all add: parse_entry_def)
    qed (use assms Some \<open>entry = JObj bd\<close> in \<open>simp_all add: parse_entry_def split: if_splits\<close>)
  qed
qed (use assms in \<open>simp_all add: parse_entry_def split: if_splits\<close>)

lemma parse_entry_Some:
  assumes "parse_entry entry = Inr (Some st)"
  shows "\<exists>mean_ns. point_estimate entry = Some mean_ns \<and>
           map_of st ''mean_ms'' = Some (JNum (mean_ns / 1000000)) \<and>
           map_of st ''throughput_ops_per_sec'' =
             (if 0 < mean_ns then Some (JNum (1000000000 / mean_ns)) else None)"
proof -
  from assms obtain bd m v where
    e: "entry = JObj bd" and m: "map_of bd ''mean'' = Some (JObj m)"
    and v: "map_of m ''point_estimate'' = Some v"
    by (rule parse_entry_shape)
  from assms have "py_bind (py_truediv v (JNum 1000000)) (\<lambda>mean_ms.
     py_bind (ci_bound (JObj m) ''lower_bound'') (\<lambda>lower.
     py_bind (ci_bound (JObj m) ''upper_bound'') (\<lambda>upper.
     py_bind (opt_ns_ms entry ''min'' ''min_ns'' ''min_ms'') (\<lambda>mins.
     py_bind (opt_ns_ms entry ''max'' ''max_ns'' ''max_ms'') (\<lambda>maxs.
     py_bind (opt_median entry) (\<lambda>medians.
     py_bind (opt_throughput v) (\<lambda>throughput.
     py_bind (opt_samples entry) (\<lambda>samples.
       Inr (Some ([(''mean_ns'', v), (''mean_ms'', mean_ms),
                   (''lower_bound_ns'', lower), (''upper_bound_ns'', upper)]
                  @ mins @ maxs @ medians @ throughput @ samples)))))))))) = Inr (Some st)"
    by (simp add: parse_entry_def e m v)
  then obtain mean_ms lower upper mins maxs medians throughput samples where
        ms: "py_truediv v (JNum 1000000) = Inr mean_ms"
    and mins: "opt_ns_ms entry ''min'' ''min_ns'' ''min_ms'' = Inr mins"
    and maxs: "opt_ns_ms entry ''max'' ''max_ns'' ''max_ms'' = Inr maxs"
    and medians: "opt_median entry = Inr medians"
    and thr: "opt_throughput v = Inr throughput"
    and smp: "opt_samples entry = Inr samples"
    and st: "st = [(''mean_ns'', v), (''mean_ms'', mean_ms),
                   (''lower_bound_ns'', lower), (''upper_bound_ns'', upper)]
                  @ mins @ maxs @ medians @ throughput @ samples"
    by (elim py_bindE) auto
  from thr obtain x where x: "num_of v = Some x"
    and t: "throughput = (if 0 < x then [(''throughput_ops_per_sec'', JNum (1000000000 / x))] else [])"
    using opt_throughput_Inr by blast
  from ms x have mean_ms: "mean_ms = JNum (x / 1000000)"
    by (simp add: py_truediv_Inr)
  have k1: "''throughput_ops_per_sec'' \<notin> fst ` set mins"
    using opt_ns_ms_keys [OF mins] by auto
  have k2: "''throughput_ops_per_sec'' \<notin> fst ` set maxs"
    using opt_ns_ms_keys [OF maxs] by auto
  have k3: "''throughput_ops_per_sec'' \<notin> fst ` set medians"
    using opt_median_keys [OF medians] by auto
  have k4: "''throughput_ops_per_sec'' \<notin> fst ` set samples"
    using smp by (auto simp: opt_samples_def elim!: py_bindE split: if_splits)
  have "map_of (mins @ maxs @ medians @ throughput @ samples) ''throughput_ops_per_sec''
        = map_of (throughput @ samples) ''throughput_ops_per_sec''"
    by (simp only: map_of_append_notin [OF k1] map_of_append_notin [OF k2]
          map_of_append_notin [OF k3])
  then have thr_st: "map_of st ''throughput_ops_per_sec''
        = map_of (throughput @ samples) ''throughput_ops_per_sec''"
    by (simp add: st)
  have pe: "point_estimate entry = Some x"
    by (simp add: point_estimate_def e m v x)
  have "map_of st ''mean_ms'' = Some (JNum (x / 1000000))"
    by (simp add: st mean_ms)
  moreover have "map_of st ''throughput_ops_per_sec'' =
             (if 0 < x then Some (JNum (1000000000 / x)) else None)"
  proof (cases "0 < x")
    case True
    then show ?thesis by (simp add: thr_st t)
  next
    case False
    then have "throughput = []" by (simp add: t)
    then show ?thesis using k4 False
      by (simp add: thr_st map_of_eq_None_iff del: map_of_append)
  qed
  ultimately show ?thesis using pe by blast
qed

lemma parse_items_origin:
  "parse_items items acc = Inr results \<Longrightarrow> map_of results n = Some s \<Longrightarrow>
   map_of acc n = Some s \<or>
   (\<exists>e st. (n, e) \<in> set items \<and> parse_entry e = Inr (Some st) \<and> s = JObj st)"
proof (induction items arbitrary: acc)
  case Nil
  then show ?case by simp
next
  case (Cons a items)
  obtain k d where a: "a = (k, d)" by (cases a)
  from Cons.prems(1) obtain r where r: "parse_entry d = Inr r"
    and rest: "parse_items items
         (case r of None \<Rightarrow> acc | Some stats \<Rightarrow> AList.update k (JObj stats) acc) = Inr results"
    by (auto simp: a elim!: py_bindE)
  from Cons.IH [OF rest Cons.prems(2)] show ?case
  proof
    assume h: "map_of (case r of None \<Rightarrow> acc | Some stats \<Rightarrow> AList.update k (JObj stats) acc) n
               = Some s"
    show ?thesis
    proof (cases r)
      case None
      with h show ?thesis by simp
    next
      case (Some stats)
      with h have "(if n = k then Some (JObj stats) else map_of acc n) = Some s"
        by (simp add: update_conv')
      then show ?thesis using r Some a
        by (auto split: if_splits)
    qed
  next
    assume "\<exists>e st. (n, e) \<in> set items \<and> parse_entry e = Inr (Some st) \<and> s = JObj st"
    then show ?thesis by auto
  qed
qed

lemma parse_entry_not_container: "\<not> is_container v \<Longrightarrow> parse_entry v = Inl TypeError"
  by (cases v) (simp_all add: is_container_def parse_entry_def)

lemma parse_items_not_container:
  "(n, v) \<in> set items \<Longrightarrow> \<not> is_container v \<Longrightarrow> \<exists>e. parse_items items acc = Inl e"
proof (induction items arbitrary: acc)
  case Nil
  then show ?case by simp
next
  case (Cons a items)
  obtain k d where a: "a = (k, d)" by (cases a)
  show ?case
  proof (cases "parse_entry d")
    case (Inl e)
    then show ?thesis by (simp add: a)
  next
    case (Inr r)
    with Cons.prems a have "(n, v) \<in> set items"
      by (auto simp: parse_entry_not_container)
    from Cons.IH [OF this Cons.prems(2)] show ?thesis
      by (simp add: a Inr)
  qed
qed

lemma parse_entry_found:
  assumes "map_of bd ''mean'' = Some (JObj m)" and "map_of m ''point_estimate'' = Some v"
  shows "parse_entry (JObj bd) \<noteq> Inr None"
proof
  assume "parse_entry (JObj bd) = Inr None"
  then have "py_bind (py_truediv v (JNum 1000000)) (\<lambda>mean_ms.
     py_bind (ci_bound (JObj m) ''lower_bound'') (\<lambda>lower.
     py_bind (ci_bound (JObj m) ''upper_bound'') (\<lambda>upper.
     py_bind (opt_ns_ms (JObj bd) ''min'' ''min_ns'' ''min_ms'') (\<lambda>mins.
     py_bind (opt_ns_ms (JObj bd) ''max'' ''max_ns'' ''max_ms'') (\<lambda>maxs.
     py_bind (opt_median (JObj bd)) (\<lambda>medians.
     py_bind (opt_throughput v) (\<lambda>throughput.
     py_bind (opt_samples (JObj bd)) (\<lambda>samples.
       Inr (Some ([(''mean_ns'', v), (''mean_ms'', mean_ms),
                   (''lower_bound_ns'', lower), (''upper_bound_ns'', upper)]
                  @ mins @ maxs @ medians @ throughput @ samples)))))))))) = Inr None"
    by (simp add: parse_entry_def assms)
  then show False
    by (elim py_bindE) simp
qed

lemma parse_entry_None_iff: "parse_entry e = Inr None \<longleftrightarrow> lacks_point_estimate e"
proof (cases e)
  case e: (JObj bd)
  show ?thesis
  proof (cases "map_of bd ''mean''")
    case None
    then show ?thesis by (simp add: e parse_entry_def lacks_point_estimate_def)
  next
    case (Some mean)
    show ?thesis
    proof (cases mean)
      case (JObj m)
      show ?thesis
      proof (cases "map_of m ''point_estimate''")
        case None
        with Some JObj show ?thesis
          by (simp add: e parse_entry_def lacks_point_estimate_def)
      next
        case v: (Some v)
        from parse_entry_found [OF _ v, of bd] Some JObj v show ?thesis
          by (simp add: e lacks_point_estimate_def)
      qed
    qed (use Some in \<open>simp_all add: e parse_entry_def lacks_point_estimate_def\<close>)
  qed
qed (simp_all add: parse_entry_def lacks_point_estimate_def)

lemma parse_entry_lacking:
  assumes "lacks_point_estimate e"
  shows "parse_entry e = Inr None"
  using assms by (simp add: parse_entry_None_iff)

lemma parse_entry_mean_not_container:
  assumes "mean_not_container e"
  shows "parse_entry e = Inl TypeError"
proof (cases e)
  case e: (JObj bd)
  with assms obtain m where m: "map_of bd ''mean'' = Some m" and c: "\<not> is_container m"
    by (auto simp: mean_not_container_def split: option.splits)
  from c have "py_in ''point_estimate'' m = Inl TypeError"
    by (cases m) (simp_all add: is_container_def)
  with m show ?thesis by (simp add: e parse_entry_def)
qed (use assms in \<open>simp_all add: mean_not_container_def\<close>)

lemma parse_items_raises:
  "parse_entry e = Inl err \<Longrightarrow> \<exists>err'. parse_items (xs @ (n, e) # ys) acc = Inl err'"
proof (induction xs arbitrary: acc)
  case Nil
  then show ?case by simp
next
  case (Cons a xs)
  obtain k d where a: "a = (k, d)" by (cases a)
  show ?case
  proof (cases "parse_entry d")
    case (Inl e')
    then show ?thesis by (simp add: a)
  next
    case (Inr r)
    with Cons.IH [OF Cons.prems] show ?thesis
      by (simp add: a)
  qed
qed

lemma parse_items_skip:
  "parse_entry e = Inr None \<Longrightarrow>
   parse_items (xs @ (n, e) # ys) acc = parse_items (xs @ ys) acc"
proof (induction xs arbitrary: acc)
  case Nil
  then show ?case by simp
next
  case (Cons a xs)
  obtain k d where a: "a = (k, d)" by (cases a)
  show ?case
    by (cases "parse_entry d") (simp_all add: a Cons)
qed

lemma export_parse_entry_shape:
  assumes "export_parse_entry entry = Inr (Some st)"
  obtains bd m v where "entry = JObj bd" and "map_of bd ''mean'' = Some (JObj m)"
    and "map_of m ''point_estimate'' = Some v"
proof (cases entry)
  case (JObj bd)
  show ?thesis
  proof (cases "map_of bd ''mean''")
    case None
    with JObj assms show ?thesis by (simp add: export_parse_entry_def)
  next
    case (Some mean)
    show ?thesis
    proof (cases mean)
      case (JObj m)
      with assms Some \<open>entry = JObj bd\<close> that show ?thesis
        by (cases "map_of m ''point_estimate''") (simp_all add: export_parse_entry_def)
    qed (use assms Some \<open>entry = JObj bd\<close> in
          \<open>simp_all add: export_parse_entry_def split: if_splits\<close>)
  qed
qed (use assms in \<open>simp_all add: export_parse_entry_def split: if_splits\<close>)

lemma opt_throughput_value_Inr:
  assumes "opt_throughput_value v = Inr t"
  shows "\<exists>x. num_of v = Some x \<and> t = (if 0 < x then JNum (1000000000 / x) else JNull)"
proof -
  from assms obtain pos where p: "py_gt0 v = Inr pos"
    and r: "(if pos then py_truediv (JNum 1000000000) v else Inr JNull) = Inr t"
    unfolding opt_throughput_value_def by (rule py_bindE)
  from p obtain x where x: "num_of v = Some x" and pos: "pos = (0 < x)"
    by (auto simp: py_gt0_Inr)
  from r x pos show ?thesis
    by (cases pos) (auto simp: py_truediv_def)
qed

lemma export_parse_entry_Some:
  assumes "export_parse_entry entry = Inr (Some st)"
  shows "\<exists>mean_ns v min_ms max_ms samples.
           point_estimate entry = Some mean_ns \<and>
           st = [(''mean_ms'', JNum (mean_ns / 1000000)), (''mean_ns'', v),
                 (''min_ms'', min_ms), (''max_ms'', max_ms), (''samples'', samples),
                 (''throughput_ops_per_sec'',
                  if 0 < mean_ns then JNum (1000000000 / mean_ns) else JNull)]"
proof -
  from assms obtain bd m v where
    e: "entry = JObj bd" and m: "map_of bd ''mean'' = Some (JObj m)"
    and v: "map_of m ''point_estimate'' = Some v"
    by (rule export_parse_entry_shape)
  from assms have "py_bind (py_truediv v (JNum 1000000)) (\<lambda>mean_ms.
     py_bind (opt_ms entry ''min'') (\<lambda>min_ms.
     py_bind (opt_ms entry ''max'') (\<lambda>max_ms.
     py_bind (opt_sample_count entry) (\<lambda>samples.
     py_bind (opt_throughput_value v) (\<lambda>throughput.
       Inr (Some [(''mean_ms'', mean_ms), (''mean_ns'', v),
                  (''min_ms'', min_ms), (''max_ms'', max_ms),
                  (''samples'', samples),
                  (''throughput_ops_per_sec'', throughput)])))))) = Inr (Some st)"
    by (simp add: export_parse_entry_def e m v)
  then obtain mean_ms min_ms max_ms samples throughput where
        ms: "py_truediv v (JNum 1000000) = Inr mean_ms"
    and thr: "opt_throughput_value v = Inr throughput"
    and st: "st = [(''mean_ms'', mean_ms), (''mean_ns'', v),
                  (''min_ms'', min_ms), (''max_ms'', max_ms),
                  (''samples'', samples),
                  (''throughput_ops_per_sec'', throughput)]"
    by (elim py_bindE) auto
  from thr obtain x where x: "num_of v = Some x"
    and t: "throughput = (if 0 < x then JNum (1000000000 / x) else JNull)"
    using opt_throughput_value_Inr by blast
  from ms x have mean_ms: "mean_ms = JNum (x / 1000000)"
    by (simp add: py_truediv_Inr)
  have pe: "point_estimate entry = Some x"
    by (simp add: point_estimate_def e m v x)
  show ?thesis using pe st t mean_ms by blast
qed

lemma export_parse_items_origin:
  "export_parse_items items acc = Inr results \<Longrightarrow> map_of results n = Some s \<Longrightarrow>
   map_of acc n = Some s \<or>
   (\<exists>e st. (n, e) \<in> set items \<and> export_parse_entry e = Inr (Some st) \<and> s = JObj st)"
proof (induction items arbitrary: acc)
  case Nil
  then show ?case by simp
next
  case (Cons a items)
  obtain k d where a: "a = (k, d)" by (cases a)
  from Cons.prems(1) obtain r where r: "export_parse_entry d = Inr r"
    and rest: "export_parse_items items
         (case r of None \<Rightarrow> acc | Some stats \<Rightarrow> AList.update k (JObj stats) acc) = Inr results"
    by (auto simp: a elim!: py_bindE)
  from Cons.IH [OF rest Cons.prems(2)] show ?case
  proof
    assume h: "map_of (case r of None \<Rightarrow> acc | Some stats \<Rightarrow> AList.update k (JObj stats) acc) n
               = Some s"
    show ?thesis
    proof (cases r)
      case None
      with h show ?thesis by simp
    next
      case (Some stats)
      with h have "(if n = k then Some (JObj stats) else map_of acc n) = Some s"
        by (simp add: update_conv')
      then show ?thesis using r Some a
        by (auto split: if_splits)
    qed
  next
    assume "\<exists>e st. (n, e) \<in> set items \<and> export_parse_entry e = Inr (Some st) \<and> s = JObj st"
    then show ?thesis by auto
  qed
qed

lemma export_parse_entry_not_container:
  "\<not> is_container v \<Longrightarrow> export_parse_entry v = Inl TypeError"
  by (cases v) (simp_all add: is_container_def export_parse_entry_def)

lemma export_parse_items_not_container:
  "(n, v) \<in> set items \<Longrightarrow> \<not> is_container v \<Longrightarrow> \<exists>e. export_parse_items items acc = Inl e"
proof (induction items arbitrary: acc)
  case Nil
  then show ?case by simp
next
  case (Cons a items)
  obtain k d where a: "a = (k, d)" by (cases a)
  show ?case
  proof (cases "export_parse_entry d")
    case (Inl e)
    then show ?thesis by (simp add: a)
  next
    case (Inr r)
    with Cons.prems a have "(n, v) \<in> set items"
      by (auto simp: export_parse_entry_not_container)
    from Cons.IH [OF this Cons.prems(2)] show ?thesis
      by (simp add: a Inr)
  qed
qed

lemma export_record_throughput:
  assumes "st = [(''mean_ms'', mean_ms), (''mean_ns'', v),
                 (''min_ms'', min_ms), (''max_ms'', max_ms), (''samples'', samples),
                 (''throughput_ops_per_sec'', t)]"
  shows "\<exists>core_name r. export_record name (JObj st) = Inr (core_name, r) \<and>
           map_of r ''mean_ms'' = Some mean_ms \<and>
           map_of r ''min_ms'' = (if min_ms = JNull then None else Some min_ms) \<and>
           map_of r ''max_ms'' = (if max_ms = JNull then None else Some max_ms) \<and>
           map_of r ''samples'' = (if samples = JNull then None else Some samples) \<and>
           map_of r ''throughput_ops_per_sec'' = (if t = JNull then None else Some t)"
  by (simp add: assms export_record_def copy_if_present_def Let_def)

lemmas parser_defs =
  parse_criterion_results_def parse_entry_def ci_bound_def opt_ns_ms_def opt_median_def
  opt_throughput_def opt_samples_def py_truediv_def py_gt0_def

lemmas export_parser_defs =
  export_parse_criterion_results_def export_parse_entry_def opt_ms_def opt_sample_count_def
  opt_throughput_value_def py_truediv_def py_gt0_def

subsection \<open>Claims about the statistics report parser\<close>

text \<open>
  Claim C10. If any entry of the statistics report maps a benchmark name to a value that
  is not a container (a number, a boolean or null), parsing returns the empty result for
  the whole file, with one logged message: every well-formed entry is discarded too. This
  holds for the parser of the comparison script and for the one of the export script.
\<close>

theorem non_container_entry_discards_report:
  assumes "(name, v) \<in> set items" and "\<not> is_container v"
  shows "(\<exists>e. parse_criterion_results (Loaded (JObj items)) = ([], [WARNING e])) \<and>
         (\<exists>e. export_parse_criterion_results (Loaded (JObj items)) = ([], [ERROR e]))"
proof -
  from parse_items_not_container [OF assms] obtain e1 where "parse_items items [] = Inl e1"
    by blast
  moreover from export_parse_items_not_container [OF assms] obtain e2
    where "export_parse_items items [] = Inl e2"
    by blast
  ultimately show ?thesis
    by (simp add: parse_criterion_results_def export_parse_criterion_results_def)
qed

theorem non_container_entry_discards_report_witness:
  "(''broken'', JNum 7) \<in> set [(''sha256_1kb'', JObj [(''mean'', JObj [(''point_estimate'', JNum 2000000)])]),
                               (''broken'', JNum 7)] \<and>
   \<not> is_container (JNum 7) \<and>
   (\<exists>e. parse_criterion_results (Loaded (JObj
          [(''sha256_1kb'', JObj [(''mean'', JObj [(''point_estimate'', JNum 2000000)])]),
           (''broken'', JNum 7)])) = ([], [WARNING e])) \<and>
   (\<exists>e. export_parse_criterion_results (Loaded (JObj
          [(''sha256_1kb'', JObj [(''mean'', JObj [(''point_estimate'', JNum 2000000)])]),
           (''broken'', JNum 7)])) = ([], [ERROR e]))"
proof -
  have h1: "(''broken'', JNum 7) \<in> set [(''sha256_1kb'', JObj [(''mean'', JObj [(''point_estimate'', JNum 2000000)])]),
                               (''broken'', JNum 7)]"
    by simp
  have h2: "\<not> is_container (JNum 7)"
    by (simp add: is_container_def)
  from non_container_entry_discards_report [OF h1 h2] h1 h2 show ?thesis
    by blast
qed

text \<open>
  Claim C7, as the code has it. An entry in which the parser finds no \<^verbatim>\<open>mean\<close>, or finds
  no \<^verbatim>\<open>point_estimate\<close> in its \<^verbatim>\<open>mean\<close>, is skipped: the report parses to what it parses to
  without that entry, so the remaining entries are still parsed; these are exactly the
  entries the loop body passes over. An entry whose \<^verbatim>\<open>mean\<close> is \<^verbatim>\<open>null\<close>, a number or a
  boolean is not skipped: the membership test raises, and the whole report parses to the
  empty result with one warning. An unreadable file and a file that is not JSON give the
  empty result and a warning; a file whose JSON value is not an object gives the empty
  result and no warning. The parser returns a value in every case, and a warning only
  together with the empty result. The witness is the report with one well-formed entry
  and one entry without \<^verbatim>\<open>mean.point_estimate\<close>, which yields exactly one result.
\<close>

theorem entry_without_point_estimate_skipped:
  "(lacks_point_estimate e \<longrightarrow>
      parse_criterion_results (Loaded (JObj (xs @ (n, e) # ys)))
        = parse_criterion_results (Loaded (JObj (xs @ ys)))) \<and>
   (parse_entry e = Inr None \<longleftrightarrow> lacks_point_estimate e) \<and>
   (mean_not_container e' \<longrightarrow>
      (\<exists>err. parse_criterion_results (Loaded (JObj (xs @ (n, e') # ys)))
               = ([], [WARNING err]))) \<and>
   parse_criterion_results Unreadable = ([], [WARNING_load]) \<and>
   parse_criterion_results NotJson = ([], [WARNING_load]) \<and>
   (\<not> is_object v \<longrightarrow> parse_criterion_results (Loaded v) = ([], [])) \<and>
   (fst (parse_criterion_results file) = [] \<or> snd (parse_criterion_results file) = [])"
proof (intro conjI impI)
  assume "lacks_point_estimate e"
  from parse_items_skip [OF parse_entry_lacking [OF this]]
  show "parse_criterion_results (Loaded (JObj (xs @ (n, e) # ys)))
        = parse_criterion_results (Loaded (JObj (xs @ ys)))"
    by (simp add: parse_criterion_results_def)
next
  show "parse_entry e = Inr None \<longleftrightarrow> lacks_point_estimate e"
    by (rule parse_entry_None_iff)
next
  assume "mean_not_container e'"
  from parse_items_raises [OF parse_entry_mean_not_container [OF this]]
  obtain err where "parse_items (xs @ (n, e') # ys) [] = Inl err"
    by blast
  then show "\<exists>err. parse_criterion_results (Loaded (JObj (xs @ (n, e') # ys)))
               = ([], [WARNING err])"
    by (simp add: parse_criterion_results_def)
next
  show "parse_criterion_results Unreadable = ([], [WARNING_load])"
    by (simp add: parse_criterion_results_def)
next
  show "parse_criterion_results NotJson = ([], [WARNING_load])"
    by (simp add: parse_criterion_results_def)
next
  assume "\<not> is_object v"
  then show "parse_criterion_results (Loaded v) = ([], [])"
    by (cases v) (simp_all add: is_object_def parse_criterion_results_def)
next
  show "fst (parse_criterion_results file) = [] \<or> snd (parse_criterion_results file) = []"
    by (simp add: parse_criterion_results_def split: load_result.splits json.splits sum.splits)
qed

theorem entry_without_point_estimate_skipped_witness:
  "lacks_point_estimate (JObj [(''mean'', JObj [(''confidence_interval'', JObj [])])]) \<and>
   parse_criterion_results (Loaded (JObj
      [(''check_transaction'', JObj [(''mean'', JObj [(''point_estimate'', JNum 2000000)])]),
       (''sha256_1kb'', JObj [(''mean'', JObj [(''confidence_interval'', JObj [])])])]))
   = parse_criterion_results (Loaded (JObj
      [(''check_transaction'', JObj [(''mean'', JObj [(''point_estimate'', JNum 2000000)])])])) \<and>
   length (fst (parse_criterion_results (Loaded (JObj
      [(''check_transaction'', JObj [(''mean'', JObj [(''point_estimate'', JNum 2000000)])])]))))
   = 1 \<and>
   mean_not_container (JObj [(''mean'', JNull)]) \<and>
   parse_criterion_results (Loaded (JObj
      [(''check_transaction'', JObj [(''mean'', JObj [(''point_estimate'', JNum 2000000)])]),
       (''sha256_1kb'', JObj [(''mean'', JNull)])]))
   = ([], [WARNING TypeError]) \<and>
   \<not> is_object (JArr []) \<and>
   parse_criterion_results (Loaded (JArr [])) = ([], [])"
proof -
  have h: "lacks_point_estimate (JObj [(''mean'', JObj [(''confidence_interval'', JObj [])])])"
    by (simp add: lacks_point_estimate_def)
  have h': "mean_not_container (JObj [(''mean'', JNull)])"
    by (simp add: mean_not_container_def is_container_def)
  have o: "\<not> is_object (JArr [])"
    by (simp add: is_object_def)
  have one: "length (fst (parse_criterion_results (Loaded (JObj
      [(''check_transaction'', JObj [(''mean'', JObj [(''point_estimate'', JNum 2000000)])])]))))
    = 1"
    by (simp add: parser_defs)
  have null: "parse_criterion_results (Loaded (JObj
      [(''check_transaction'', JObj [(''mean'', JObj [(''point_estimate'', JNum 2000000)])]),
       (''sha256_1kb'', JObj [(''mean'', JNull)])]))
   = ([], [WARNING TypeError])"
    by (simp add: parser_defs)
  from entry_without_point_estimate_skipped [
      of "JObj [(''mean'', JObj [(''confidence_interval'', JObj [])])]"
         "[(''check_transaction'', JObj [(''mean'', JObj [(''point_estimate'', JNum 2000000)])])]"
         "''sha256_1kb''" "[]" "JObj [(''mean'', JNull)]" "JArr []"] h h' o one null
  show ?thesis by simp
qed

text \<open>
  The claim as first stated skips every entry that lacks \<^verbatim>\<open>mean.point_estimate\<close> or a
  \<^verbatim>\<open>mean\<close> object and warns about every malformed file. A report with one well-formed
  entry and one entry whose \<^verbatim>\<open>mean\<close> is \<^verbatim>\<open>null\<close> yields no result at all, where the
  well-formed entry alone yields one; a report whose top level is a list yields the empty
  result without a warning.
\<close>

theorem null_mean_discards_report_counterexample:
  "parse_criterion_results (Loaded (JObj
      [(''check_transaction'', JObj [(''mean'', JObj [(''point_estimate'', JNum 2000000)])]),
       (''sha256_1kb'', JObj [(''mean'', JNull)])]))
   = ([], [WARNING TypeError]) \<and>
   length (fst (parse_criterion_results (Loaded (JObj
      [(''check_transaction'', JObj [(''mean'', JObj [(''point_estimate'', JNum 2000000)])])]))))
   = 1 \<and>
   parse_criterion_results (Loaded (JArr
      [JObj [(''check_transaction'',
              JObj [(''mean'', JObj [(''point_estimate'', JNum 2000000)])])]]))
   = ([], [])"
  by (simp add: parser_defs)

text \<open>
  Claim C4. Every statistic that parsing produces comes from a report entry with a numeric
  mean point estimate \<open>mean_ns\<close>; its \<^verbatim>\<open>mean_ms\<close> is \<open>mean_ns / 10^6\<close>, and its throughput is
  \<open>1000 / mean_ms\<close>, which is \<open>10^9 / mean_ns\<close>, when \<open>mean_ns > 0\<close>. When \<open>mean_ns\<close> is zero
  or negative the comparison script's parser leaves the key out; the export script's
  parser keeps Python's \<^verbatim>\<open>None\<close> under it and the exported record leaves the key out. No
  division by zero happens and no placeholder number is written.
\<close>

theorem parsed_throughput:
  "(parse_criterion_results (Loaded (JObj items)) = (results, msgs) \<and>
    map_of results name = Some stat \<longrightarrow>
    (\<exists>entry mean_ns st.
       (name, entry) \<in> set items \<and> point_estimate entry = Some mean_ns \<and> stat = JObj st \<and>
       map_of st ''mean_ms'' = Some (JNum (mean_ns / 1000000)) \<and>
       1000 / (mean_ns / 1000000) = 1000000000 / mean_ns \<and>
       map_of st ''throughput_ops_per_sec'' =
         (if 0 < mean_ns then Some (JNum (1000 / (mean_ns / 1000000))) else None))) \<and>
   (export_parse_criterion_results (Loaded (JObj items')) = (results', msgs') \<and>
    map_of results' name' = Some stat' \<longrightarrow>
    (\<exists>entry mean_ns st core_name r.
       (name', entry) \<in> set items' \<and> point_estimate entry = Some mean_ns \<and> stat' = JObj st \<and>
       map_of st ''mean_ms'' = Some (JNum (mean_ns / 1000000)) \<and>
       map_of st ''throughput_ops_per_sec'' =
         Some (if 0 < mean_ns then JNum (1000 / (mean_ns / 1000000)) else JNull) \<and>
       export_record name' stat' = Inr (core_name, r) \<and>
       map_of r ''mean_ms'' = Some (JNum (mean_ns / 1000000)) \<and>
       map_of r ''throughput_ops_per_sec'' =
         (if 0 < mean_ns then Some (JNum (1000 / (mean_ns / 1000000))) else None)))"
proof (intro conjI impI)
  assume a: "parse_criterion_results (Loaded (JObj items)) = (results, msgs) \<and>
    map_of results name = Some stat"
  then have stat: "map_of results name = Some stat" by simp
  from a stat have "parse_items items [] = Inr results"
    by (cases "parse_items items []") (auto simp: parse_criterion_results_def)
  from parse_items_origin [OF this stat] obtain entry st where
    mem: "(name, entry) \<in> set items" and pe: "parse_entry entry = Inr (Some st)"
    and s: "stat = JObj st"
    by auto
  from parse_entry_Some [OF pe] obtain mean_ns where
    "point_estimate entry = Some mean_ns"
    "map_of st ''mean_ms'' = Some (JNum (mean_ns / 1000000))"
    "map_of st ''throughput_ops_per_sec'' =
             (if 0 < mean_ns then Some (JNum (1000000000 / mean_ns)) else None)"
    by blast
  with mem s show "\<exists>entry mean_ns st.
       (name, entry) \<in> set items \<and> point_estimate entry = Some mean_ns \<and> stat = JObj st \<and>
       map_of st ''mean_ms'' = Some (JNum (mean_ns / 1000000)) \<and>
       1000 / (mean_ns / 1000000) = 1000000000 / mean_ns \<and>
       map_of st ''throughput_ops_per_sec'' =
         (if 0 < mean_ns then Some (JNum (1000 / (mean_ns / 1000000))) else None)"
    by (intro exI [of _ entry] exI [of _ mean_ns] exI [of _ st]) simp
next
  assume a: "export_parse_criterion_results (Loaded (JObj items')) = (results', msgs') \<and>
    map_of results' name' = Some stat'"
  then have stat: "map_of results' name' = Some stat'" by simp
  from a stat have "export_parse_items items' [] = Inr results'"
    by (cases "export_parse_items items' []") (auto simp: export_parse_criterion_results_def)
  from export_parse_items_origin [OF this stat] obtain entry st where
    mem: "(name', entry) \<in> set items'" and pe: "export_parse_entry entry = Inr (Some st)"
    and s: "stat' = JObj st"
    by auto
  from export_parse_entry_Some [OF pe] obtain mean_ns v min_ms max_ms samples where
    p: "point_estimate entry = Some mean_ns" and
    st: "st = [(''mean_ms'', JNum (mean_ns / 1000000)), (''mean_ns'', v),
                 (''min_ms'', min_ms), (''max_ms'', max_ms), (''samples'', samples),
                 (''throughput_ops_per_sec'',
                  if 0 < mean_ns then JNum (1000000000 / mean_ns) else JNull)]"
    by blast
  from export_record_throughput [OF st, of name'] obtain core_name r where
    r: "export_record name' (JObj st) = Inr (core_name, r)"
    and rm: "map_of r ''mean_ms'' = Some (JNum (mean_ns / 1000000))"
    and rt: "map_of r ''throughput_ops_per_sec'' =
        (if (if 0 < mean_ns then JNum (1000000000 / mean_ns) else JNull) = JNull then None
         else Some (if 0 < mean_ns then JNum (1000000000 / mean_ns) else JNull))"
    by blast
  have m1: "map_of st ''mean_ms'' = Some (JNum (mean_ns / 1000000))"
    by (simp add: st)
  have m2: "map_of st ''throughput_ops_per_sec'' =
         Some (if 0 < mean_ns then JNum (1000 / (mean_ns / 1000000)) else JNull)"
    by (simp add: st)
  have m3: "map_of r ''throughput_ops_per_sec'' =
         (if 0 < mean_ns then Some (JNum (1000 / (mean_ns / 1000000))) else None)"
    using rt by simp
  from mem p s m1 m2 r rm m3
  show "\<exists>entry mean_ns st core_name r.
       (name', entry) \<in> set items' \<and> point_estimate entry = Some mean_ns \<and> stat' = JObj st \<and>
       map_of st ''mean_ms'' = Some (JNum (mean_ns / 1000000)) \<and>
       map_of st ''throughput_ops_per_sec'' =
         Some (if 0 < mean_ns then JNum (1000 / (mean_ns / 1000000)) else JNull) \<and>
       export_record name' stat' = Inr (core_name, r) \<and>
       map_of r ''mean_ms'' = Some (JNum (mean_ns / 1000000)) \<and>
       map_of r ''throughput_ops_per_sec'' =
         (if 0 < mean_ns then Some (JNum (1000 / (mean_ns / 1000000))) else None)"
    by blast
qed

theorem parsed_throughput_witness:
  "map_of (fst (parse_criterion_results (Loaded (JObj example_report)))) ''connect_block''
     = Some (JObj [(''mean_ns'', JNum 0), (''mean_ms'', JNum 0),
                   (''lower_bound_ns'', JNull), (''upper_bound_ns'', JNull)]) \<and>
   map_of (fst (export_parse_criterion_results (Loaded (JObj example_report))))
     ''check_transaction''
     = Some (JObj [(''mean_ms'', JNum 2), (''mean_ns'', JNum 2000000),
                   (''min_ms'', JNull), (''max_ms'', JNull), (''samples'', JNull),
                   (''throughput_ops_per_sec'', JNum 500)]) \<and>
   (\<exists>entry mean_ns st.
       (''connect_block'', entry) \<in> set example_report \<and> point_estimate entry = Some mean_ns \<and>
       map_of st ''mean_ms'' = Some (JNum (mean_ns / 1000000)) \<and>
       map_of st ''throughput_ops_per_sec'' =
         (if 0 < mean_ns then Some (JNum (1000 / (mean_ns / 1000000))) else None)) \<and>
   (\<exists>entry mean_ns core_name r.
       (''check_transaction'', entry) \<in> set example_report \<and>
       point_estimate entry = Some mean_ns \<and>
       export_record ''check_transaction''
         (JObj [(''mean_ms'', JNum 2), (''mean_ns'', JNum 2000000),
                (''min_ms'', JNull), (''max_ms'', JNull), (''samples'', JNull),
                (''throughput_ops_per_sec'', JNum 500)]) = Inr (core_name, r) \<and>
       map_of r ''throughput_ops_per_sec'' =
         (if 0 < mean_ns then Some (JNum (1000 / (mean_ns / 1000000))) else None))"
proof -
  let ?R = "parse_criterion_results (Loaded (JObj example_report))"
  let ?E = "export_parse_criterion_results (Loaded (JObj example_report))"
  have h1: "map_of (fst ?R) ''connect_block''
     = Some (JObj [(''mean_ns'', JNum 0), (''mean_ms'', JNum 0),
                   (''lower_bound_ns'', JNull), (''upper_bound_ns'', JNull)])"
    by (simp add: example_report_def parser_defs)
  have h2: "map_of (fst ?E) ''check_transaction''
     = Some (JObj [(''mean_ms'', JNum 2), (''mean_ns'', JNum 2000000),
                   (''min_ms'', JNull), (''max_ms'', JNull), (''samples'', JNull),
                   (''throughput_ops_per_sec'', JNum 500)])"
    by (simp add: example_report_def export_parser_defs)
  have p1: "?R = (fst ?R, snd ?R)" and p2: "?E = (fst ?E, snd ?E)"
    by simp_all
  note t = parsed_throughput [of example_report "fst ?R" "snd ?R" "''connect_block''" _
      example_report "fst ?E" "snd ?E" "''check_transaction''"]
  from t p1 h1 have c1: "\<exists>entry mean_ns st.
       (''connect_block'', entry) \<in> set example_report \<and> point_estimate entry = Some mean_ns \<and>
       map_of st ''mean_ms'' = Some (JNum (mean_ns / 1000000)) \<and>
       map_of st ''throughput_ops_per_sec'' =
         (if 0 < mean_ns then Some (JNum (1000 / (mean_ns / 1000000))) else None)"
    by blast
  from t p2 h2 have c2: "\<exists>entry mean_ns core_name r.
       (''check_transaction'', entry) \<in> set example_report \<and>
       point_estimate entry = Some mean_ns \<and>
       export_record ''check_transaction''
         (JObj [(''mean_ms'', JNum 2), (''mean_ns'', JNum 2000000),
                (''min_ms'', JNull), (''max_ms'', JNull), (''samples'', JNull),
                (''throughput_ops_per_sec'', JNum 500)]) = Inr (core_name, r) \<and>
       map_of r ''throughput_ops_per_sec'' =
         (if 0 < mean_ns then Some (JNum (1000 / (mean_ns / 1000000))) else None)"
    by blast
  from h1 h2 c1 c2 show ?thesis by blast
qed

text \<open>What the exporter keeps of a parsed statistic.\<close>

lemma export_parse_entry_fields:
  assumes "export_parse_entry (JObj bd) = Inr (Some st)"
  obtains mean_ns v min_ms max_ms samples where
    "point_estimate (JObj bd) = Some mean_ns"
    and "opt_ms (JObj bd) ''min'' = Inr min_ms"
    and "opt_ms (JObj bd) ''max'' = Inr max_ms"
    and "opt_sample_count (JObj bd) = Inr samples"
    and "st = [(''mean_ms'', JNum (mean_ns / 1000000)), (''mean_ns'', v),
               (''min_ms'', min_ms), (''max_ms'', max_ms), (''samples'', samples),
               (''throughput_ops_per_sec'',
                if 0 < mean_ns then JNum (1000000000 / mean_ns) else JNull)]"
proof -
  from assms obtain bd' m v where
    e: "JObj bd = JObj bd'" and m: "map_of bd' ''mean'' = Some (JObj m)"
    and v: "map_of m ''point_estimate'' = Some v"
    by (rule export_parse_entry_shape)
  from e m have m': "map_of bd ''mean'' = Some (JObj m)" by simp
  from assms have "py_bind (py_truediv v (JNum 1000000)) (\<lambda>mean_ms.
     py_bind (opt_ms (JObj bd) ''min'') (\<lambda>min_ms.
     py_bind (opt_ms (JObj bd) ''max'') (\<lambda>max_ms.
     py_bind (opt_sample_count (JObj bd)) (\<lambda>samples.
     py_bind (opt_throughput_value v) (\<lambda>throughput.
       Inr (Some [(''mean_ms'', mean_ms), (''mean_ns'', v),
                  (''min_ms'', min_ms), (''max_ms'', max_ms),
                  (''samples'', samples),
                  (''throughput_ops_per_sec'', throughput)])))))) = Inr (Some st)"
    by (simp add: export_parse_entry_def m' v)
  then obtain mean_ms min_ms max_ms samples throughput where
        ms: "py_truediv v (JNum 1000000) = Inr mean_ms"
    and mn: "opt_ms (JObj bd) ''min'' = Inr min_ms"
    and mx: "opt_ms (JObj bd) ''max'' = Inr max_ms"
    and sm: "opt_sample_count (JObj bd) = Inr samples"
    and thr: "opt_throughput_value v = Inr throughput"
    and st: "st = [(''mean_ms'', mean_ms), (''mean_ns'', v),
                  (''min_ms'', min_ms), (''max_ms'', max_ms),
                  (''samples'', samples),
                  (''throughput_ops_per_sec'', throughput)]"
    by (elim py_bindE) auto
  from thr obtain x where x: "num_of v = Some x"
    and t: "throughput = (if 0 < x then JNum (1000000000 / x) else JNull)"
    using opt_throughput_value_Inr by blast
  from ms x have mean_ms: "mean_ms = JNum (x / 1000000)"
    by (simp add: py_truediv_Inr)
  have pe: "point_estimate (JObj bd) = Some x"
    by (simp add: point_estimate_def m' v x)
  from st t mean_ms have "st = [(''mean_ms'', JNum (x / 1000000)), (''mean_ns'', v),
               (''min_ms'', min_ms), (''max_ms'', max_ms), (''samples'', samples),
               (''throughput_ops_per_sec'',
                if 0 < x then JNum (1000000000 / x) else JNull)]"
    by simp
  with pe mn mx sm show ?thesis by (rule that)
qed

lemma opt_ms_absent: "map_of bd k = None \<Longrightarrow> opt_ms (JObj bd) k = Inr JNull"
  by (simp add: opt_ms_def)

lemma opt_sample_count_absent:
  "map_of bd ''sample_count'' = None \<Longrightarrow> opt_sample_count (JObj bd) = Inr JNull"
  by (simp add: opt_sample_count_def)

lemma export_record_omits:
  assumes "export_parse_entry (JObj bd) = Inr (Some st)"
    and "export_record name (JObj st) = Inr (core_name, r)"
  shows "map_of r ''mean_ms'' \<noteq> None \<and>
       (map_of bd ''min'' = None \<longrightarrow> map_of r ''min_ms'' = None) \<and>
       (map_of bd ''max'' = None \<longrightarrow> map_of r ''max_ms'' = None) \<and>
       (map_of bd ''sample_count'' = None \<longrightarrow> map_of r ''samples'' = None) \<and>
       (\<forall>mean_ns. point_estimate (JObj bd) = Some mean_ns \<and> mean_ns \<le> 0 \<longrightarrow>
          map_of r ''throughput_ops_per_sec'' = None)"
proof -
  from assms(1) obtain mean_ns v min_ms max_ms samples where
    pe: "point_estimate (JObj bd) = Some mean_ns"
    and mn: "opt_ms (JObj bd) ''min'' = Inr min_ms"
    and mx: "opt_ms (JObj bd) ''max'' = Inr max_ms"
    and sm: "opt_sample_count (JObj bd) = Inr samples"
    and st: "st = [(''mean_ms'', JNum (mean_ns / 1000000)), (''mean_ns'', v),
               (''min_ms'', min_ms), (''max_ms'', max_ms), (''samples'', samples),
               (''throughput_ops_per_sec'',
                if 0 < mean_ns then JNum (1000000000 / mean_ns) else JNull)]"
    by (rule export_parse_entry_fields)
  from export_record_throughput [OF st, of name] assms(2) have
    r1: "map_of r ''mean_ms'' = Some (JNum (mean_ns / 1000000))"
    and r2: "map_of r ''min_ms'' = (if min_ms = JNull then None else Some min_ms)"
    and r3: "map_of r ''max_ms'' = (if max_ms = JNull then None else Some max_ms)"
    and r4: "map_of r ''samples'' = (if samples = JNull then None else Some samples)"
    and r5: "map_of r ''throughput_ops_per_sec'' =
        (if (if 0 < mean_ns then JNum (1000000000 / mean_ns) else JNull) = JNull then None
         else Some (if 0 < mean_ns then JNum (1000000000 / mean_ns) else JNull))"
    by auto
  have "map_of bd ''min'' = None \<longrightarrow> map_of r ''min_ms'' = None"
  proof
    assume "map_of bd ''min'' = None"
    from opt_ms_absent [OF this] mn have "min_ms = JNull" by simp
    with r2 show "map_of r ''min_ms'' = None" by simp
  qed
  moreover have "map_of bd ''max'' = None \<longrightarrow> map_of r ''max_ms'' = None"
  proof
    assume "map_of bd ''max'' = None"
    from opt_ms_absent [OF this] mx have "max_ms = JNull" by simp
    with r3 show "map_of r ''max_ms'' = None" by simp
  qed
  moreover have "map_of bd ''sample_count'' = None \<longrightarrow> map_of r ''samples'' = None"
  proof
    assume "map_of bd ''sample_count'' = None"
    from opt_sample_count_absent [OF this] sm have "samples = JNull" by simp
    with r4 show "map_of r ''samples'' = None" by simp
  qed
  moreover have "\<forall>m. point_estimate (JObj bd) = Some m \<and> m \<le> 0 \<longrightarrow>
          map_of r ''throughput_ops_per_sec'' = None"
    using pe r5 by auto
  ultimately show ?thesis using r1 by simp
qed

section \<open>Facts about the comparison engine\<close>

lemma py_lt_Inr: "py_lt a b = Inr r \<longleftrightarrow> (\<exists>x y. num_of a = Some x \<and> num_of b = Some y \<and> r = (x < y))"
  by (auto simp: py_lt_def split: option.splits)

lemma both_record_Inr:
  assumes "both_record a c note = Inr r"
  obtains ams cms x y thr where
    "btdcoded_mean_ms a = Inr ams" and "py_getitem c ''mean_ms'' = Inr cms"
    and "num_of ams = Some x" and "num_of cms = Some y"
    and "py_get a ''throughput_ops_per_sec'' (JNum 0) = Inr thr"
    and "r = [(''btdcoded_ms'', ams), (''core_ms'', cms),
              (''ratio'', JNum (if 0 < x then y / x else 0)),
              (''faster'', JStr (if x < y then ''BTCDecoded'' else ''Bitcoin Core'')),
              (''btdcoded_throughput'', thr)] @ note"
proof -
  from assms obtain ams cms pos ratio lt thr where
    ams: "btdcoded_mean_ms a = Inr ams" and cms: "py_getitem c ''mean_ms'' = Inr cms"
    and pos: "py_gt0 ams = Inr pos"
    and ratio: "(if pos then py_truediv cms ams else Inr (JNum 0)) = Inr ratio"
    and lt: "py_lt ams cms = Inr lt"
    and thr: "py_get a ''throughput_ops_per_sec'' (JNum 0) = Inr thr"
    and r: "r = [(''btdcoded_ms'', ams), (''core_ms'', cms), (''ratio'', ratio),
             (''faster'', JStr (if lt then ''BTCDecoded'' else ''Bitcoin Core'')),
             (''btdcoded_throughput'', thr)] @ note"
    unfolding both_record_def by (elim py_bindE) auto
  from lt obtain x y where x: "num_of ams = Some x" and y: "num_of cms = Some y"
    and l: "lt = (x < y)"
    by (auto simp: py_lt_Inr)
  from pos x have p: "pos = (0 < x)" by (simp add: py_gt0_Inr)
  from ratio p x y have "ratio = JNum (if 0 < x then y / x else 0)"
    by (cases pos) (auto simp: py_truediv_def)
  with r l have "r = [(''btdcoded_ms'', ams), (''core_ms'', cms),
              (''ratio'', JNum (if 0 < x then y / x else 0)),
              (''faster'', JStr (if x < y then ''BTCDecoded'' else ''Bitcoin Core'')),
              (''btdcoded_throughput'', thr)] @ note"
    by simp
  with ams cms x y thr show ?thesis by (rule that)
qed

lemma btdcoded_only_record_Inr:
  assumes "btdcoded_only_record a = Inr r"
  obtains ams thr where
    "btdcoded_mean_ms a = Inr ams"
    and "py_get a ''throughput_ops_per_sec'' (JNum 0) = Inr thr"
    and "r = [(''btdcoded_ms'', ams), (''btdcoded_throughput'', thr),
              (''note'', JStr ''Core benchmark not available for comparison'')]"
  using assms unfolding btdcoded_only_record_def by (elim py_bindE) auto

text \<open>What a family contributes: nothing or one record.\<close>

lemma paired_family_Inr:
  assumes "paired_family btdcoded core a_key c_key note = Inr l"
  shows "l = [] \<or>
         (\<exists>a_stat c_stat r.
            nested_lookup btdcoded ''consensus_proof'' a_key = Inr (Some a_stat) \<and>
            nested_lookup core ''benchmarks'' c_key = Inr (Some c_stat) \<and>
            py_in ''mean_ms'' c_stat = Inr True \<and>
            both_record a_stat c_stat note = Inr r \<and> l = [(c_key, JObj r)])"
proof -
  from assms obtain a where a: "nested_lookup btdcoded ''consensus_proof'' a_key = Inr a"
    and r1: "(case a of None \<Rightarrow> Inr []
       | Some btdcoded_stat \<Rightarrow>
     py_bind (nested_lookup core ''benchmarks'' c_key) (\<lambda>c.
       case c of None \<Rightarrow> Inr []
       | Some core_stat \<Rightarrow>
     py_bind (py_in ''mean_ms'' core_stat) (\<lambda>has_mean.
       if has_mean then
         py_bind (both_record btdcoded_stat core_stat note) (\<lambda>r. Inr [(c_key, JObj r)])
       else Inr []))) = Inr l"
    unfolding paired_family_def by (rule py_bindE)
  show ?thesis
  proof (cases a)
    case None
    with r1 show ?thesis by simp
  next
    case (Some a_stat)
    with r1 obtain c where c: "nested_lookup core ''benchmarks'' c_key = Inr c"
      and r2: "(case c of None \<Rightarrow> Inr []
       | Some core_stat \<Rightarrow>
     py_bind (py_in ''mean_ms'' core_stat) (\<lambda>has_mean.
       if has_mean then
         py_bind (both_record a_stat core_stat note) (\<lambda>r. Inr [(c_key, JObj r)])
       else Inr [])) = Inr l"
      by (auto elim!: py_bindE)
    show ?thesis
    proof (cases c)
      case None
      with r2 show ?thesis by simp
    next
      case (Some c_stat)
      with r2 obtain has_mean where hm: "py_in ''mean_ms'' c_stat = Inr has_mean"
        and r3: "(if has_mean then
         py_bind (both_record a_stat c_stat note) (\<lambda>r. Inr [(c_key, JObj r)])
       else Inr []) = Inr l"
        by (auto elim!: py_bindE)
      show ?thesis
      proof (cases has_mean)
        case True
        with r3 obtain r where "both_record a_stat c_stat note = Inr r" "l = [(c_key, JObj r)]"
          by (auto elim!: py_bindE)
        with a c hm True Some \<open>a = Some a_stat\<close> show ?thesis by auto
      next
        case False
        with r3 show ?thesis by simp
      qed
    qed
  qed
qed

lemma block_variant_Inr:
  assumes "block_variant btdcoded core a_key cmp_key = Inr l"
  shows "l = [] \<or>
         (\<exists>a_stat c_stat r.
            nested_lookup btdcoded ''consensus_proof'' a_key = Inr (Some a_stat) \<and>
            nested_lookup core ''benchmarks'' ''block_validation'' = Inr (Some c_stat) \<and>
            py_in ''mean_ms'' c_stat = Inr True \<and>
            both_record a_stat c_stat [] = Inr r \<and>
            l = [(''block_validation_'' @ cmp_key, JObj r)]) \<or>
         (\<exists>a_stat r.
            nested_lookup btdcoded ''consensus_proof'' a_key = Inr (Some a_stat) \<and>
            nested_lookup core ''benchmarks'' ''block_validation'' = Inr None \<and>
            btdcoded_only_record a_stat = Inr r \<and>
            l = [(''block_validation_'' @ cmp_key, JObj r)])"
proof -
  from assms obtain a where a: "nested_lookup btdcoded ''consensus_proof'' a_key = Inr a"
    and r1: "(case a of None \<Rightarrow> Inr []
       | Some btdcoded_block \<Rightarrow>
     py_bind (nested_lookup core ''benchmarks'' ''block_validation'') (\<lambda>c.
       case c of
         Some core_block \<Rightarrow>
           py_bind (py_in ''mean_ms'' core_block) (\<lambda>has_mean.
             if has_mean then
               py_bind (both_record btdcoded_block core_block []) (\<lambda>r.
                 Inr [(''block_validation_'' @ cmp_key, JObj r)])
             else Inr [])
       | None \<Rightarrow>
           py_bind (btdcoded_only_record btdcoded_block) (\<lambda>r.
             Inr [(''block_validation_'' @ cmp_key, JObj r)]))) = Inr l"
    unfolding block_variant_def by (rule py_bindE)
  show ?thesis
  proof (cases a)
    case None
    with r1 show ?thesis by simp
  next
    case (Some a_stat)
    with r1 obtain c where c: "nested_lookup core ''benchmarks'' ''block_validation'' = Inr c"
      and r2: "(case c of
         Some core_block \<Rightarrow>
           py_bind (py_in ''mean_ms'' core_block) (\<lambda>has_mean.
             if has_mean then
               py_bind (both_record a_stat core_block []) (\<lambda>r.
                 Inr [(''block_validation_'' @ cmp_key, JObj r)])
             else Inr [])
       | None \<Rightarrow>
           py_bind (btdcoded_only_record a_stat) (\<lambda>r.
             Inr [(''block_validation_'' @ cmp_key, JObj r)])) = Inr l"
      by (simp only: option.case) (erule py_bindE)
    show ?thesis
    proof (cases c)
      case None
      with r2 obtain r where "btdcoded_only_record a_stat = Inr r"
        "l = [(''block_validation_'' @ cmp_key, JObj r)]"
        by (auto elim!: py_bindE)
      with a c None Some show ?thesis by auto
    next
      case (Some c_stat)
      with r2 obtain has_mean where hm: "py_in ''mean_ms'' c_stat = Inr has_mean"
        and r3: "(if has_mean then
               py_bind (both_record a_stat c_stat []) (\<lambda>r.
                 Inr [(''block_validation_'' @ cmp_key, JObj r)])
             else Inr []) = Inr l"
        by (auto elim!: py_bindE)
      show ?thesis
      proof (cases has_mean)
        case True
        with r3 obtain r where "both_record a_stat c_stat [] = Inr r"
          "l = [(''block_validation_'' @ cmp_key, JObj r)]"
          by (auto elim!: py_bindE)
        with a c hm True Some \<open>a = Some a_stat\<close> show ?thesis by auto
      next
        case False
        with r3 show ?thesis by simp
      qed
    qed
  qed
qed

lemma compare_common_metrics_Inr:
  assumes "compare_common_metrics btdcoded core = Inr cmp"
  obtains tx hash block1 block2 where
    "paired_family btdcoded core ''check_transaction'' ''transaction_validation'' [] = Inr tx"
    "paired_family btdcoded core ''sha256_1kb'' ''hash_operations''
                [(''note'', JStr hash_note)] = Inr hash"
    "block_variant btdcoded core ''connect_block'' ''connect_block'' = Inr block1"
    "block_variant btdcoded core ''connect_block_multi_tx'' ''connect_block_multi_tx'' = Inr block2"
    "cmp = tx @ hash @ block1 @ block2"
  using assms unfolding compare_common_metrics_def by (elim py_bindE) auto

lemma paired_family_keys:
  "paired_family btdcoded core a_key c_key note = Inr l \<Longrightarrow> k \<noteq> c_key \<Longrightarrow> map_of l k = None"
  by (drule paired_family_Inr) auto

lemma block_variant_keys:
  "block_variant btdcoded core a_key cmp_key = Inr l \<Longrightarrow>
   k \<noteq> ''block_validation_'' @ cmp_key \<Longrightarrow> map_of l k = None"
  by (drule block_variant_Inr) auto

lemma compare_common_metrics_lookup:
  assumes "compare_common_metrics btdcoded core = Inr cmp"
  obtains tx hash block1 block2 where
    "paired_family btdcoded core ''check_transaction'' ''transaction_validation'' [] = Inr tx"
    "paired_family btdcoded core ''sha256_1kb'' ''hash_operations''
                [(''note'', JStr hash_note)] = Inr hash"
    "block_variant btdcoded core ''connect_block'' ''connect_block'' = Inr block1"
    "block_variant btdcoded core ''connect_block_multi_tx'' ''connect_block_multi_tx'' = Inr block2"
    "map_of cmp ''transaction_validation'' = map_of tx ''transaction_validation''"
    "map_of cmp ''hash_operations'' = map_of hash ''hash_operations''"
    "map_of cmp ''block_validation_connect_block''
       = map_of block1 ''block_validation_connect_block''"
    "map_of cmp ''block_validation_connect_block_multi_tx''
       = map_of block2 ''block_validation_connect_block_multi_tx''"
    "\<forall>k. k \<notin> {''transaction_validation'', ''hash_operations'',
               ''block_validation_connect_block'', ''block_validation_connect_block_multi_tx''}
          \<longrightarrow> map_of cmp k = None"
proof -
  from assms obtain tx hash block1 block2 where
    tx: "paired_family btdcoded core ''check_transaction'' ''transaction_validation'' [] = Inr tx"
    and hash: "paired_family btdcoded core ''sha256_1kb'' ''hash_operations''
                [(''note'', JStr hash_note)] = Inr hash"
    and b1: "block_variant btdcoded core ''connect_block'' ''connect_block'' = Inr block1"
    and b2: "block_variant btdcoded core ''connect_block_multi_tx'' ''connect_block_multi_tx''
               = Inr block2"
    and cmp: "cmp = tx @ hash @ block1 @ block2"
    by (rule compare_common_metrics_Inr)
  note ktx = paired_family_keys [OF tx] and khash = paired_family_keys [OF hash]
    and kb1 = block_variant_keys [OF b1] and kb2 = block_variant_keys [OF b2]
  have 1: "map_of cmp ''transaction_validation'' = map_of tx ''transaction_validation''"
    unfolding cmp
    by (simp add: map_add_def khash kb1 kb2 split: option.splits)
  have 2: "map_of cmp ''hash_operations'' = map_of hash ''hash_operations''"
    unfolding cmp
    by (simp add: map_add_def ktx kb1 kb2 split: option.splits)
  have 3: "map_of cmp ''block_validation_connect_block''
       = map_of block1 ''block_validation_connect_block''"
    unfolding cmp
    by (simp add: map_add_def ktx khash kb2 split: option.splits)
  have 4: "map_of cmp ''block_validation_connect_block_multi_tx''
       = map_of block2 ''block_validation_connect_block_multi_tx''"
    unfolding cmp
    by (simp add: map_add_def ktx khash kb1 split: option.splits)
  have 5: "map_of cmp k = None"
    if "k \<notin> {''transaction_validation'', ''hash_operations'',
               ''block_validation_connect_block'', ''block_validation_connect_block_multi_tx''}"
    for k
    using that unfolding cmp
    by (simp add: map_add_def ktx khash kb1 kb2 split: option.splits)
  then have 6: "\<forall>k. k \<notin> {''transaction_validation'', ''hash_operations'',
               ''block_validation_connect_block'', ''block_validation_connect_block_multi_tx''}
          \<longrightarrow> map_of cmp k = None"
    by (intro allI impI)
  from tx hash b1 b2 1 2 3 4 6 show ?thesis by (rule that)
qed

lemma paired_family_found:
  assumes "map_of A ''consensus_proof'' = Some (JObj cp)" and "map_of cp a_key = Some a_stat"
    and "map_of C ''benchmarks'' = Some (JObj bm)" and "map_of bm c_key = Some (JObj c_stat)"
    and "map_of c_stat ''mean_ms'' = Some cms"
    and "paired_family (JObj A) (JObj C) a_key c_key note = Inr l"
  obtains r where "both_record a_stat (JObj c_stat) note = Inr r" and "l = [(c_key, JObj r)]"
proof -
  from assms have "py_bind (both_record a_stat (JObj c_stat) note)
      (\<lambda>r. Inr [(c_key, JObj r)]) = Inr l"
    by (simp add: paired_family_def nested_lookup_def)
  then show ?thesis
    by (elim py_bindE) (auto intro: that)
qed

lemma block_variant_found:
  assumes "map_of A ''consensus_proof'' = Some (JObj cp)" and "map_of cp a_key = Some a_stat"
    and "map_of C ''benchmarks'' = Some (JObj bm)"
    and "map_of bm ''block_validation'' = Some (JObj c_stat)"
    and "map_of c_stat ''mean_ms'' = Some cms"
    and "block_variant (JObj A) (JObj C) a_key cmp_key = Inr l"
  obtains r where "both_record a_stat (JObj c_stat) [] = Inr r"
    and "l = [(''block_validation_'' @ cmp_key, JObj r)]"
proof -
  from assms have "py_bind (both_record a_stat (JObj c_stat) [])
             (\<lambda>r. Inr [(''block_validation_'' @ cmp_key, JObj r)]) = Inr l"
    by (simp add: block_variant_def nested_lookup_def)
  then show ?thesis
    by (elim py_bindE) (auto intro: that)
qed

lemma both_record_positive:
  assumes "both_record (JObj a_stat) (JObj c_stat) note = Inr r"
    and "map_of a_stat ''mean_ms'' = Some (JNum a)"
    and "map_of c_stat ''mean_ms'' = Some (JNum b)"
  shows "map_of r ''ratio'' = Some (JNum (if 0 < a then b / a else 0)) \<and>
         map_of r ''faster'' = Some (JStr (if a < b then ''BTCDecoded'' else ''Bitcoin Core''))"
proof -
  from assms(1) obtain ams cms x y thr where
    ams: "btdcoded_mean_ms (JObj a_stat) = Inr ams"
    and cms: "py_getitem (JObj c_stat) ''mean_ms'' = Inr cms"
    and x: "num_of ams = Some x" and y: "num_of cms = Some y"
    and r: "r = [(''btdcoded_ms'', ams), (''core_ms'', cms),
              (''ratio'', JNum (if 0 < x then y / x else 0)),
              (''faster'', JStr (if x < y then ''BTCDecoded'' else ''Bitcoin Core'')),
              (''btdcoded_throughput'', thr)] @ note"
    by (rule both_record_Inr)
  from ams assms(2) have "ams = JNum a"
    by (auto simp: btdcoded_mean_ms_def elim!: py_bindE)
  moreover from cms assms(3) have "cms = JNum b" by simp
  ultimately have "x = a" "y = b" using x y by simp_all
  then show ?thesis by (simp add: r)
qed

lemma family_cases:
  assumes "(a_key, c_key, key) \<in> set family_keys"
  obtains
      (c1) "a_key = ''check_transaction''" "c_key = ''transaction_validation''"
           "key = ''transaction_validation''"
    | (c2) "a_key = ''sha256_1kb''" "c_key = ''hash_operations''" "key = ''hash_operations''"
    | (c3) "a_key = ''connect_block''" "c_key = ''block_validation''"
           "key = ''block_validation_connect_block''"
    | (c4) "a_key = ''connect_block_multi_tx''" "c_key = ''block_validation''"
           "key = ''block_validation_connect_block_multi_tx''"
proof -
  from assms have
    "(a_key = ''check_transaction'' \<and> c_key = ''transaction_validation'' \<and>
           key = ''transaction_validation'') \<or>
     (a_key = ''sha256_1kb'' \<and> c_key = ''hash_operations'' \<and> key = ''hash_operations'') \<or>
     (a_key = ''connect_block'' \<and> c_key = ''block_validation'' \<and>
           key = ''block_validation_connect_block'') \<or>
     (a_key = ''connect_block_multi_tx'' \<and> c_key = ''block_validation'' \<and>
           key = ''block_validation_connect_block_multi_tx'')"
    unfolding family_keys_def by (simp only: list.set insert_iff empty_iff prod.inject simp_thms)
  then show ?thesis
    apply (elim disjE conjE)
       apply (erule (2) c1)
      apply (erule (2) c2)
     apply (erule (2) c3)
    apply (erule (2) c4)
    done
qed

lemmas compare_defs =
  compare_common_metrics_def paired_family_def block_variant_def nested_lookup_def
  both_record_def btdcoded_only_record_def btdcoded_mean_ms_def py_truediv_def py_gt0_def
  py_lt_def

lemma example_btdcoded_parsed:
  "example_btdcoded =
     [(''consensus_proof'', JObj (fst (parse_criterion_results (Loaded (JObj example_report)))))]"
  by (simp add: example_btdcoded_def example_report_def parser_defs)

lemma example_compare:
  "compare_common_metrics (JObj example_btdcoded) (JObj example_core) = Inr example_comparison"
  by (simp add: example_btdcoded_def example_core_def example_comparison_def compare_defs)

lemma key_cases:
  assumes "k \<in> {''transaction_validation'', ''hash_operations'',
               ''block_validation_connect_block'', ''block_validation_connect_block_multi_tx''}"
  obtains (k1) "k = ''transaction_validation''" | (k2) "k = ''hash_operations''"
    | (k3) "k = ''block_validation_connect_block''"
    | (k4) "k = ''block_validation_connect_block_multi_tx''"
proof -
  from assms have "k = ''transaction_validation'' \<or> k = ''hash_operations'' \<or>
      k = ''block_validation_connect_block'' \<or> k = ''block_validation_connect_block_multi_tx''"
    by (simp only: insert_iff empty_iff simp_thms)
  then show ?thesis
    apply (elim disjE)
       apply (erule k1)
      apply (erule k2)
     apply (erule k3)
    apply (erule k4)
    done
qed

lemma compare_record_origin:
  assumes "compare_common_metrics btdcoded core = Inr cmp"
    and "map_of cmp key = Some rec"
  shows "\<exists>a_key a_stat r.
           rec = JObj r \<and>
           nested_lookup btdcoded ''consensus_proof'' a_key = Inr (Some a_stat) \<and>
           ((\<exists>c_key c_stat extra.
               nested_lookup core ''benchmarks'' c_key = Inr (Some c_stat) \<and>
               both_record a_stat c_stat extra = Inr r) \<or>
            (nested_lookup core ''benchmarks'' ''block_validation'' = Inr None \<and>
             btdcoded_only_record a_stat = Inr r))"
proof -
  from assms(1) obtain tx hash block1 block2 where
    tx: "paired_family btdcoded core ''check_transaction'' ''transaction_validation'' []
           = Inr tx"
    and hash: "paired_family btdcoded core ''sha256_1kb'' ''hash_operations''
                [(''note'', JStr hash_note)] = Inr hash"
    and b1: "block_variant btdcoded core ''connect_block'' ''connect_block'' = Inr block1"
    and b2: "block_variant btdcoded core ''connect_block_multi_tx''
               ''connect_block_multi_tx'' = Inr block2"
    and m1: "map_of cmp ''transaction_validation'' = map_of tx ''transaction_validation''"
    and m2: "map_of cmp ''hash_operations'' = map_of hash ''hash_operations''"
    and m3: "map_of cmp ''block_validation_connect_block''
       = map_of block1 ''block_validation_connect_block''"
    and m4: "map_of cmp ''block_validation_connect_block_multi_tx''
       = map_of block2 ''block_validation_connect_block_multi_tx''"
    and other: "\<forall>k. k \<notin> {''transaction_validation'', ''hash_operations'',
               ''block_validation_connect_block'', ''block_validation_connect_block_multi_tx''}
          \<longrightarrow> map_of cmp k = None"
    by (rule compare_common_metrics_lookup)
  have "key \<in> {''transaction_validation'', ''hash_operations'',
               ''block_validation_connect_block'', ''block_validation_connect_block_multi_tx''}"
    using other [rule_format, of key] assms(2) by (cases "key \<in> {''transaction_validation'', ''hash_operations'',
               ''block_validation_connect_block'', ''block_validation_connect_block_multi_tx''}") simp_all
  then show ?thesis
  proof (cases rule: key_cases)
    case k1
    with m1 assms(2) have l: "map_of tx ''transaction_validation'' = Some rec" by simp
    from paired_family_Inr [OF tx] l show ?thesis
      by (elim disjE exE conjE) (simp, (simp, blast))
  next
    case k2
    with m2 assms(2) have l: "map_of hash ''hash_operations'' = Some rec" by simp
    from paired_family_Inr [OF hash] l show ?thesis
      by (elim disjE exE conjE) (simp, (simp, blast))
  next
    case k3
    with m3 assms(2) have l: "map_of block1 ''block_validation_connect_block'' = Some rec" by simp
    from block_variant_Inr [OF b1] l show ?thesis
      by (elim disjE exE conjE) (simp, (simp, blast), (simp, blast))
  next
    case k4
    with m4 assms(2) have l: "map_of block2 ''block_validation_connect_block_multi_tx'' = Some rec"
      by simp
    from block_variant_Inr [OF b2] l show ?thesis
      by (elim disjE exE conjE) (simp, (simp, blast), (simp, blast))
  qed
qed

lemma py_get_Inr:
  "py_get a k dflt = Inr v \<longleftrightarrow>
   (\<exists>d. a = JObj d \<and> v = (case map_of d k of Some x \<Rightarrow> x | None \<Rightarrow> dflt))"
  by (cases a) auto

lemma btdcoded_mean_ms_Inr:
  assumes "btdcoded_mean_ms a = Inr ams"
  obtains d where "a = JObj d"
    and "\<forall>v. map_of d ''mean_ms'' = Some v \<longrightarrow> ams = v"
    and "map_of d ''mean_ms'' = None \<and> map_of d ''mean_ns'' = None \<longrightarrow> ams = JNum 0"
proof -
  from assms obtain ns dflt where ns: "py_get a ''mean_ns'' (JNum 0) = Inr ns"
    and dflt: "py_truediv ns (JNum 1000000) = Inr dflt"
    and ams: "py_get a ''mean_ms'' dflt = Inr ams"
    unfolding btdcoded_mean_ms_def by (elim py_bindE)
  from ams obtain d where d: "a = JObj d"
    and v: "ams = (case map_of d ''mean_ms'' of Some x \<Rightarrow> x | None \<Rightarrow> dflt)"
    by (auto simp: py_get_Inr)
  have 1: "\<forall>v. map_of d ''mean_ms'' = Some v \<longrightarrow> ams = v"
    by (simp add: v)
  have 2: "map_of d ''mean_ms'' = None \<and> map_of d ''mean_ns'' = None \<longrightarrow> ams = JNum 0"
    using ns dflt by (auto simp: v d py_truediv_def)
  from d 1 2 show ?thesis by (rule that)
qed

lemma comparison_record_fields:
  assumes "compare_common_metrics btdcoded core = Inr cmp"
    and "map_of cmp key = Some rec"
  shows "\<exists>a_key d r ams.
        rec = JObj r \<and>
        nested_lookup btdcoded ''consensus_proof'' a_key = Inr (Some (JObj d)) \<and>
        map_of r ''btdcoded_ms'' = Some ams \<and>
        (\<forall>v. map_of d ''mean_ms'' = Some v \<longrightarrow> ams = v) \<and>
        (map_of d ''mean_ms'' = None \<and> map_of d ''mean_ns'' = None \<longrightarrow> ams = JNum 0) \<and>
        map_of r ''btdcoded_throughput'' =
          Some (case map_of d ''throughput_ops_per_sec'' of Some v \<Rightarrow> v | None \<Rightarrow> JNum 0) \<and>
        (case map_of r ''core_ms'' of
           None \<Rightarrow>
             nested_lookup core ''benchmarks'' ''block_validation'' = Inr None \<and>
             map_of r ''ratio'' = None \<and> map_of r ''faster'' = None \<and>
             map_of r ''note'' \<noteq> None
         | Some cms \<Rightarrow>
             (\<exists>c_key c_stat x y.
                nested_lookup core ''benchmarks'' c_key = Inr (Some c_stat) \<and>
                py_getitem c_stat ''mean_ms'' = Inr cms \<and>
                num_of ams = Some x \<and> num_of cms = Some y \<and>
                map_of r ''ratio'' = Some (JNum (if 0 < x then y / x else 0)) \<and>
                map_of r ''faster'' =
                  Some (JStr (if x < y then ''BTCDecoded'' else ''Bitcoin Core''))))"
proof -
  from compare_record_origin [OF assms] obtain a_key a_stat r where
    rec: "rec = JObj r"
    and a: "nested_lookup btdcoded ''consensus_proof'' a_key = Inr (Some a_stat)"
    and alt: "(\<exists>c_key c_stat extra.
               nested_lookup core ''benchmarks'' c_key = Inr (Some c_stat) \<and>
               both_record a_stat c_stat extra = Inr r) \<or>
            (nested_lookup core ''benchmarks'' ''block_validation'' = Inr None \<and>
             btdcoded_only_record a_stat = Inr r)"
    by blast
  from alt show ?thesis
  proof
    assume "\<exists>c_key c_stat extra.
               nested_lookup core ''benchmarks'' c_key = Inr (Some c_stat) \<and>
               both_record a_stat c_stat extra = Inr r"
    then obtain c_key c_stat extra where
      c: "nested_lookup core ''benchmarks'' c_key = Inr (Some c_stat)"
      and b: "both_record a_stat c_stat extra = Inr r"
      by blast
    from b obtain ams cms x y thr where
      ams: "btdcoded_mean_ms a_stat = Inr ams" and cms: "py_getitem c_stat ''mean_ms'' = Inr cms"
      and x: "num_of ams = Some x" and y: "num_of cms = Some y"
      and thr: "py_get a_stat ''throughput_ops_per_sec'' (JNum 0) = Inr thr"
      and r: "r = [(''btdcoded_ms'', ams), (''core_ms'', cms),
              (''ratio'', JNum (if 0 < x then y / x else 0)),
              (''faster'', JStr (if x < y then ''BTCDecoded'' else ''Bitcoin Core'')),
              (''btdcoded_throughput'', thr)] @ extra"
      by (rule both_record_Inr)
    from ams obtain d where d: "a_stat = JObj d"
      and d1: "\<forall>v. map_of d ''mean_ms'' = Some v \<longrightarrow> ams = v"
      and d2: "map_of d ''mean_ms'' = None \<and> map_of d ''mean_ns'' = None \<longrightarrow> ams = JNum 0"
      by (rule btdcoded_mean_ms_Inr)
    from thr d have t: "thr = (case map_of d ''throughput_ops_per_sec'' of
                                Some v \<Rightarrow> v | None \<Rightarrow> JNum 0)"
      by (simp add: py_get_Inr)
    have f1: "map_of r ''btdcoded_ms'' = Some ams" by (simp add: r map_add_def)
    have f2: "map_of r ''core_ms'' = Some cms" by (simp add: r map_add_def)
    have f3: "map_of r ''ratio'' = Some (JNum (if 0 < x then y / x else 0))"
      by (simp add: r map_add_def)
    have f4: "map_of r ''faster'' = Some (JStr (if x < y then ''BTCDecoded'' else ''Bitcoin Core''))"
      by (simp add: r map_add_def)
    have f5: "map_of r ''btdcoded_throughput'' = Some thr" by (simp add: r map_add_def)
    have "\<exists>c_key c_stat x y.
                nested_lookup core ''benchmarks'' c_key = Inr (Some c_stat) \<and>
                py_getitem c_stat ''mean_ms'' = Inr cms \<and>
                num_of ams = Some x \<and> num_of cms = Some y \<and>
                map_of r ''ratio'' = Some (JNum (if 0 < x then y / x else 0)) \<and>
                map_of r ''faster'' =
                  Some (JStr (if x < y then ''BTCDecoded'' else ''Bitcoin Core''))"
      using c cms x y f3 f4 by blast
    with rec a d d1 d2 t f1 f2 f5 show ?thesis
      by (intro exI [of _ a_key] exI [of _ d] exI [of _ r] exI [of _ ams]) simp
  next
    assume "nested_lookup core ''benchmarks'' ''block_validation'' = Inr None \<and>
             btdcoded_only_record a_stat = Inr r"
    then have n: "nested_lookup core ''benchmarks'' ''block_validation'' = Inr None"
      and b: "btdcoded_only_record a_stat = Inr r"
      by simp_all
    from b obtain ams thr where
      ams: "btdcoded_mean_ms a_stat = Inr ams"
      and thr: "py_get a_stat ''throughput_ops_per_sec'' (JNum 0) = Inr thr"
      and r: "r = [(''btdcoded_ms'', ams), (''btdcoded_throughput'', thr),
              (''note'', JStr ''Core benchmark not available for comparison'')]"
      by (rule btdcoded_only_record_Inr)
    from ams obtain d where d: "a_stat = JObj d"
      and d1: "\<forall>v. map_of d ''mean_ms'' = Some v \<longrightarrow> ams = v"
      and d2: "map_of d ''mean_ms'' = None \<and> map_of d ''mean_ns'' = None \<longrightarrow> ams = JNum 0"
      by (rule btdcoded_mean_ms_Inr)
    from thr d have t: "thr = (case map_of d ''throughput_ops_per_sec'' of
                                Some v \<Rightarrow> v | None \<Rightarrow> JNum 0)"
      by (simp add: py_get_Inr)
    have f1: "map_of r ''btdcoded_ms'' = Some ams" by (simp add: r)
    have f2: "map_of r ''core_ms'' = None" by (simp add: r)
    have f3: "map_of r ''ratio'' = None" by (simp add: r)
    have f4: "map_of r ''faster'' = None" by (simp add: r)
    have f5: "map_of r ''btdcoded_throughput'' = Some thr" by (simp add: r)
    have f6: "map_of r ''note'' \<noteq> None" by (simp add: r)
    from rec a d d1 d2 t f1 f2 f3 f4 f5 f6 n show ?thesis
      by (intro exI [of _ a_key] exI [of _ d] exI [of _ r] exI [of _ ams]) simp
  qed
qed

subsection \<open>Claims about the comparison engine\<close>

text \<open>
  Claim C5. In each family (transaction validation, hash operations, the two block
  validation variants), when BTCDecoded's and Bitcoin Core's \<^verbatim>\<open>mean_ms\<close> are both present
  and positive, the comparison record has \<open>ratio = B.mean_ms / A.mean_ms\<close> and \<open>faster\<close> is
  BTCDecoded if \<open>A.mean_ms < B.mean_ms\<close> and Bitcoin Core otherwise. The witness is the
  comparison of 2 ms against 4 ms: the ratio is 2 and BTCDecoded is faster.
\<close>

theorem ratio_and_faster:
  assumes "(a_key, c_key, key) \<in> set family_keys"
    and "map_of A ''consensus_proof'' = Some (JObj cp)"
    and "map_of cp a_key = Some (JObj a_stat)"
    and "map_of a_stat ''mean_ms'' = Some (JNum a)"
    and "map_of C ''benchmarks'' = Some (JObj bm)"
    and "map_of bm c_key = Some (JObj c_stat)"
    and "map_of c_stat ''mean_ms'' = Some (JNum b)"
    and "0 < a" and "0 < b"
    and "compare_common_metrics (JObj A) (JObj C) = Inr cmp"
  shows "\<exists>r. map_of cmp key = Some (JObj r) \<and>
             map_of r ''ratio'' = Some (JNum (b / a)) \<and>
             map_of r ''faster'' = Some (JStr (if a < b then ''BTCDecoded'' else ''Bitcoin Core''))"
proof -
  from assms(10) obtain tx hash block1 block2 where
    tx: "paired_family (JObj A) (JObj C) ''check_transaction'' ''transaction_validation'' []
           = Inr tx"
    and hash: "paired_family (JObj A) (JObj C) ''sha256_1kb'' ''hash_operations''
                [(''note'', JStr hash_note)] = Inr hash"
    and b1: "block_variant (JObj A) (JObj C) ''connect_block'' ''connect_block'' = Inr block1"
    and b2: "block_variant (JObj A) (JObj C) ''connect_block_multi_tx''
               ''connect_block_multi_tx'' = Inr block2"
    and m1: "map_of cmp ''transaction_validation'' = map_of tx ''transaction_validation''"
    and m2: "map_of cmp ''hash_operations'' = map_of hash ''hash_operations''"
    and m3: "map_of cmp ''block_validation_connect_block''
       = map_of block1 ''block_validation_connect_block''"
    and m4: "map_of cmp ''block_validation_connect_block_multi_tx''
       = map_of block2 ''block_validation_connect_block_multi_tx''"
    by (rule compare_common_metrics_lookup)
  note pos = both_record_positive [OF _ assms(4,7)]
  from assms(1) obtain r extra where rec: "both_record (JObj a_stat) (JObj c_stat) extra = Inr r"
    and look: "map_of cmp key = Some (JObj r)"
  proof (cases rule: family_cases)
    case c1
    from tx have "paired_family (JObj A) (JObj C) a_key c_key [] = Inr tx"
      by (simp only: c1)
    from paired_family_found [OF assms(2,3,5,6,7) this]
    obtain r where r: "both_record (JObj a_stat) (JObj c_stat) [] = Inr r"
      and "tx = [(c_key, JObj r)]"
      by blast
    then have "map_of cmp key = Some (JObj r)"
      by (simp add: m1 c1)
    with r that show ?thesis by blast
  next
    case c2
    from hash have "paired_family (JObj A) (JObj C) a_key c_key [(''note'', JStr hash_note)]
                      = Inr hash"
      by (simp only: c2)
    from paired_family_found [OF assms(2,3,5,6,7) this]
    obtain r where r: "both_record (JObj a_stat) (JObj c_stat) [(''note'', JStr hash_note)]
                         = Inr r"
      and "hash = [(c_key, JObj r)]"
      by blast
    then have "map_of cmp key = Some (JObj r)"
      by (simp add: m2 c2)
    with r that show ?thesis by blast
  next
    case c3
    from b1 have b: "block_variant (JObj A) (JObj C) a_key ''connect_block'' = Inr block1"
      by (simp only: c3)
    from assms(6) have "map_of bm ''block_validation'' = Some (JObj c_stat)"
      by (simp only: c3)
    from block_variant_found [OF assms(2,3,5) this assms(7) b]
    obtain r where r: "both_record (JObj a_stat) (JObj c_stat) [] = Inr r"
      and "block1 = [(''block_validation_'' @ ''connect_block'', JObj r)]"
      by blast
    then have "map_of cmp key = Some (JObj r)"
      by (simp add: m3 c3)
    with r that show ?thesis by blast
  next
    case c4
    from b2 have b: "block_variant (JObj A) (JObj C) a_key ''connect_block_multi_tx''
                       = Inr block2"
      by (simp only: c4)
    from assms(6) have "map_of bm ''block_validation'' = Some (JObj c_stat)"
      by (simp only: c4)
    from block_variant_found [OF assms(2,3,5) this assms(7) b]
    obtain r where r: "both_record (JObj a_stat) (JObj c_stat) [] = Inr r"
      and "block2 = [(''block_validation_'' @ ''connect_block_multi_tx'', JObj r)]"
      by blast
    then have "map_of cmp key = Some (JObj r)"
      by (simp add: m4 c4)
    with r that show ?thesis by blast
  qed
  from pos [OF rec] \<open>0 < a\<close> look show ?thesis by simp
qed

theorem ratio_and_faster_witness:
  "compare_common_metrics (JObj example_btdcoded) (JObj example_core) = Inr example_comparison \<and>
   (\<exists>r. map_of example_comparison ''transaction_validation'' = Some (JObj r) \<and>
        map_of r ''ratio'' = Some (JNum 2) \<and>
        map_of r ''faster'' = Some (JStr ''BTCDecoded''))"
proof -
  have h1: "(''check_transaction'', ''transaction_validation'', ''transaction_validation'')
              \<in> set family_keys"
    by (simp add: family_keys_def)
  have h2: "map_of example_btdcoded ''consensus_proof'' =
      Some (JObj [(''check_transaction'',
              JObj [(''mean_ns'', JNum 2000000), (''mean_ms'', JNum 2),
                    (''lower_bound_ns'', JNull), (''upper_bound_ns'', JNull),
                    (''throughput_ops_per_sec'', JNum 500)]),
             (''sha256_1kb'',
              JObj [(''mean_ns'', JNum 1500), (''mean_ms'', JNum (3 / 2000)),
                    (''lower_bound_ns'', JNull), (''upper_bound_ns'', JNull),
                    (''throughput_ops_per_sec'', JNum (2000000 / 3))]),
             (''connect_block'',
              JObj [(''mean_ns'', JNum 0), (''mean_ms'', JNum 0),
                    (''lower_bound_ns'', JNull), (''upper_bound_ns'', JNull)])])"
    by (simp add: example_btdcoded_def)
  have h3: "map_of [(''check_transaction'',
              JObj [(''mean_ns'', JNum 2000000), (''mean_ms'', JNum 2),
                    (''lower_bound_ns'', JNull), (''upper_bound_ns'', JNull),
                    (''throughput_ops_per_sec'', JNum 500)]),
             (''sha256_1kb'',
              JObj [(''mean_ns'', JNum 1500), (''mean_ms'', JNum (3 / 2000)),
                    (''lower_bound_ns'', JNull), (''upper_bound_ns'', JNull),
                    (''throughput_ops_per_sec'', JNum (2000000 / 3))]),
             (''connect_block'',
              JObj [(''mean_ns'', JNum 0), (''mean_ms'', JNum 0),
                    (''lower_bound_ns'', JNull), (''upper_bound_ns'', JNull)])]
       ''check_transaction'' =
       Some (JObj [(''mean_ns'', JNum 2000000), (''mean_ms'', JNum 2),
                    (''lower_bound_ns'', JNull), (''upper_bound_ns'', JNull),
                    (''throughput_ops_per_sec'', JNum 500)])"
    by simp
  have h4: "map_of [(''mean_ns'', JNum 2000000), (''mean_ms'', JNum 2),
                    (''lower_bound_ns'', JNull), (''upper_bound_ns'', JNull),
                    (''throughput_ops_per_sec'', JNum 500)] ''mean_ms'' = Some (JNum 2)"
    by simp
  have h5: "map_of example_core ''benchmarks'' =
      Some (JObj [(''transaction_validation'',
              JObj [(''mean_ms'', JNum 4), (''min_ms'', JNum 3), (''max_ms'', JNum 5),
                    (''samples'', JNum 50)]),
             (''block_validation'',
              JObj [(''mean_ms'', JNum 10), (''min_ms'', JNum 9), (''max_ms'', JNum 11),
                    (''samples'', JNum 10)])])"
    by (simp add: example_core_def)
  have h6: "map_of [(''transaction_validation'',
              JObj [(''mean_ms'', JNum 4), (''min_ms'', JNum 3), (''max_ms'', JNum 5),
                    (''samples'', JNum 50)]),
             (''block_validation'',
              JObj [(''mean_ms'', JNum 10), (''min_ms'', JNum 9), (''max_ms'', JNum 11),
                    (''samples'', JNum 10)])] ''transaction_validation'' =
       Some (JObj [(''mean_ms'', JNum 4), (''min_ms'', JNum 3), (''max_ms'', JNum 5),
                    (''samples'', JNum 50)])"
    by simp
  have h7: "map_of [(''mean_ms'', JNum 4), (''min_ms'', JNum 3), (''max_ms'', JNum 5),
                    (''samples'', JNum 50)] ''mean_ms'' = Some (JNum 4)"
    by simp
  have h8: "(0::real) < 2" and h9: "(0::real) < 4"
    by simp_all
  have h10: "compare_common_metrics (JObj example_btdcoded) (JObj example_core)
               = Inr example_comparison"
    by (simp add: example_btdcoded_def example_core_def example_comparison_def compare_defs)
  from ratio_and_faster [OF h1 h2 h3 h4 h5 h6 h7 h8 h9 h10] h10
  show ?thesis by simp
qed

text \<open>
  Claim C3, as the code has it. In every record the exporter emits, an optional field
  (\<^verbatim>\<open>min_ms\<close>, \<^verbatim>\<open>max_ms\<close>, \<^verbatim>\<open>samples\<close>, \<^verbatim>\<open>throughput_ops_per_sec\<close>) whose source data is
  missing is left out, not zero-filled. In a comparison record, \<^verbatim>\<open>ratio\<close> and \<^verbatim>\<open>faster\<close> are
  there exactly when Bitcoin Core's \<^verbatim>\<open>mean_ms\<close> is (the record then carries \<^verbatim>\<open>core_ms\<close>);
  \<^verbatim>\<open>ratio\<close> is \<open>B / A\<close> when BTCDecoded's \<^verbatim>\<open>mean_ms\<close> is strictly positive and is written
  as 0 otherwise; \<^verbatim>\<open>btdcoded_ms\<close> is BTCDecoded's \<^verbatim>\<open>mean_ms\<close>, and 0 when both \<^verbatim>\<open>mean_ms\<close>
  and \<^verbatim>\<open>mean_ns\<close> are missing; \<^verbatim>\<open>btdcoded_throughput\<close> is always written, as 0 when
  BTCDecoded's statistic has no throughput.
\<close>

theorem optional_fields_of_records:
  "(export_parse_entry (JObj bd) = Inr (Some st) \<and>
    export_record name (JObj st) = Inr (core_name, r) \<longrightarrow>
      map_of r ''mean_ms'' \<noteq> None \<and>
      (map_of bd ''min'' = None \<longrightarrow> map_of r ''min_ms'' = None) \<and>
      (map_of bd ''max'' = None \<longrightarrow> map_of r ''max_ms'' = None) \<and>
      (map_of bd ''sample_count'' = None \<longrightarrow> map_of r ''samples'' = None) \<and>
      (\<forall>mean_ns. point_estimate (JObj bd) = Some mean_ns \<and> mean_ns \<le> 0 \<longrightarrow>
         map_of r ''throughput_ops_per_sec'' = None)) \<and>
   (compare_common_metrics btdcoded core = Inr cmp \<and> map_of cmp key = Some rec \<longrightarrow>
     (\<exists>a_key d r ams.
        rec = JObj r \<and>
        nested_lookup btdcoded ''consensus_proof'' a_key = Inr (Some (JObj d)) \<and>
        map_of r ''btdcoded_ms'' = Some ams \<and>
        (\<forall>v. map_of d ''mean_ms'' = Some v \<longrightarrow> ams = v) \<and>
        (map_of d ''mean_ms'' = None \<and> map_of d ''mean_ns'' = None \<longrightarrow> ams = JNum 0) \<and>
        map_of r ''btdcoded_throughput'' =
          Some (case map_of d ''throughput_ops_per_sec'' of Some v \<Rightarrow> v | None \<Rightarrow> JNum 0) \<and>
        (case map_of r ''core_ms'' of
           None \<Rightarrow>
             nested_lookup core ''benchmarks'' ''block_validation'' = Inr None \<and>
             map_of r ''ratio'' = None \<and> map_of r ''faster'' = None \<and>
             map_of r ''note'' \<noteq> None
         | Some cms \<Rightarrow>
             (\<exists>c_key c_stat x y.
                nested_lookup core ''benchmarks'' c_key = Inr (Some c_stat) \<and>
                py_getitem c_stat ''mean_ms'' = Inr cms \<and>
                num_of ams = Some x \<and> num_of cms = Some y \<and>
                map_of r ''ratio'' = Some (JNum (if 0 < x then y / x else 0)) \<and>
                map_of r ''faster'' =
                  Some (JStr (if x < y then ''BTCDecoded'' else ''Bitcoin Core''))))))"
proof (intro conjI impI)
  assume "export_parse_entry (JObj bd) = Inr (Some st) \<and>
    export_record name (JObj st) = Inr (core_name, r)"
  then have a: "export_parse_entry (JObj bd) = Inr (Some st)"
    and b: "export_record name (JObj st) = Inr (core_name, r)"
    by simp_all
  from export_record_omits [OF a b]
  show "map_of r ''mean_ms'' \<noteq> None"
    and "map_of bd ''min'' = None \<Longrightarrow> map_of r ''min_ms'' = None"
    and "map_of bd ''max'' = None \<Longrightarrow> map_of r ''max_ms'' = None"
    and "map_of bd ''sample_count'' = None \<Longrightarrow> map_of r ''samples'' = None"
    and "\<forall>mean_ns. point_estimate (JObj bd) = Some mean_ns \<and> mean_ns \<le> 0 \<longrightarrow>
         map_of r ''throughput_ops_per_sec'' = None"
    by simp_all
next
  assume "compare_common_metrics btdcoded core = Inr cmp \<and> map_of cmp key = Some rec"
  then have a: "compare_common_metrics btdcoded core = Inr cmp"
    and b: "map_of cmp key = Some rec"
    by simp_all
  from comparison_record_fields [OF a b]
  show "\<exists>a_key d r ams.
        rec = JObj r \<and>
        nested_lookup btdcoded ''consensus_proof'' a_key = Inr (Some (JObj d)) \<and>
        map_of r ''btdcoded_ms'' = Some ams \<and>
        (\<forall>v. map_of d ''mean_ms'' = Some v \<longrightarrow> ams = v) \<and>
        (map_of d ''mean_ms'' = None \<and> map_of d ''mean_ns'' = None \<longrightarrow> ams = JNum 0) \<and>
        map_of r ''btdcoded_throughput'' =
          Some (case map_of d ''throughput_ops_per_sec'' of Some v \<Rightarrow> v | None \<Rightarrow> JNum 0) \<and>
        (case map_of r ''core_ms'' of
           None \<Rightarrow>
             nested_lookup core ''benchmarks'' ''block_validation'' = Inr None \<and>
             map_of r ''ratio'' = None \<and> map_of r ''faster'' = None \<and>
             map_of r ''note'' \<noteq> None
         | Some cms \<Rightarrow>
             (\<exists>c_key c_stat x y.
                nested_lookup core ''benchmarks'' c_key = Inr (Some c_stat) \<and>
                py_getitem c_stat ''mean_ms'' = Inr cms \<and>
                num_of ams = Some x \<and> num_of cms = Some y \<and>
                map_of r ''ratio'' = Some (JNum (if 0 < x then y / x else 0)) \<and>
                map_of r ''faster'' =
                  Some (JStr (if x < y then ''BTCDecoded'' else ''Bitcoin Core''))))" .
qed

theorem optional_fields_of_records_witness:
  "export_parse_entry (JObj [(''mean'', JObj [(''point_estimate'', JNum 0)])]) =
     Inr (Some [(''mean_ms'', JNum 0), (''mean_ns'', JNum 0), (''min_ms'', JNull),
                (''max_ms'', JNull), (''samples'', JNull),
                (''throughput_ops_per_sec'', JNull)]) \<and>
   export_record ''connect_block''
     (JObj [(''mean_ms'', JNum 0), (''mean_ns'', JNum 0), (''min_ms'', JNull),
            (''max_ms'', JNull), (''samples'', JNull), (''throughput_ops_per_sec'', JNull)]) =
     Inr (''block_validation'',
          [(''mean_ms'', JNum 0), (''original_name'', JStr ''connect_block'')]) \<and>
   compare_common_metrics (JObj example_btdcoded) (JObj []) =
     Inr [(''block_validation_connect_block'',
           JObj [(''btdcoded_ms'', JNum 0), (''btdcoded_throughput'', JNum 0),
                 (''note'', JStr ''Core benchmark not available for comparison'')])] \<and>
   map_of [(''mean_ms'', JNum 0), (''original_name'', JStr ''connect_block'')]
     ''throughput_ops_per_sec'' = None \<and>
   (\<exists>a_key d r ams.
      nested_lookup (JObj example_btdcoded) ''consensus_proof'' a_key = Inr (Some (JObj d)) \<and>
      map_of r ''btdcoded_ms'' = Some ams \<and>
      map_of r ''btdcoded_throughput'' =
        Some (case map_of d ''throughput_ops_per_sec'' of Some v \<Rightarrow> v | None \<Rightarrow> JNum 0))"
proof -
  have h1: "export_parse_entry (JObj [(''mean'', JObj [(''point_estimate'', JNum 0)])]) =
     Inr (Some [(''mean_ms'', JNum 0), (''mean_ns'', JNum 0), (''min_ms'', JNull),
                (''max_ms'', JNull), (''samples'', JNull),
                (''throughput_ops_per_sec'', JNull)])"
    by (simp add: export_parser_defs)
  have h2: "export_record ''connect_block''
     (JObj [(''mean_ms'', JNum 0), (''mean_ns'', JNum 0), (''min_ms'', JNull),
            (''max_ms'', JNull), (''samples'', JNull), (''throughput_ops_per_sec'', JNull)]) =
     Inr (''block_validation'',
          [(''mean_ms'', JNum 0), (''original_name'', JStr ''connect_block'')])"
    by (simp add: export_record_def copy_if_present_def benchmark_mapping_def)
  have h3: "compare_common_metrics (JObj example_btdcoded) (JObj []) =
     Inr [(''block_validation_connect_block'',
           JObj [(''btdcoded_ms'', JNum 0), (''btdcoded_throughput'', JNum 0),
                 (''note'', JStr ''Core benchmark not available for comparison'')])]"
    by (simp add: example_btdcoded_def compare_defs)
  have h4: "map_of [(''block_validation_connect_block'',
           JObj [(''btdcoded_ms'', JNum 0), (''btdcoded_throughput'', JNum 0),
                 (''note'', JStr ''Core benchmark not available for comparison'')])]
       ''block_validation_connect_block'' =
     Some (JObj [(''btdcoded_ms'', JNum 0), (''btdcoded_throughput'', JNum 0),
                 (''note'', JStr ''Core benchmark not available for comparison'')])"
    by simp
  note t = optional_fields_of_records [of "[(''mean'', JObj [(''point_estimate'', JNum 0)])]"
     "[(''mean_ms'', JNum 0), (''mean_ns'', JNum 0), (''min_ms'', JNull),
                (''max_ms'', JNull), (''samples'', JNull),
                (''throughput_ops_per_sec'', JNull)]"
     "''connect_block''" "''block_validation''"
     "[(''mean_ms'', JNum 0), (''original_name'', JStr ''connect_block'')]"
     "JObj example_btdcoded" "JObj []"
     "[(''block_validation_connect_block'',
           JObj [(''btdcoded_ms'', JNum 0), (''btdcoded_throughput'', JNum 0),
                 (''note'', JStr ''Core benchmark not available for comparison'')])]"
     "''block_validation_connect_block''"
     "JObj [(''btdcoded_ms'', JNum 0), (''btdcoded_throughput'', JNum 0),
                 (''note'', JStr ''Core benchmark not available for comparison'')]"]
  have pe: "point_estimate (JObj [(''mean'', JObj [(''point_estimate'', JNum 0)])]) = Some 0"
    by (simp add: point_estimate_def)
  from t h1 h2 pe have c1: "map_of [(''mean_ms'', JNum 0), (''original_name'', JStr ''connect_block'')]
     ''throughput_ops_per_sec'' = None"
    by simp
  from t h3 h4 have c2: "\<exists>a_key d r ams.
      nested_lookup (JObj example_btdcoded) ''consensus_proof'' a_key = Inr (Some (JObj d)) \<and>
      map_of r ''btdcoded_ms'' = Some ams \<and>
      map_of r ''btdcoded_throughput'' =
        Some (case map_of d ''throughput_ops_per_sec'' of Some v \<Rightarrow> v | None \<Rightarrow> JNum 0)"
    by blast
  from h1 h2 h3 c1 c2 show ?thesis by (intro conjI)
qed

text \<open>
  The claim as first stated fails on the example: the block benchmark has mean 0 and no
  throughput, and its comparison record still has \<^verbatim>\<open>ratio\<close> and \<^verbatim>\<open>faster\<close>, with 0
  written for the ratio and for the throughput.
\<close>

theorem zero_placeholders_counterexample:
  "map_of (fst (parse_criterion_results (Loaded (JObj example_report)))) ''connect_block''
     = Some (JObj [(''mean_ns'', JNum 0), (''mean_ms'', JNum 0),
                   (''lower_bound_ns'', JNull), (''upper_bound_ns'', JNull)]) \<and>
   example_btdcoded =
     [(''consensus_proof'', JObj (fst (parse_criterion_results (Loaded (JObj example_report)))))] \<and>
   compare_common_metrics (JObj example_btdcoded) (JObj example_core) = Inr example_comparison \<and>
   map_of example_comparison ''block_validation_connect_block''
     = Some (JObj [(''btdcoded_ms'', JNum 0), (''core_ms'', JNum 10), (''ratio'', JNum 0),
                   (''faster'', JStr ''BTCDecoded''), (''btdcoded_throughput'', JNum 0)])"
proof (intro conjI)
  show "map_of (fst (parse_criterion_results (Loaded (JObj example_report)))) ''connect_block''
     = Some (JObj [(''mean_ns'', JNum 0), (''mean_ms'', JNum 0),
                   (''lower_bound_ns'', JNull), (''upper_bound_ns'', JNull)])"
    by (simp add: example_report_def parser_defs)
  show "example_btdcoded =
     [(''consensus_proof'', JObj (fst (parse_criterion_results (Loaded (JObj example_report)))))]"
    by (rule example_btdcoded_parsed)
  show "compare_common_metrics (JObj example_btdcoded) (JObj example_core) = Inr example_comparison"
    by (rule example_compare)
  show "map_of example_comparison ''block_validation_connect_block''
     = Some (JObj [(''btdcoded_ms'', JNum 0), (''core_ms'', JNum 10), (''ratio'', JNum 0),
                   (''faster'', JStr ''BTCDecoded''), (''btdcoded_throughput'', JNum 0)])"
    by (simp add: example_comparison_def)
qed

text \<open>
  Claim C1 asks for a record, with BTCDecoded's data and a note, for every modelled
  benchmark that BTCDecoded has and Bitcoin Core lacks. The block family does that in
  its \<^verbatim>\<open>else\<close> branch; the transaction and hash families have no such branch. On the
  example, BTCDecoded has the hash benchmark \<^verbatim>\<open>sha256_1kb\<close> and Core has no hash workload:
  the comparison has no \<^verbatim>\<open>hash_operations\<close> record. Without any Core file at all, only
  the block benchmark gets its record; the transaction and hash benchmarks get none.
\<close>

theorem missing_counterpart_drops_record:
  "compare_benchmarks (Some (Loaded (JObj example_report))) None
     (Some (Loaded (JObj example_core)))
     = Inr [(''btdcoded'', JObj example_btdcoded), (''bitcoin_core'', JObj example_core),
            (''comparison'', JObj example_comparison)] \<and>
   map_of example_comparison ''hash_operations'' = None \<and>
   compare_benchmarks (Some (Loaded (JObj example_report))) None None
     = Inr [(''btdcoded'', JObj example_btdcoded), (''bitcoin_core'', JObj []),
            (''comparison'',
             JObj [(''block_validation_connect_block'',
                    JObj [(''btdcoded_ms'', JNum 0), (''btdcoded_throughput'', JNum 0),
                          (''note'', JStr ''Core benchmark not available for comparison'')])])]"
proof (intro conjI)
  have c: "compare_common_metrics (JObj example_btdcoded) (JObj []) =
     Inr [(''block_validation_connect_block'',
           JObj [(''btdcoded_ms'', JNum 0), (''btdcoded_throughput'', JNum 0),
                 (''note'', JStr ''Core benchmark not available for comparison'')])]"
    by (simp add: example_btdcoded_def compare_defs)
  show "compare_benchmarks (Some (Loaded (JObj example_report))) None
     (Some (Loaded (JObj example_core)))
     = Inr [(''btdcoded'', JObj example_btdcoded), (''bitcoin_core'', JObj example_core),
            (''comparison'', JObj example_comparison)]"
    by (simp add: compare_benchmarks_def load_benchmark_results_def
        example_btdcoded_parsed [symmetric] example_compare)
  show "map_of example_comparison ''hash_operations'' = None"
    by (simp add: example_comparison_def)
  show "compare_benchmarks (Some (Loaded (JObj example_report))) None None
     = Inr [(''btdcoded'', JObj example_btdcoded), (''bitcoin_core'', JObj []),
            (''comparison'',
             JObj [(''block_validation_connect_block'',
                    JObj [(''btdcoded_ms'', JNum 0), (''btdcoded_throughput'', JNum 0),
                          (''note'', JStr ''Core benchmark not available for comparison'')])])]"
    by (simp add: compare_benchmarks_def example_btdcoded_parsed [symmetric] c)
qed

section \<open>Facts about the Bitcoin Core benchmark\<close>

lemma strip_no_space:
  "strip s = s \<longleftrightarrow> s = [] \<or> (\<not> is_space (hd s) \<and> \<not> is_space (last s))"
proof (cases s)
  case Nil
  then show ?thesis by (simp add: strip_def)
next
  case (Cons c cs)
  show ?thesis
  proof (cases "is_space c")
    case True
    have "length (strip s) \<le> length (dropWhile is_space s)"
      unfolding strip_def
      using length_dropWhile_le [of is_space "rev (dropWhile is_space s)"] by simp
    also have "\<dots> < length s"
      using True Cons by (simp add: le_imp_less_Suc length_dropWhile_le)
    finally have "strip s \<noteq> s" by auto
    with True Cons show ?thesis by simp
  next
    case False
    then have d: "dropWhile is_space s = s" using Cons by simp
    show ?thesis
    proof (cases "is_space (last s)")
      case True
      then have "dropWhile is_space (rev s) \<noteq> rev s"
        using Cons by (metis dropWhile_eq_Cons_conv hd_rev list.sel(1) neq_Nil_conv rev_is_Nil_conv list.distinct(1) hd_dropWhile)
      then have "strip s \<noteq> s"
        unfolding strip_def d by (metis rev_rev_ident)
      with True Cons show ?thesis by simp
    next
      case l: False
      then have "dropWhile is_space (rev s) = rev s"
        using Cons by (metis dropWhile.simps(2) hd_rev list.exhaust_sel rev_is_Nil_conv list.distinct(1))
      then have "strip s = s"
        unfolding strip_def d by simp
      with False l Cons show ?thesis by simp
    qed
  qed
qed

subsection \<open>Rounding\<close>

text \<open>
  The binary exponent is the right one; one rounding in the normal range moves a number by
  at most the fraction \<open>unit_roundoff\<close> of it; an integer below \<open>2 ^ 53\<close> is a double. The
  float sum of \<open>n\<close> samples that are zero or not tiny is within the factors
  \<open>(1 \<plusminus> unit_roundoff) ^ n\<close> of their sum, and the float mean within the factors
  \<open>(1 \<plusminus> unit_roundoff) ^ (n + 1)\<close> of their mean.
\<close>

lemma round_even_error: "\<bar>of_int (round_even y) - y\<bar> \<le> 1 / 2"
  unfolding round_even_def Let_def by (simp; linarith)

lemma round_even_of_int [simp]: "round_even (of_int k) = k"
  by (simp add: round_even_def)

lemma binary_exponent_lower:
  assumes "x \<noteq> 0"
  shows "2 powi (binary_exponent x) \<le> \<bar>x\<bar>"
proof (cases "1 \<le> \<bar>x\<bar>")
  case True
  let ?n = "\<lfloor>\<bar>x\<bar>\<rfloor>"
  have n: "0 < ?n" using True by linarith
  have b: "0 \<le> bitlen ?n - 1"
    using n by (simp add: bitlen_alt_def)
  from bitlen_bounds [OF n] have "(2::int) ^ nat (bitlen ?n - 1) \<le> ?n" ..
  then have "real_of_int (2 ^ nat (bitlen ?n - 1)) \<le> real_of_int ?n"
    by (rule of_int_le_iff [THEN iffD2])
  also have "\<dots> \<le> \<bar>x\<bar>" by linarith
  finally have "2 ^ nat (bitlen ?n - 1) \<le> \<bar>x\<bar>" by simp
  with True b show ?thesis
    by (simp add: binary_exponent_def power_int_def)
next
  case False
  let ?y = "1 / \<bar>x\<bar>"
  let ?n = "\<lceil>?y\<rceil> - 1"
  from False assms have y: "1 < ?y" by simp
  then have n: "0 < ?n" by linarith
  from bitlen_bounds [OF n] have "?n < 2 ^ nat (bitlen ?n)" ..
  then have "\<lceil>?y\<rceil> \<le> 2 ^ nat (bitlen ?n)" by linarith
  then have "real_of_int \<lceil>?y\<rceil> \<le> real_of_int (2 ^ nat (bitlen ?n))"
    by (rule of_int_le_iff [THEN iffD2])
  then have "?y \<le> 2 ^ nat (bitlen ?n)"
    by (simp add: ceiling_le_iff)
  then have "1 / 2 ^ nat (bitlen ?n) \<le> \<bar>x\<bar>"
    using assms by (simp add: field_simps)
  moreover have "(2::real) powi (- bitlen ?n) = 1 / 2 ^ nat (bitlen ?n)"
    using bitlen_nonneg [of ?n]
    by (simp add: power_int_minus power_int_nonneg_exp field_simps)
  ultimately show ?thesis using False
    by (simp add: binary_exponent_def)
qed

lemma round_double_error:
  assumes "x = 0 \<or> 1 / 2 ^ 1022 \<le> \<bar>x\<bar>"
  shows "\<bar>round_double x - x\<bar> \<le> unit_roundoff * \<bar>x\<bar>"
proof (cases "x = 0")
  case True
  then show ?thesis by (simp add: round_double_def)
next
  case False
  define e where "e = max (binary_exponent x - 52) (- 1074)"
  define p :: real where "p = 2 powi e"
  have p: "0 < p" by (simp add: p_def)
  have r: "round_double x = of_int (round_even (x / p)) * p"
    using False by (simp add: round_double_def e_def p_def Let_def)
  have "\<bar>round_double x - x\<bar> = \<bar>of_int (round_even (x / p)) - x / p\<bar> * p"
  proof -
    have "round_double x - x = (of_int (round_even (x / p)) - x / p) * p"
      using p by (simp add: r field_simps)
    then show ?thesis using p by (simp add: abs_mult)
  qed
  also have "\<dots> \<le> (1 / 2) * p"
    using round_even_error [of "x / p"] p by (intro mult_right_mono) simp_all
  also have "\<dots> \<le> unit_roundoff * \<bar>x\<bar>"
  proof (cases "binary_exponent x - 52 \<ge> - 1074")
    case True
    then have "e = binary_exponent x - 52"
      by (simp add: e_def)
    then have "p = 2 powi (binary_exponent x) / 2 powi 52"
      by (simp add: p_def power_int_diff)
    then have "p = 2 powi (binary_exponent x) / 2 ^ 52"
      by simp
    also have "\<dots> \<le> \<bar>x\<bar> / 2 ^ 52"
      using binary_exponent_lower [OF False] by (simp add: divide_right_mono)
    finally show ?thesis by (simp add: unit_roundoff_def)
  next
    case e: False
    then have "e = - 1074"
      by (simp add: e_def)
    then have "p = 1 / 2 ^ 1074"
      by (simp add: p_def power_int_minus field_simps)
    then have "p = (1 / 2 ^ 1022) / 2 ^ 52"
      by simp
    also have "\<dots> \<le> \<bar>x\<bar> / 2 ^ 52"
      using assms False by (intro divide_right_mono) simp_all
    finally show ?thesis by (simp add: unit_roundoff_def)
  qed
  finally show ?thesis .
qed


lemma binary_exponent_upper:
  assumes "x \<noteq> 0"
  shows "\<bar>x\<bar> < 2 powi (binary_exponent x + 1)"
proof (cases "1 \<le> \<bar>x\<bar>")
  case True
  let ?n = "\<lfloor>\<bar>x\<bar>\<rfloor>"
  have n: "0 < ?n" using True by linarith
  from bitlen_bounds [OF n] have "?n < 2 ^ nat (bitlen ?n)" ..
  then have "?n + 1 \<le> 2 ^ nat (bitlen ?n)" by linarith
  then have "real_of_int (?n + 1) \<le> real_of_int (2 ^ nat (bitlen ?n))"
    by (rule of_int_le_iff [THEN iffD2])
  then have "real_of_int (?n + 1) \<le> 2 ^ nat (bitlen ?n)" by simp
  moreover have "\<bar>x\<bar> < real_of_int (?n + 1)" by linarith
  ultimately have "\<bar>x\<bar> < 2 ^ nat (bitlen ?n)" by (rule less_le_trans [rotated])
  with True bitlen_nonneg [of ?n] show ?thesis
    by (simp add: binary_exponent_def power_int_nonneg_exp)
next
  case False
  let ?y = "1 / \<bar>x\<bar>"
  let ?n = "\<lceil>?y\<rceil> - 1"
  from False assms have y: "1 < ?y" by simp
  then have n: "0 < ?n" by linarith
  have b: "1 \<le> bitlen ?n"
    using n by (simp add: bitlen_alt_def)
  from bitlen_bounds [OF n] have "(2::int) ^ nat (bitlen ?n - 1) \<le> ?n" ..
  then have "real_of_int (2 ^ nat (bitlen ?n - 1)) \<le> real_of_int ?n"
    by (rule of_int_le_iff [THEN iffD2])
  moreover have "real_of_int ?n < ?y" by linarith
  ultimately have "2 ^ nat (bitlen ?n - 1) < ?y" by simp
  then have "\<bar>x\<bar> < 1 / 2 ^ nat (bitlen ?n - 1)"
    using assms by (simp add: field_simps)
  moreover have "(2::real) powi (- bitlen ?n + 1) = 1 / 2 ^ nat (bitlen ?n - 1)"
  proof -
    have "(2::real) powi (- bitlen ?n + 1) = 2 powi (- (bitlen ?n - 1))" by simp
    also have "\<dots> = 1 / 2 ^ nat (bitlen ?n - 1)"
      using b by (simp only: power_int_minus power_int_nonneg_exp) (simp add: field_simps)
    finally show ?thesis .
  qed
  ultimately show ?thesis using False
    by (simp add: binary_exponent_def)
qed

lemma round_double_of_int:
  assumes "\<bar>i\<bar> < 2 ^ 53"
  shows "round_double (of_int i) = of_int i"
proof (cases "i = 0")
  case True
  then show ?thesis by (simp add: round_double_def)
next
  case False
  let ?b = "bitlen \<bar>i\<bar>"
  have pos: "0 < \<bar>i\<bar>" using False by simp
  have b1: "1 \<le> ?b" using pos by (simp add: bitlen_alt_def)
  from bitlen_bounds [OF pos] have "(2::int) ^ nat (?b - 1) \<le> \<bar>i\<bar>" ..
  with assms have "(2::int) ^ nat (?b - 1) < 2 ^ 53" by linarith
  then have "nat (?b - 1) < 53"
    by (rule power_less_imp_less_exp [rotated]) simp
  then have b2: "?b \<le> 53" by linarith
  have ex: "binary_exponent (of_int i) = ?b - 1"
  proof -
    have "\<bar>real_of_int i\<bar> = real_of_int \<bar>i\<bar>" by simp
    moreover have "1 \<le> real_of_int \<bar>i\<bar>" using pos by linarith
    ultimately show ?thesis
      by (simp only: binary_exponent_def floor_of_int if_True)
  qed
  define k where "k = nat (53 - ?b)"
  have e: "max (binary_exponent (of_int i) - 52) (- 1074) = - int k"
    using b1 b2 by (simp add: ex k_def)
  have p: "(2::real) powi (- int k) = 1 / 2 ^ k"
    by (simp add: power_int_minus field_simps)
  have "real_of_int i / (1 / 2 ^ k) = real_of_int (i * 2 ^ k)"
    by simp
  then have "round_even (real_of_int i / (1 / 2 ^ k)) = i * 2 ^ k"
    by (simp only: round_even_of_int)
  then show ?thesis using False
    by (simp add: round_double_def e p Let_def)
qed

lemma half_le_power:
  assumes "k \<le> 2 ^ 20"
  shows "1 / 2 \<le> (1 - unit_roundoff) ^ k"
proof -
  have "real k \<le> 2 ^ 20" using assms by (metis of_nat_le_iff of_nat_numeral of_nat_power)
  then have "real k * unit_roundoff \<le> 1 / 2"
    by (simp add: unit_roundoff_def field_simps)
  moreover have "1 + real k * (- unit_roundoff) \<le> (1 + (- unit_roundoff)) ^ k"
    by (rule Bernoulli_inequality) (simp add: unit_roundoff_def)
  ultimately show ?thesis by simp
qed

lemma round_double_between:
  assumes "0 \<le> y" and "y = 0 \<or> 1 / 2 ^ 1022 \<le> y"
  shows "(1 - unit_roundoff) * y \<le> round_double y"
    and "round_double y \<le> (1 + unit_roundoff) * y"
proof -
  from assms have "y = 0 \<or> 1 / 2 ^ 1022 \<le> \<bar>y\<bar>" by auto
  from round_double_error [OF this] assms(1)
  have "\<bar>round_double y - y\<bar> \<le> unit_roundoff * y" by simp
  then show "(1 - unit_roundoff) * y \<le> round_double y"
    and "round_double y \<le> (1 + unit_roundoff) * y"
    by (simp_all add: algebra_simps abs_le_iff)
qed

lemma foldl_fadd_between:
  assumes "\<forall>x \<in> set xs. x = 0 \<or> 1 / 2 ^ 1000 \<le> x"
    and "s = 0 \<or> 1 / 2 ^ 1000 \<le> s"
    and "(1 - unit_roundoff) ^ k * s \<le> a"
    and "a \<le> (1 + unit_roundoff) ^ k * s"
    and "k + length xs \<le> 2 ^ 20"
  shows "(1 - unit_roundoff) ^ (k + length xs) * (s + sum_list xs) \<le> foldl fadd a xs \<and>
         foldl fadd a xs \<le> (1 + unit_roundoff) ^ (k + length xs) * (s + sum_list xs)"
  using assms
proof (induction xs arbitrary: a s k)
  case Nil
  then show ?case by simp
next
  case (Cons x xs)
  let ?u = unit_roundoff
  have u: "0 \<le> ?u" "?u \<le> 1" by (simp_all add: unit_roundoff_def)
  have x: "0 \<le> x" "x = 0 \<or> 1 / 2 ^ 1000 \<le> x"
    using Cons.prems(1) by auto
  have s: "0 \<le> s" using Cons.prems(2) by auto
  have k: "k \<le> 2 ^ 20" using Cons.prems(5) by simp
  have lo1: "(1 - ?u) ^ k \<le> 1" using u by (simp add: power_le_one)
  have hi1: "1 \<le> (1 + ?u) ^ k" using u by (simp add: one_le_power)
  have lo0: "0 \<le> (1 - ?u) ^ k" using u by simp
  let ?y = "a + x"
  let ?s = "s + x"
  have s': "?s = 0 \<or> 1 / 2 ^ 1000 \<le> ?s"
    using x s Cons.prems(2) by auto
  have ylo: "(1 - ?u) ^ k * ?s \<le> ?y"
  proof -
    have "(1 - ?u) ^ k * x \<le> 1 * x"
      using lo1 x(1) by (rule mult_right_mono)
    with Cons.prems(3) show ?thesis by (simp add: algebra_simps)
  qed
  have yhi: "?y \<le> (1 + ?u) ^ k * ?s"
  proof -
    have "1 * x \<le> (1 + ?u) ^ k * x"
      using hi1 x(1) by (rule mult_right_mono)
    with Cons.prems(4) show ?thesis by (simp add: algebra_simps)
  qed
  have y0: "0 \<le> ?y"
  proof -
    have "0 \<le> (1 - ?u) ^ k * ?s" using lo0 s x(1) by simp
    with ylo show ?thesis by linarith
  qed
  have yn: "?y = 0 \<or> 1 / 2 ^ 1022 \<le> ?y"
  proof (cases "?s = 0")
    case True
    with yhi y0 show ?thesis by simp
  next
    case False
    with s' have big: "1 / 2 ^ 1000 \<le> ?s" by simp
    have "1 / 2 ^ 1022 \<le> (1 / 2) * (1 / 2 ^ 1000 :: real)" by simp
    also have "\<dots> \<le> (1 - ?u) ^ k * ?s"
      using half_le_power [OF k] big by (intro mult_mono) simp_all
    also note ylo
    finally show ?thesis by simp
  qed
  note r = round_double_between [OF y0 yn]
  have lo: "(1 - ?u) ^ Suc k * ?s \<le> fadd a x"
  proof -
    have "(1 - ?u) * ((1 - ?u) ^ k * ?s) \<le> (1 - ?u) * ?y"
      using ylo u by (intro mult_left_mono) simp_all
    with r(1) show ?thesis by (simp add: fadd_def mult.assoc)
  qed
  have hi: "fadd a x \<le> (1 + ?u) ^ Suc k * ?s"
  proof -
    have "(1 + ?u) * ?y \<le> (1 + ?u) * ((1 + ?u) ^ k * ?s)"
      using yhi u by (intro mult_left_mono) simp_all
    with r(2) show ?thesis by (simp add: fadd_def mult.assoc)
  qed
  have "\<forall>x \<in> set xs. x = 0 \<or> 1 / 2 ^ 1000 \<le> x"
    using Cons.prems(1) by simp
  moreover have "Suc k + length xs \<le> 2 ^ 20"
    using Cons.prems(5) by simp
  ultimately have "(1 - ?u) ^ (Suc k + length xs) * (?s + sum_list xs) \<le> foldl fadd (fadd a x) xs \<and>
         foldl fadd (fadd a x) xs \<le> (1 + ?u) ^ (Suc k + length xs) * (?s + sum_list xs)"
    using s' lo hi by (intro Cons.IH)
  then show ?case by (simp add: add.assoc)
qed

lemma sum_list_zero_or_large:
  fixes c :: real
  assumes "\<forall>x \<in> set xs. x = 0 \<or> c \<le> x" and "0 \<le> c"
  shows "0 \<le> sum_list xs \<and> (sum_list xs = 0 \<or> c \<le> sum_list xs)"
  using assms
proof (induction xs)
  case Nil
  then show ?case by simp
next
  case (Cons a xs)
  then have ih: "0 \<le> sum_list xs" "sum_list xs = 0 \<or> c \<le> sum_list xs"
    by simp_all
  from Cons.prems have a: "a = 0 \<or> c \<le> a" by simp
  from a ih Cons.prems(2) show ?case
    by (elim disjE) simp_all
qed

lemma rounded_mean_between:
  assumes "xs \<noteq> []"
    and "\<forall>x \<in> set xs. x = 0 \<or> 1 / 2 ^ 1000 \<le> x"
    and "length xs \<le> 2 ^ 20"
  shows "(1 - unit_roundoff) ^ Suc (length xs) * (sum_list xs / real (length xs))
           \<le> fdiv (py_sum xs) (real (length xs))"
    and "fdiv (py_sum xs) (real (length xs))
           \<le> (1 + unit_roundoff) ^ Suc (length xs) * (sum_list xs / real (length xs))"
proof -
  let ?u = unit_roundoff
  let ?n = "real (length xs)"
  let ?k = "length xs"
  have u: "0 \<le> ?u" "?u \<le> 1" by (simp_all add: unit_roundoff_def)
  have n: "0 < ?n" using assms(1) by simp
  have n20: "?n \<le> 2 ^ 20" using assms(3)
    by (metis of_nat_le_iff of_nat_numeral of_nat_power)
  have k: "?k \<le> 2 ^ 20" by (rule assms(3))
  from sum_list_zero_or_large [OF assms(2)]
  have t0: "0 \<le> sum_list xs" and t: "sum_list xs = 0 \<or> 1 / 2 ^ 1000 \<le> sum_list xs"
    by simp_all
  have "(1 - ?u) ^ (0 + ?k) * (0 + sum_list xs) \<le> foldl fadd 0 xs \<and>
        foldl fadd 0 xs \<le> (1 + ?u) ^ (0 + ?k) * (0 + sum_list xs)"
    using assms(2) k by (intro foldl_fadd_between) simp_all
  then have slo: "(1 - ?u) ^ ?k * sum_list xs \<le> py_sum xs"
    and shi: "py_sum xs \<le> (1 + ?u) ^ ?k * sum_list xs"
    by (simp_all add: py_sum_def)
  let ?q = "py_sum xs / ?n"
  have qlo: "(1 - ?u) ^ ?k * (sum_list xs / ?n) \<le> ?q"
    using slo n by (simp add: divide_right_mono)
  have qhi: "?q \<le> (1 + ?u) ^ ?k * (sum_list xs / ?n)"
    using shi n by (simp add: divide_right_mono)
  have s0: "0 \<le> py_sum xs"
  proof -
    have "0 \<le> (1 - ?u) ^ ?k * sum_list xs" using u t0 by simp
    with slo show ?thesis by linarith
  qed
  have q0: "0 \<le> ?q" using s0 n by simp
  have qn: "?q = 0 \<or> 1 / 2 ^ 1022 \<le> ?q"
  proof (cases "sum_list xs = 0")
    case True
    with shi s0 show ?thesis by simp
  next
    case False
    with t have big: "1 / 2 ^ 1000 \<le> sum_list xs" by simp
    have "(1 / 2) * (1 / 2 ^ 1000 :: real) \<le> (1 - ?u) ^ ?k * sum_list xs"
      using half_le_power [OF k] big by (intro mult_mono) simp_all
    with slo have "1 / 2 ^ 1001 \<le> py_sum xs" by simp
    then have "(1 / 2 ^ 1001) / 2 ^ 20 \<le> py_sum xs / 2 ^ 20"
      by (rule divide_right_mono) simp
    moreover have "1 / 2 ^ 1022 \<le> (1 / 2 ^ 1001) / (2 ^ 20 :: real)"
      by simp
    ultimately have "1 / 2 ^ 1022 \<le> py_sum xs / 2 ^ 20"
      by (rule order_trans [rotated])
    also have "\<dots> \<le> ?q"
      using n n20 s0 by (intro divide_left_mono) simp_all
    finally show ?thesis by simp
  qed
  note r = round_double_between [OF q0 qn]
  have "(1 - ?u) * ((1 - ?u) ^ ?k * (sum_list xs / ?n)) \<le> (1 - ?u) * ?q"
    using qlo u by (intro mult_left_mono) simp_all
  with r(1) show "(1 - ?u) ^ Suc ?k * (sum_list xs / ?n) \<le> fdiv (py_sum xs) ?n"
    by (simp add: fdiv_def mult.assoc)
  have "(1 + ?u) * ?q \<le> (1 + ?u) * ((1 + ?u) ^ ?k * (sum_list xs / ?n))"
    using qhi u by (intro mult_left_mono) simp_all
  with r(2) show "fdiv (py_sum xs) ?n \<le> (1 + ?u) ^ Suc ?k * (sum_list xs / ?n)"
    by (simp add: fdiv_def mult.assoc)
qed

subsection \<open>Minimum, maximum and the workloads\<close>

lemma Min_insert_step:
  "Min (insert (if y < a then y else a) (set ys)) = Min (insert a (insert y (set ys)))"
  for a :: real
proof (cases "set ys = {}")
  case True
  then show ?thesis by (simp add: min_def)
next
  case False
  have 1: "Min (insert a (insert y (set ys))) = min a (Min (insert y (set ys)))"
    by (rule Min_insert) simp_all
  have 2: "Min (insert y (set ys)) = min y (Min (set ys))"
    by (rule Min_insert) (use False in simp_all)
  have 3: "Min (insert (min a y) (set ys)) = min (min a y) (Min (set ys))"
    by (rule Min_insert) (use False in simp_all)
  have 4: "(if y < a then y else a) = min a y"
    by (simp add: min_def)
  show ?thesis
    unfolding 1 2 4 3 by (simp add: min.assoc)
qed

lemma Max_insert_step:
  "Max (insert (if a < y then y else a) (set ys)) = Max (insert a (insert y (set ys)))"
  for a :: real
proof (cases "set ys = {}")
  case True
  then show ?thesis by (simp add: max_def)
next
  case False
  have 1: "Max (insert a (insert y (set ys))) = max a (Max (insert y (set ys)))"
    by (rule Max_insert) simp_all
  have 2: "Max (insert y (set ys)) = max y (Max (set ys))"
    by (rule Max_insert) (use False in simp_all)
  have 3: "Max (insert (max a y) (set ys)) = max (max a y) (Max (set ys))"
    by (rule Max_insert) (use False in simp_all)
  have 4: "(if a < y then y else a) = max a y"
    by (simp add: max_def)
  show ?thesis
    unfolding 1 2 4 3 by (simp add: max.assoc)
qed

lemma foldl_min: "foldl (\<lambda>m y. if y < m then y else m) a xs = Min (insert a (set xs))"
  for a :: real
proof (induction xs arbitrary: a)
  case Nil
  then show ?case by simp
next
  case (Cons y ys)
  have "foldl (\<lambda>m y. if y < m then y else m) a (y # ys)
        = Min (insert (if y < a then y else a) (set ys))"
    by (simp add: Cons del: Min_insert)
  also have "\<dots> = Min (insert a (insert y (set ys)))"
    by (rule Min_insert_step)
  finally show ?case by (simp del: Min_insert)
qed

lemma foldl_max: "foldl (\<lambda>m y. if m < y then y else m) a xs = Max (insert a (set xs))"
  for a :: real
proof (induction xs arbitrary: a)
  case Nil
  then show ?case by simp
next
  case (Cons y ys)
  have "foldl (\<lambda>m y. if m < y then y else m) a (y # ys)
        = Max (insert (if a < y then y else a) (set ys))"
    by (simp add: Cons del: Max_insert)
  also have "\<dots> = Max (insert a (insert y (set ys)))"
    by (rule Max_insert_step)
  finally show ?case by (simp del: Max_insert)
qed

lemma py_min_eq: "xs \<noteq> [] \<Longrightarrow> py_min xs = Min (set xs)"
  by (cases xs) (simp_all add: foldl_min del: Min_insert)

lemma py_max_eq: "xs \<noteq> [] \<Longrightarrow> py_max xs = Max (set xs)"
  by (cases xs) (simp_all add: foldl_max del: Max_insert)

lemma sum_list_lower: "\<forall>x \<in> set xs. m \<le> x \<Longrightarrow> real (length xs) * m \<le> sum_list xs"
  by (induction xs) (auto simp: algebra_simps)

lemma sum_list_upper: "\<forall>x \<in> set xs. x \<le> m \<Longrightarrow> sum_list xs \<le> real (length xs) * m"
  by (induction xs) (auto simp: algebra_simps)

lemma mean_between:
  assumes "xs \<noteq> []"
  shows "Min (set xs) \<le> sum_list xs / real (length xs)"
    and "sum_list xs / real (length xs) \<le> Max (set xs)"
proof -
  have pos: "0 < real (length xs)" using assms by simp
  have "real (length xs) * Min (set xs) \<le> sum_list xs"
    by (rule sum_list_lower) simp
  then show "Min (set xs) \<le> sum_list xs / real (length xs)"
    using pos by (simp add: pos_le_divide_eq mult.commute)
  have "sum_list xs \<le> real (length xs) * Max (set xs)"
    by (rule sum_list_upper) simp
  then show "sum_list xs / real (length xs) \<le> Max (set xs)"
    using pos by (simp add: pos_divide_le_eq mult.commute)
qed

lemma w_bindE:
  assumes "w_bind m f w = (Inr y, w')"
  obtains x w1 where "m w = (Inr x, w1)" and "f x w1 = (Inr y, w')"
  using assms unfolding w_bind_def
  by (cases "m w") (auto split: sum.splits)

lemma w_return_eq [simp]: "w_return x w = (r, w') \<longleftrightarrow> r = Inr x \<and> w' = w"
  by (auto simp: w_return_def)

lemma w_lift_eq [simp]: "w_lift v w = (r, w') \<longleftrightarrow> r = v \<and> w' = w"
  by (auto simp: w_lift_def)

lemma benchmark_block_validation_Inr:
  assumes "benchmark_block_validation w = (Inr r, w')"
  obtains address w1 tms where "rpc_call ''getnewaddress'' w = (Inr address, w1)"
    and "block_loop 10 [] w1 = (Inr tms, w')" and "r = reduce_times tms []"
  using assms unfolding benchmark_block_validation_def
  by (elim w_bindE) auto

lemma benchmark_hash_operations_Inr:
  assumes "benchmark_hash_operations w = (Inr r, w')"
  obtains w1 tms where "hash_loop 100 [] w1 = (Inr tms, w')"
    and "r = reduce_times tms
               [(''note'', JStr ''Using getblockhash as proxy for SHA256 operations'')]"
  using assms unfolding benchmark_hash_operations_def
  by (elim w_bindE) auto

lemma benchmark_transaction_validation_Inr:
  assumes "benchmark_transaction_validation w = (Inr r, w')"
  shows "(\<exists>msg. r = [(''error'', JStr msg)]) \<or>
         (\<exists>signed_tx w1 tms. tx_loop 50 signed_tx [] w1 = (Inr tms, w') \<and>
            r = reduce_times tms [])"
  using assms unfolding benchmark_transaction_validation_def
  apply (elim w_bindE)
  apply (simp split: if_splits)
  apply (elim w_bindE)
  apply (simp split: if_splits)
  apply (elim w_bindE)
  apply (simp split: if_splits)
  apply (elim w_bindE)
  apply (simp split: if_splits)
  apply (elim w_bindE)
  apply simp
  apply blast
  done

lemma reduce_times_nonempty:
  assumes "tms \<noteq> []"
  shows "reduce_times tms note =
           [(''mean_ms'', JNum (fdiv (py_sum tms) (real (length tms)))),
            (''min_ms'', JNum (Min (set tms))),
            (''max_ms'', JNum (Max (set tms))),
            (''samples'', JNum (real (length tms)))] @ note"
  using assms by (simp add: reduce_times_def py_min_eq py_max_eq)

lemma rpc_call_steady:
  assumes "steady w v d"
  shows "fst (rpc_call m w) = Inr v"
    and "steady (snd (rpc_call m w)) v d"
    and "perf_counter (snd (rpc_call m w)) = perf_counter w + d"
proof -
  obtain res seconds where c: "cli_results w (calls w) = (res, seconds)"
    by (cases "cli_results w (calls w)")
  from assms have "rpc_value (json_loads w) (fst (cli_results w (calls w))) = Inr v"
    and "snd (cli_results w (calls w)) = d"
    by (simp_all add: steady_def)
  with c have 1: "rpc_value (json_loads w) res = Inr v" and 2: "seconds = d"
    by simp_all
  from c 1 show "fst (rpc_call m w) = Inr v"
    by (simp add: rpc_call_def)
  from c 2 show "perf_counter (snd (rpc_call m w)) = perf_counter w + d"
    by (simp add: rpc_call_def)
  from assms c show "steady (snd (rpc_call m w)) v d"
    by (simp add: rpc_call_def steady_def)
qed

lemma w_bind_fst: "fst (m w) = Inr x \<Longrightarrow> w_bind m f w = f x (snd (m w))"
  by (cases "m w") (simp add: w_bind_def)

lemma rpc_bind:
  "fst (rpc_call m w) = Inr x \<Longrightarrow> w_bind (rpc_call m) f w = f x (snd (rpc_call m w))"
  by (rule w_bind_fst)

lemma hash_loop_steady:
  assumes "steady w v d"
  shows "fst (hash_loop k tms w) = Inr (tms @ (if truthy v then replicate k (fmul (round_double d) 1000) else []))
         \<and> steady (snd (hash_loop k tms w)) v d"
  using assms
proof (induction k arbitrary: tms w)
  case 0
  then show ?case by simp
next
  case (Suc k)
  let ?w1 = "snd (rpc_call ''getblockhash'' w)"
  note r = rpc_call_steady [OF Suc.prems, of "''getblockhash''"]
  have s: "hash_loop (Suc k) tms w =
           hash_loop k (if truthy v then tms @ [fmul (round_double d) 1000] else tms) ?w1"
    using r(1,3) by (cases "rpc_call ''getblockhash'' w") (simp add: fsub_def)
  from Suc.IH [OF r(2), of "if truthy v then tms @ [fmul (round_double d) 1000] else tms"]
  show ?case
    unfolding s by (simp add: replicate_app_Cons_same)
qed

lemma block_loop_steady:
  assumes "steady w v d"
  shows "fst (block_loop k tms w) = Inr (tms @ (if truthy v then replicate k (fmul (round_double d) 1000) else []))
         \<and> steady (snd (block_loop k tms w)) v d"
  using assms
proof (induction k arbitrary: tms w)
  case 0
  then show ?case by simp
next
  case (Suc k)
  let ?w1 = "snd (rpc_call ''generatetoaddress'' w)"
  note r = rpc_call_steady [OF Suc.prems, of "''generatetoaddress''"]
  have s: "block_loop (Suc k) tms w =
           block_loop k (if truthy v then tms @ [fmul (round_double d) 1000] else tms) ?w1"
    using r(1,3) by (cases "rpc_call ''generatetoaddress'' w") (simp add: fsub_def)
  from Suc.IH [OF r(2), of "if truthy v then tms @ [fmul (round_double d) 1000] else tms"]
  show ?case
    unfolding s by (simp add: replicate_app_Cons_same)
qed

lemma benchmark_block_validation_steady:
  assumes "steady w v d"
  shows "fst (benchmark_block_validation w) =
           Inr (reduce_times (if truthy v then replicate 10 (fmul (round_double d) 1000) else []) [])
         \<and> steady (snd (benchmark_block_validation w)) v d"
proof -
  let ?w1 = "snd (rpc_call ''getnewaddress'' w)"
  note r = rpc_call_steady [OF assms, of "''getnewaddress''"]
  note l = block_loop_steady [OF r(2), of 10 "[]"]
  have "benchmark_block_validation w =
          w_bind (block_loop 10 []) (\<lambda>tms. w_return (reduce_times tms [])) ?w1"
    unfolding benchmark_block_validation_def
    by (rule rpc_bind) (rule r(1))
  also have "\<dots> = (Inr (reduce_times (if truthy v then replicate 10 (fmul (round_double d) 1000) else []) []),
                      snd (block_loop 10 [] ?w1))"
    using l by (cases "block_loop 10 [] ?w1") (simp add: w_bind_def w_return_def)
  finally show ?thesis using l by simp
qed

lemma benchmark_hash_operations_steady:
  assumes "steady w (JNum h) d"
  shows "fst (benchmark_hash_operations w) =
           Inr (reduce_times (if h \<noteq> 0 then replicate 100 (fmul (round_double d) 1000) else [])
                  [(''note'', JStr ''Using getblockhash as proxy for SHA256 operations'')])
         \<and> steady (snd (benchmark_hash_operations w)) (JNum h) d"
proof -
  let ?note = "[(''note'', JStr ''Using getblockhash as proxy for SHA256 operations'')]"
  let ?w1 = "snd (rpc_call ''getblockcount'' w)"
  note r1 = rpc_call_steady [OF assms, of "''getblockcount''"]
  let ?w2 = "snd (rpc_call ''getnewaddress'' ?w1)"
  note r2 = rpc_call_steady [OF r1(2), of "''getnewaddress''"]
  let ?w3 = "snd (rpc_call ''generatetoaddress'' ?w2)"
  note r3 = rpc_call_steady [OF r2(2), of "''generatetoaddress''"]
  let ?wl = "if h < 100 then ?w3 else ?w1"
  let ?rest = "\<lambda>u :: unit. w_bind (hash_loop 100 [])
                 (\<lambda>tms. w_return (reduce_times tms ?note))"
  have st: "steady ?wl (JNum h) d"
    using r1(2) r3(2) by simp
  note l = hash_loop_steady [OF st, of 100 "[]"]
  have ext: "w_bind (rpc_call ''getnewaddress'') (\<lambda>address.
                  w_bind (rpc_call ''generatetoaddress'') (\<lambda>r. w_return ())) ?w1
             = (Inr (), ?w3)"
    by (simp add: rpc_bind [OF r2(1)] rpc_bind [OF r3(1)] w_return_def)
  have pre: "w_bind (if h < 100
             then w_bind (rpc_call ''getnewaddress'') (\<lambda>address.
                  w_bind (rpc_call ''generatetoaddress'') (\<lambda>r. w_return ()))
             else w_return ()) ?rest ?w1 = ?rest () ?wl"
  proof (cases "h < 100")
    case True
    then show ?thesis
      by (simp add: w_bind_def [of "w_bind _ _"] ext)
  next
    case False
    then show ?thesis
      by (simp add: w_bind_def [of "w_return ()"] w_return_def)
  qed
  have "benchmark_hash_operations w =
          w_bind (w_lift (height_low (JNum h))) (\<lambda>low.
            w_bind (if low
             then w_bind (rpc_call ''getnewaddress'') (\<lambda>address.
                  w_bind (rpc_call ''generatetoaddress'') (\<lambda>r. w_return ()))
             else w_return ()) ?rest) ?w1"
    unfolding benchmark_hash_operations_def
    by (rule rpc_bind) (rule r1(1))
  also have "\<dots> = w_bind (if h < 100
             then w_bind (rpc_call ''getnewaddress'') (\<lambda>address.
                  w_bind (rpc_call ''generatetoaddress'') (\<lambda>r. w_return ()))
             else w_return ()) ?rest ?w1"
    by (simp add: w_bind_def [of "w_lift _"] w_lift_def height_low_def)
  also have "\<dots> = ?rest () ?wl"
    by (rule pre)
  also have "\<dots> = (Inr (reduce_times (if h \<noteq> 0 then replicate 100 (fmul (round_double d) 1000) else []) ?note),
                      snd (hash_loop 100 [] ?wl))"
    using l by (cases "hash_loop 100 [] ?wl") (simp add: w_bind_def w_return_def)
  finally show ?thesis using l by simp
qed

lemma foldl_fadd_ones:
  "int k + int n < 2 ^ 53 \<Longrightarrow> foldl fadd (real k) (replicate n 1) = real (k + n)"
proof (induction n arbitrary: k)
  case 0
  then show ?case by simp
next
  case (Suc n)
  have "\<bar>int (Suc k)\<bar> < 2 ^ 53"
    using Suc.prems by linarith
  from round_double_of_int [OF this] have "fadd (real k) 1 = real (Suc k)"
    by (simp add: fadd_def add.commute)
  moreover have "int (Suc k) + int n < 2 ^ 53"
    using Suc.prems by linarith
  ultimately show ?case
    using Suc.IH [of "Suc k"] by simp
qed

lemma reduce_times_replicate:
  assumes "0 < n" and "int n < 2 ^ 53"
  shows "reduce_times (replicate n 1) extra =
     [(''mean_ms'', JNum 1), (''min_ms'', JNum 1), (''max_ms'', JNum 1),
      (''samples'', JNum (real n))] @ extra"
proof -
  have "py_sum (replicate n 1) = real n"
    using foldl_fadd_ones [of 0 n] assms(2) by (simp add: py_sum_def)
  moreover have "round_double 1 = 1"
    using round_double_of_int [of 1] by simp
  ultimately show ?thesis
    using assms(1) by (simp add: reduce_times_nonempty fdiv_def)
qed

lemma millisecond_sample: "fmul (round_double (1 / 1000)) 1000 = 1"
  by code_simp

lemma late_world_transaction:
  "fst (benchmark_transaction_validation late_world) =
     Inr [(''error'', JStr ''Failed to generate blocks'')]
   \<and> steady (snd (benchmark_transaction_validation late_world)) (JNum 7) (1 / 1000)"
  by (simp add: benchmark_transaction_validation_def w_bind_def rpc_call_def rpc_value_def
        late_world_def w_return_def steady_def)

text \<open>
  Once \<^verbatim>\<open>start_bitcoind\<close> has returned \<^verbatim>\<open>True\<close>, whatever the \<^verbatim>\<open>try\<close> block does, the run
  ends with the \<^verbatim>\<open>finally\<close> block: the stop is sent and the directory is removed.
\<close>

lemma try_finally_world: "snd (try_finally body handler w) = snd (handler (snd (body w)))"
  by (simp add: try_finally_def split: prod.splits sum.splits)

lemma cleanup_stops:
  "cli_executable w \<Longrightarrow> Stop \<in> set (events (snd (cleanup w)))"
  by (simp add: cleanup_def w_bind_def stop_bitcoind_def remove_regtest_dir_def Let_def
        split: proc_result.splits)

lemma cleanup_removes:
  "stop_result w \<noteq> SpawnFailed \<Longrightarrow> \<not> regtest_dir_exists (snd (cleanup w))"
  by (simp add: cleanup_def w_bind_def stop_bitcoind_def remove_regtest_dir_def Let_def
        split: proc_result.splits)

lemma cleanup_after_start:
  assumes "start_bitcoind w = (Inr True, w1)"
  shows "\<exists>w2. snd (run_all_benchmarks w) = snd (cleanup w2)"
  using assms
  by (auto simp: run_all_benchmarks_def w_bind_def try_finally_world Let_def)

subsection \<open>Claims about the Bitcoin Core benchmark\<close>

text \<open>
  Claim C9, as the code has it. \<^verbatim>\<open>rpc_call\<close> returns \<^verbatim>\<open>None\<close> when the client exits with a
  non-zero status and when the 30-second timeout expires (the outcome \<open>TimedOut\<close>); neither
  raises, and every call returns or raises. The two other failures of \<^verbatim>\<open>subprocess.run\<close> do
  reach the caller, as only \<^verbatim>\<open>TimeoutExpired\<close> is caught: \<^verbatim>\<open>OSError\<close> when the client cannot
  be executed, \<^verbatim>\<open>UnicodeDecodeError\<close> when its output is not text. On status 0 the output is
  decoded as JSON when that is possible; otherwise the text is returned with leading and
  trailing white space stripped, which is the text as it is only when it has none.
\<close>

theorem rpc_call_value:
  assumes "cli_results w (calls w) = (res, seconds)"
  shows "(\<forall>returncode out. res = Exited returncode out \<and> returncode \<noteq> 0 \<longrightarrow>
            fst (rpc_call method w) = Inr JNull) \<and>
         (res = TimedOut \<longrightarrow> fst (rpc_call method w) = Inr JNull) \<and>
         (res = SpawnFailed \<longrightarrow> fst (rpc_call method w) = Inl OSError) \<and>
         (res = Undecodable \<longrightarrow> fst (rpc_call method w) = Inl UnicodeDecodeError) \<and>
         (\<forall>out v. res = Exited 0 out \<and> json_loads w out = Some v \<longrightarrow>
            fst (rpc_call method w) = Inr v) \<and>
         (\<forall>out. res = Exited 0 out \<and> json_loads w out = None \<longrightarrow>
            fst (rpc_call method w) = Inr (JStr (strip out)) \<and>
            (strip out = out \<longleftrightarrow> out = [] \<or> (\<not> is_space (hd out) \<and> \<not> is_space (last out))))"
  using assms by (auto simp: rpc_call_def rpc_value_def strip_no_space)

theorem rpc_call_value_witness:
  "cli_results plain_text_world (calls plain_text_world) = (Exited 0 ''bcrt1qexample\<newline>'', 1 / 100) \<and>
   json_loads plain_text_world ''bcrt1qexample\<newline>'' = None \<and>
   fst (rpc_call ''getnewaddress'' plain_text_world) = Inr (JStr (strip ''bcrt1qexample\<newline>'')) \<and>
   cli_results unresponsive_world (calls unresponsive_world) = (Exited 1 [], 1 / 100) \<and>
   fst (rpc_call ''getblockcount'' unresponsive_world) = Inr JNull \<and>
   cli_results missing_client_world (calls missing_client_world) = (SpawnFailed, 0) \<and>
   fst (rpc_call ''getblockcount'' missing_client_world) = Inl OSError"
proof -
  have h: "cli_results plain_text_world (calls plain_text_world)
             = (Exited 0 ''bcrt1qexample\<newline>'', 1 / 100)"
    by (simp add: plain_text_world_def)
  have l: "json_loads plain_text_world ''bcrt1qexample\<newline>'' = None"
    by (simp add: plain_text_world_def)
  have u: "cli_results unresponsive_world (calls unresponsive_world) = (Exited 1 [], 1 / 100)"
    by (simp add: unresponsive_world_def)
  have m: "cli_results missing_client_world (calls missing_client_world) = (SpawnFailed, 0)"
    by (simp add: missing_client_world_def)
  from rpc_call_value [OF h, of "''getnewaddress''"] rpc_call_value [OF u, of "''getblockcount''"]
    rpc_call_value [OF m, of "''getblockcount''"] h l u m
  show ?thesis
    by simp
qed

text \<open>
  The claim as first stated returns the raw text as it is and never raises to the caller.
  The client prints a newline after an address, and \<^verbatim>\<open>rpc_call\<close> returns the address
  without it; with a path that names no client program, \<^verbatim>\<open>rpc_call\<close> raises \<^verbatim>\<open>OSError\<close>.
\<close>

theorem raw_text_stripped_counterexample:
  "json_loads plain_text_world ''bcrt1qexample\<newline>'' = None \<and>
   cli_results plain_text_world (calls plain_text_world) = (Exited 0 ''bcrt1qexample\<newline>'', 1 / 100) \<and>
   fst (rpc_call ''getnewaddress'' plain_text_world) = Inr (JStr ''bcrt1qexample'') \<and>
   fst (rpc_call ''getnewaddress'' plain_text_world) \<noteq> Inr (JStr ''bcrt1qexample\<newline>'') \<and>
   fst (rpc_call ''getblockcount'' missing_client_world) = Inl OSError"
  by (simp add: plain_text_world_def missing_client_world_def rpc_call_def rpc_value_def
        strip_def is_space_def)

text \<open>
  Claim C6, as the code has it. For a non-empty list of collected sample times the
  reduction returns \<^verbatim>\<open>min_ms\<close> equal to the minimum and \<^verbatim>\<open>max_ms\<close> equal to the maximum of
  the samples, so \<open>min_ms \<le> max_ms\<close>, and \<^verbatim>\<open>samples\<close> equal to their number. \<^verbatim>\<open>mean_ms\<close> is
  \<^verbatim>\<open>sum(times) / len(times)\<close> in float arithmetic: the additions are rounded one by one
  from the left and the quotient is rounded once more. It is the arithmetic mean up to
  these roundings only: for at most \<open>2 ^ 20\<close> samples, each of them zero or between
  \<open>1 / 2 ^ 1000\<close> and \<open>2 ^ 1000\<close> milliseconds, it lies within the factors
  \<open>(1 - unit_roundoff) ^ (n + 1)\<close> and \<open>(1 + unit_roundoff) ^ (n + 1)\<close> of the arithmetic mean,
  hence between \<open>min_ms\<close> times the first factor and \<open>max_ms\<close> times the second. The keys
  are \<^verbatim>\<open>mean_ms\<close>, \<^verbatim>\<open>min_ms\<close>, \<^verbatim>\<open>max_ms\<close> and \<^verbatim>\<open>samples\<close> (and the note of the hash
  workload), so there is no median and no confidence interval. Every workload that
  returns without raising returns an early error object or this reduction of the samples
  its timed loop collected.
\<close>

theorem reduction_of_samples:
  assumes "tms \<noteq> []"
  shows "map_of (reduce_times tms []) ''mean_ms''
           = Some (JNum (fdiv (py_sum tms) (real (length tms)))) \<and>
         map_of (reduce_times tms []) ''min_ms'' = Some (JNum (Min (set tms))) \<and>
         map_of (reduce_times tms []) ''max_ms'' = Some (JNum (Max (set tms))) \<and>
         map_of (reduce_times tms []) ''samples'' = Some (JNum (real (length tms))) \<and>
         Min (set tms) \<le> Max (set tms) \<and>
         ((\<forall>x \<in> set tms. (x = 0 \<or> 1 / 2 ^ 1000 \<le> x) \<and> x \<le> 2 ^ 1000) \<and>
          length tms \<le> 2 ^ 20 \<longrightarrow>
            (1 - unit_roundoff) ^ Suc (length tms) * (sum_list tms / real (length tms))
              \<le> fdiv (py_sum tms) (real (length tms)) \<and>
            fdiv (py_sum tms) (real (length tms))
              \<le> (1 + unit_roundoff) ^ Suc (length tms) * (sum_list tms / real (length tms)) \<and>
            (1 - unit_roundoff) ^ Suc (length tms) * Min (set tms)
              \<le> fdiv (py_sum tms) (real (length tms)) \<and>
            fdiv (py_sum tms) (real (length tms))
              \<le> (1 + unit_roundoff) ^ Suc (length tms) * Max (set tms)) \<and>
         map fst (reduce_times tms []) = [''mean_ms'', ''min_ms'', ''max_ms'', ''samples''] \<and>
         reduce_times tms [(''note'', JStr ''Using getblockhash as proxy for SHA256 operations'')]
           = reduce_times tms []
             @ [(''note'', JStr ''Using getblockhash as proxy for SHA256 operations'')] \<and>
         ((\<exists>e. fst (benchmark_transaction_validation w) = Inl e) \<or>
          (\<exists>msg. fst (benchmark_transaction_validation w) = Inr [(''error'', JStr msg)]) \<or>
          (\<exists>signed_tx w1 collected.
             tx_loop 50 signed_tx [] w1 = (Inr collected, snd (benchmark_transaction_validation w)) \<and>
             fst (benchmark_transaction_validation w) = Inr (reduce_times collected []))) \<and>
         ((\<exists>e. fst (benchmark_block_validation w) = Inl e) \<or>
          (\<exists>w1 collected.
             block_loop 10 [] w1 = (Inr collected, snd (benchmark_block_validation w)) \<and>
             fst (benchmark_block_validation w) = Inr (reduce_times collected []))) \<and>
         ((\<exists>e. fst (benchmark_hash_operations w) = Inl e) \<or>
          (\<exists>w1 collected.
             hash_loop 100 [] w1 = (Inr collected, snd (benchmark_hash_operations w)) \<and>
             fst (benchmark_hash_operations w) =
               Inr (reduce_times collected
                     [(''note'', JStr ''Using getblockhash as proxy for SHA256 operations'')])))"
proof (intro conjI)
  note r = reduce_times_nonempty [OF assms]
  let ?mean = "fdiv (py_sum tms) (real (length tms))"
  show "map_of (reduce_times tms []) ''mean_ms'' = Some (JNum ?mean)"
    by (simp add: r)
  show "map_of (reduce_times tms []) ''min_ms'' = Some (JNum (Min (set tms)))"
    by (simp add: r)
  show "map_of (reduce_times tms []) ''max_ms'' = Some (JNum (Max (set tms)))"
    by (simp add: r)
  show "map_of (reduce_times tms []) ''samples'' = Some (JNum (real (length tms)))"
    by (simp add: r)
  show "Min (set tms) \<le> Max (set tms)"
    using assms by (simp add: Min_le_iff)
  show "(\<forall>x \<in> set tms. (x = 0 \<or> 1 / 2 ^ 1000 \<le> x) \<and> x \<le> 2 ^ 1000) \<and>
          length tms \<le> 2 ^ 20 \<longrightarrow>
            (1 - unit_roundoff) ^ Suc (length tms) * (sum_list tms / real (length tms))
              \<le> ?mean \<and>
            ?mean
              \<le> (1 + unit_roundoff) ^ Suc (length tms) * (sum_list tms / real (length tms)) \<and>
            (1 - unit_roundoff) ^ Suc (length tms) * Min (set tms) \<le> ?mean \<and>
            ?mean \<le> (1 + unit_roundoff) ^ Suc (length tms) * Max (set tms)"
  proof
    assume h: "(\<forall>x \<in> set tms. (x = 0 \<or> 1 / 2 ^ 1000 \<le> x) \<and> x \<le> 2 ^ 1000) \<and>
               length tms \<le> 2 ^ 20"
    then have range: "\<forall>x \<in> set tms. x = 0 \<or> 1 / 2 ^ 1000 \<le> x"
      and len: "length tms \<le> 2 ^ 20"
      by simp_all
    let ?lo = "(1 - unit_roundoff) ^ Suc (length tms)"
    let ?hi = "(1 + unit_roundoff) ^ Suc (length tms)"
    let ?avg = "sum_list tms / real (length tms)"
    have f: "0 \<le> ?lo" "0 \<le> ?hi"
      by (simp_all add: unit_roundoff_def)
    note m = rounded_mean_between [OF assms range len]
    note b = mean_between [OF assms]
    have "?lo * Min (set tms) \<le> ?lo * ?avg"
      using b(1) f(1) by (rule mult_left_mono)
    with m(1) have lo: "?lo * Min (set tms) \<le> ?mean" by linarith
    have "?hi * ?avg \<le> ?hi * Max (set tms)"
      using b(2) f(2) by (rule mult_left_mono)
    with m(2) have hi: "?mean \<le> ?hi * Max (set tms)" by linarith
    from m lo hi show "?lo * ?avg \<le> ?mean \<and> ?mean \<le> ?hi * ?avg \<and>
        ?lo * Min (set tms) \<le> ?mean \<and> ?mean \<le> ?hi * Max (set tms)"
      by simp
  qed
  show "map fst (reduce_times tms []) = [''mean_ms'', ''min_ms'', ''max_ms'', ''samples'']"
    by (simp add: r)
  show "reduce_times tms [(''note'', JStr ''Using getblockhash as proxy for SHA256 operations'')]
           = reduce_times tms []
             @ [(''note'', JStr ''Using getblockhash as proxy for SHA256 operations'')]"
    by (simp add: r)
  show "(\<exists>e. fst (benchmark_transaction_validation w) = Inl e) \<or>
          (\<exists>msg. fst (benchmark_transaction_validation w) = Inr [(''error'', JStr msg)]) \<or>
          (\<exists>signed_tx w1 collected.
             tx_loop 50 signed_tx [] w1 = (Inr collected, snd (benchmark_transaction_validation w)) \<and>
             fst (benchmark_transaction_validation w) = Inr (reduce_times collected []))"
  proof (cases "fst (benchmark_transaction_validation w)")
    case (Inl e)
    then show ?thesis by simp
  next
    case (Inr r)
    then have "benchmark_transaction_validation w = (Inr r, snd (benchmark_transaction_validation w))"
      by (metis prod.collapse)
    from benchmark_transaction_validation_Inr [OF this] Inr show ?thesis
      by auto
  qed
  show "(\<exists>e. fst (benchmark_block_validation w) = Inl e) \<or>
          (\<exists>w1 collected.
             block_loop 10 [] w1 = (Inr collected, snd (benchmark_block_validation w)) \<and>
             fst (benchmark_block_validation w) = Inr (reduce_times collected []))"
  proof (cases "fst (benchmark_block_validation w)")
    case (Inl e)
    then show ?thesis by simp
  next
    case (Inr r)
    then have "benchmark_block_validation w = (Inr r, snd (benchmark_block_validation w))"
      by (metis prod.collapse)
    then show ?thesis using Inr
      by (elim benchmark_block_validation_Inr) auto
  qed
  show "(\<exists>e. fst (benchmark_hash_operations w) = Inl e) \<or>
          (\<exists>w1 collected.
             hash_loop 100 [] w1 = (Inr collected, snd (benchmark_hash_operations w)) \<and>
             fst (benchmark_hash_operations w) =
               Inr (reduce_times collected
                     [(''note'', JStr ''Using getblockhash as proxy for SHA256 operations'')]))"
  proof (cases "fst (benchmark_hash_operations w)")
    case (Inl e)
    then show ?thesis by simp
  next
    case (Inr r)
    then have "benchmark_hash_operations w = (Inr r, snd (benchmark_hash_operations w))"
      by (metis prod.collapse)
    then show ?thesis using Inr
      by (elim benchmark_hash_operations_Inr) auto
  qed
qed

theorem reduction_of_samples_witness:
  "[1, 2, 6] \<noteq> ([] :: real list) \<and>
   map_of (reduce_times [1, 2, 6] []) ''mean_ms'' = Some (JNum 3) \<and>
   map_of (reduce_times [1, 2, 6] []) ''min_ms'' = Some (JNum 1) \<and>
   map_of (reduce_times [1, 2, 6] []) ''max_ms'' = Some (JNum 6) \<and>
   map_of (reduce_times [1, 2, 6] []) ''samples'' = Some (JNum 3) \<and>
   (1 - unit_roundoff) ^ 4 * 1 \<le> (3 :: real) \<and>
   (3 :: real) \<le> (1 + unit_roundoff) ^ 4 * 6 \<and>
   map fst (reduce_times [1, 2, 6] []) = [''mean_ms'', ''min_ms'', ''max_ms'', ''samples''] \<and>
   fst (benchmark_block_validation answering_world) =
     Inr [(''mean_ms'', JNum 1), (''min_ms'', JNum 1), (''max_ms'', JNum 1),
          (''samples'', JNum 10)]"
proof -
  have h: "[1, 2, 6] \<noteq> ([] :: real list)" by simp
  have range: "(\<forall>x \<in> set [1, 2, 6 :: real]. (x = 0 \<or> 1 / 2 ^ 1000 \<le> x) \<and> x \<le> 2 ^ 1000) \<and>
               length [1, 2, 6 :: real] \<le> 2 ^ 20"
    by simp
  have mean: "fdiv (py_sum [1, 2, 6]) 3 = 3"
    by code_simp
  have st: "steady answering_world (JNum 7) (1 / 1000)"
    by (simp add: steady_def answering_world_def rpc_value_def)
  have b: "fst (benchmark_block_validation answering_world) =
     Inr [(''mean_ms'', JNum 1), (''min_ms'', JNum 1), (''max_ms'', JNum 1),
          (''samples'', JNum 10)]"
    using benchmark_block_validation_steady [OF st]
    by (simp add: millisecond_sample reduce_times_replicate)
  have bounds: "(1 - unit_roundoff) ^ 4 * 1 \<le> (3 :: real) \<and>
                (3 :: real) \<le> (1 + unit_roundoff) ^ 4 * 6"
    using reduction_of_samples [OF h, of answering_world] range mean
    by (simp add: power4_eq_xxxx mult.assoc)
  from reduction_of_samples [OF h, of answering_world] mean h b bounds show ?thesis
    by simp
qed

text \<open>
  The claim as first stated has \<open>min_ms \<le> mean_ms \<le> max_ms\<close>. Three samples of 0.1 ms, the
  double nearest to one tenth, sum to 0.30000000000000004, and the mean
  0.10000000000000002 is above \<^verbatim>\<open>max_ms\<close>.
\<close>

theorem mean_above_max_counterexample:
  "round_double (1 / 10) = 3602879701896397 / 36028797018963968 \<and>
   reduce_times [3602879701896397 / 36028797018963968,
                 3602879701896397 / 36028797018963968,
                 3602879701896397 / 36028797018963968] [] =
     [(''mean_ms'', JNum (7205759403792795 / 72057594037927936)),
      (''min_ms'', JNum (3602879701896397 / 36028797018963968)),
      (''max_ms'', JNum (3602879701896397 / 36028797018963968)),
      (''samples'', JNum 3)] \<and>
   (3602879701896397 / 36028797018963968 :: real) < 7205759403792795 / 72057594037927936"
proof (intro conjI)
  show "round_double (1 / 10) = 3602879701896397 / 36028797018963968"
    by code_simp
  have "fdiv (py_sum [3602879701896397 / 36028797018963968,
                      3602879701896397 / 36028797018963968,
                      3602879701896397 / 36028797018963968]) 3
        = 7205759403792795 / 72057594037927936"
    by code_simp
  then show "reduce_times [3602879701896397 / 36028797018963968,
                 3602879701896397 / 36028797018963968,
                 3602879701896397 / 36028797018963968] [] =
     [(''mean_ms'', JNum (7205759403792795 / 72057594037927936)),
      (''min_ms'', JNum (3602879701896397 / 36028797018963968)),
      (''max_ms'', JNum (3602879701896397 / 36028797018963968)),
      (''samples'', JNum 3)]"
    by (simp add: reduce_times_def)
  show "(3602879701896397 / 36028797018963968 :: real) < 7205759403792795 / 72057594037927936"
    by simp
qed

text \<open>
  Claim C2 asks that stopping the process and removing the scratch directory run on every
  exit path once the process was started. \<^verbatim>\<open>run_all_benchmarks\<close> returns from
  \<^verbatim>\<open>if not self.start_bitcoind()\<close> before it enters its \<^verbatim>\<open>try\<close>, so when \<^verbatim>\<open>bitcoind\<close> was
  launched and never answered, nothing is stopped and the directory made for the run
  stays. Inside the \<^verbatim>\<open>try\<close> the cleanup does run: when the process stops answering
  after its first answer, the second readiness loop gives up and the stop and the
  removal follow; and in the world that answers 7 to every call the transaction workload
  raises \<^verbatim>\<open>TypeError\<close>, and the stop and the removal follow.
\<close>

theorem unresponsive_start_skips_cleanup:
  "fst (run_all_benchmarks unresponsive_world) =
     Inr [(''error'', JStr ''Failed to start bitcoind'')] \<and>
   Launch \<in> set (events (snd (run_all_benchmarks unresponsive_world))) \<and>
   Stop \<notin> set (events (snd (run_all_benchmarks unresponsive_world))) \<and>
   Rmtree \<notin> set (events (snd (run_all_benchmarks unresponsive_world))) \<and>
   regtest_dir_exists (snd (run_all_benchmarks unresponsive_world)) \<and>
   fst (run_all_benchmarks stalling_world) =
     Inr [(''error'', JStr ''bitcoind not responding after start'')] \<and>
   Stop \<in> set (events (snd (run_all_benchmarks stalling_world))) \<and>
   \<not> regtest_dir_exists (snd (run_all_benchmarks stalling_world)) \<and>
   fst (run_all_benchmarks answering_world) = Inl TypeError \<and>
   events (snd (run_all_benchmarks answering_world)) =
     [Mkdir, Launch, Sleep, Rpc ''getblockcount'', Rpc ''getblockcount'',
      Rpc ''getnewaddress'', Rpc ''generatetoaddress'', Rpc ''listunspent'', Stop, Rmtree] \<and>
   \<not> regtest_dir_exists (snd (run_all_benchmarks answering_world))"
proof (intro conjI)
  show "fst (run_all_benchmarks unresponsive_world) =
     Inr [(''error'', JStr ''Failed to start bitcoind'')]"
    by code_simp
  show "Launch \<in> set (events (snd (run_all_benchmarks unresponsive_world)))"
    by code_simp
  show "Stop \<notin> set (events (snd (run_all_benchmarks unresponsive_world)))"
    by code_simp
  show "Rmtree \<notin> set (events (snd (run_all_benchmarks unresponsive_world)))"
    by code_simp
  show "regtest_dir_exists (snd (run_all_benchmarks unresponsive_world))"
    by code_simp
  show "fst (run_all_benchmarks stalling_world) =
     Inr [(''error'', JStr ''bitcoind not responding after start'')]"
    by code_simp
  show "Stop \<in> set (events (snd (run_all_benchmarks stalling_world)))"
    by code_simp
  show "\<not> regtest_dir_exists (snd (run_all_benchmarks stalling_world))"
    by code_simp
  show "fst (run_all_benchmarks answering_world) = Inl TypeError"
    by code_simp
  show "events (snd (run_all_benchmarks answering_world)) =
     [Mkdir, Launch, Sleep, Rpc ''getblockcount'', Rpc ''getblockcount'',
      Rpc ''getnewaddress'', Rpc ''generatetoaddress'', Rpc ''listunspent'', Stop, Rmtree]"
    by code_simp
  show "\<not> regtest_dir_exists (snd (run_all_benchmarks answering_world))"
    by code_simp
qed

text \<open>
  Claim C8. A workload whose timed loop collected no sample returns the error object
  \<^verbatim>\<open>{"error": "No valid measurements"}\<close>, never a statistic: every result is an error
  object or the reduction of at least one sample. An error object returned by one workload
  does not abort the others: whatever the three workloads return, each is run in turn on
  the state its predecessor left and all three results are stored. In the witness the
  transaction workload fails to generate blocks and the block and hash workloads still
  report 10 and 100 samples.
\<close>

theorem zero_samples_give_error_object:
  assumes "benchmark_transaction_validation w = (Inr tv, w1)"
    and "benchmark_block_validation w1 = (Inr bv, w2)"
    and "benchmark_hash_operations w2 = (Inr ho, w3)"
  shows "run_workloads timestamp w =
           (Inr [(''timestamp'', JNum timestamp), (''system'', JStr ''Bitcoin Core''),
                 (''benchmarks'',
                  JObj [(''transaction_validation'', JObj tv),
                        (''block_validation'', JObj bv),
                        (''hash_operations'', JObj ho)])], w3) \<and>
         reduce_times [] note = [(''error'', JStr ''No valid measurements'')] \<and>
         ((\<exists>msg. tv = [(''error'', JStr msg)]) \<or>
          (\<exists>signed_tx w' t ts. tx_loop 50 signed_tx [] w' = (Inr (t # ts), w1) \<and>
             tv = reduce_times (t # ts) [])) \<and>
         ((\<exists>w'. block_loop 10 [] w' = (Inr [], w2) \<and>
             bv = [(''error'', JStr ''No valid measurements'')]) \<or>
          (\<exists>w' t ts. block_loop 10 [] w' = (Inr (t # ts), w2) \<and>
             bv = reduce_times (t # ts) [])) \<and>
         ((\<exists>w'. hash_loop 100 [] w' = (Inr [], w3) \<and>
             ho = [(''error'', JStr ''No valid measurements'')]) \<or>
          (\<exists>w' t ts. hash_loop 100 [] w' = (Inr (t # ts), w3) \<and>
             ho = reduce_times (t # ts)
                    [(''note'', JStr ''Using getblockhash as proxy for SHA256 operations'')]))"
proof (intro conjI)
  show "run_workloads timestamp w =
           (Inr [(''timestamp'', JNum timestamp), (''system'', JStr ''Bitcoin Core''),
                 (''benchmarks'',
                  JObj [(''transaction_validation'', JObj tv),
                        (''block_validation'', JObj bv),
                        (''hash_operations'', JObj ho)])], w3)"
    using assms by (simp add: run_workloads_def w_bind_def w_return_def)
  have e: "reduce_times [] extra = [(''error'', JStr ''No valid measurements'')]" for extra
    by (simp add: reduce_times_def)
  show "reduce_times [] note = [(''error'', JStr ''No valid measurements'')]"
    by (rule e)
  from benchmark_transaction_validation_Inr [OF assms(1)]
  show "(\<exists>msg. tv = [(''error'', JStr msg)]) \<or>
          (\<exists>signed_tx w' t ts. tx_loop 50 signed_tx [] w' = (Inr (t # ts), w1) \<and>
             tv = reduce_times (t # ts) [])"
  proof (elim disjE exE conjE)
    fix msg assume "tv = [(''error'', JStr msg)]"
    then show ?thesis by blast
  next
    fix signed_tx w' tms
    assume l: "tx_loop 50 signed_tx [] w' = (Inr tms, w1)" and r: "tv = reduce_times tms []"
    show ?thesis
    proof (cases tms)
      case Nil
      with r e show ?thesis by simp
    next
      case (Cons t ts)
      with l r show ?thesis by blast
    qed
  qed
  from assms(2) obtain a wa tms where l: "block_loop 10 [] wa = (Inr tms, w2)"
    and r: "bv = reduce_times tms []"
    by (rule benchmark_block_validation_Inr)
  show "(\<exists>w'. block_loop 10 [] w' = (Inr [], w2) \<and>
             bv = [(''error'', JStr ''No valid measurements'')]) \<or>
          (\<exists>w' t ts. block_loop 10 [] w' = (Inr (t # ts), w2) \<and>
             bv = reduce_times (t # ts) [])"
  proof (cases tms)
    case Nil
    with l r e show ?thesis by auto
  next
    case (Cons t ts)
    with l r show ?thesis by blast
  qed
  from assms(3) obtain wb tms' where l': "hash_loop 100 [] wb = (Inr tms', w3)"
    and r': "ho = reduce_times tms'
               [(''note'', JStr ''Using getblockhash as proxy for SHA256 operations'')]"
    by (rule benchmark_hash_operations_Inr)
  show "(\<exists>w'. hash_loop 100 [] w' = (Inr [], w3) \<and>
             ho = [(''error'', JStr ''No valid measurements'')]) \<or>
          (\<exists>w' t ts. hash_loop 100 [] w' = (Inr (t # ts), w3) \<and>
             ho = reduce_times (t # ts)
                    [(''note'', JStr ''Using getblockhash as proxy for SHA256 operations'')])"
  proof (cases tms')
    case Nil
    with l' r' e show ?thesis by auto
  next
    case (Cons t ts)
    with l' r' show ?thesis by blast
  qed
qed

theorem zero_samples_give_error_object_witness:
  "fst (benchmark_transaction_validation late_world) =
     Inr [(''error'', JStr ''Failed to generate blocks'')] \<and>
   fst (benchmark_block_validation (snd (benchmark_transaction_validation late_world))) =
     Inr [(''mean_ms'', JNum 1), (''min_ms'', JNum 1), (''max_ms'', JNum 1),
          (''samples'', JNum 10)] \<and>
   fst (benchmark_hash_operations
          (snd (benchmark_block_validation (snd (benchmark_transaction_validation late_world))))) =
     Inr [(''mean_ms'', JNum 1), (''min_ms'', JNum 1), (''max_ms'', JNum 1),
          (''samples'', JNum 100),
          (''note'', JStr ''Using getblockhash as proxy for SHA256 operations'')] \<and>
   fst (run_workloads 0 late_world) =
     Inr [(''timestamp'', JNum 0), (''system'', JStr ''Bitcoin Core''),
          (''benchmarks'',
           JObj [(''transaction_validation'',
                  JObj [(''error'', JStr ''Failed to generate blocks'')]),
                 (''block_validation'',
                  JObj [(''mean_ms'', JNum 1), (''min_ms'', JNum 1), (''max_ms'', JNum 1),
                        (''samples'', JNum 10)]),
                 (''hash_operations'',
                  JObj [(''mean_ms'', JNum 1), (''min_ms'', JNum 1), (''max_ms'', JNum 1),
                        (''samples'', JNum 100),
                        (''note'',
                         JStr ''Using getblockhash as proxy for SHA256 operations'')])])]"
proof -
  let ?w1 = "snd (benchmark_transaction_validation late_world)"
  let ?w2 = "snd (benchmark_block_validation ?w1)"
  let ?w3 = "snd (benchmark_hash_operations ?w2)"
  from late_world_transaction have
    f1: "fst (benchmark_transaction_validation late_world) =
     Inr [(''error'', JStr ''Failed to generate blocks'')]"
    and s1: "steady ?w1 (JNum 7) (1 / 1000)"
    by simp_all
  from benchmark_block_validation_steady [OF s1] have
    f2: "fst (benchmark_block_validation ?w1) =
     Inr [(''mean_ms'', JNum 1), (''min_ms'', JNum 1), (''max_ms'', JNum 1),
          (''samples'', JNum 10)]"
    and s2: "steady ?w2 (JNum 7) (1 / 1000)"
    by (simp_all add: millisecond_sample reduce_times_replicate)
  from benchmark_hash_operations_steady [OF s2] have
    f3: "fst (benchmark_hash_operations ?w2) =
     Inr [(''mean_ms'', JNum 1), (''min_ms'', JNum 1), (''max_ms'', JNum 1),
          (''samples'', JNum 100),
          (''note'', JStr ''Using getblockhash as proxy for SHA256 operations'')]"
    by (simp add: millisecond_sample reduce_times_replicate)
  have h1: "benchmark_transaction_validation late_world =
     (Inr [(''error'', JStr ''Failed to generate blocks'')], ?w1)"
    using f1 by (simp add: prod_eq_iff)
  have h2: "benchmark_block_validation ?w1 =
     (Inr [(''mean_ms'', JNum 1), (''min_ms'', JNum 1), (''max_ms'', JNum 1),
          (''samples'', JNum 10)], ?w2)"
    using f2 by (simp add: prod_eq_iff)
  have h3: "benchmark_hash_operations ?w2 =
     (Inr [(''mean_ms'', JNum 1), (''min_ms'', JNum 1), (''max_ms'', JNum 1),
          (''samples'', JNum 100),
          (''note'', JStr ''Using getblockhash as proxy for SHA256 operations'')], ?w3)"
    using f3 by (simp add: prod_eq_iff)
  from zero_samples_give_error_object [OF h1 h2 h3, of 0] have
    "fst (run_workloads 0 late_world) =
     Inr [(''timestamp'', JNum 0), (''system'', JStr ''Bitcoin Core''),
          (''benchmarks'',
           JObj [(''transaction_validation'',
                  JObj [(''error'', JStr ''Failed to generate blocks'')]),
                 (''block_validation'',
                  JObj [(''mean_ms'', JNum 1), (''min_ms'', JNum 1), (''max_ms'', JNum 1),
                        (''samples'', JNum 10)]),
                 (''hash_operations'',
                  JObj [(''mean_ms'', JNum 1), (''min_ms'', JNum 1), (''max_ms'', JNum 1),
                        (''samples'', JNum 100),
                        (''note'',
                         JStr ''Using getblockhash as proxy for SHA256 operations'')])])]"
    by simp
  with f1 f2 f3 show ?thesis by (intro conjI)
qed

end
